theory Spec2Isabelle
  imports Main "HOL-Library.Sublist"
begin

section \<open>The notebook \<^verbatim>\<open>tutorials/OnnxTensorflowExport.ipynb\<close>\<close>

text \<open>
  The notebook has three code cells with statements (a fourth one is empty): the
  conversion cell, the sanity-check cell and the inference cell. Every statement of them
  is an import, a call into TensorFlow, onnx-tensorflow, onnx, numpy or the Python
  runtime, or a print. The libraries are not part of the repository, so they are a
  parameter of the model (the record \<open>lib\<close>): each library function is a function that
  returns a value or raises (\<open>Inl\<close> of an exception). The Python variables of the
  notebook, the files on disk, the open file objects with their buffers and the standard
  output are the explicit state. The list \<open>calls\<close> records every call the cells make, in
  order, with the arguments handed over.
\<close>

subsection \<open>Values\<close>

type_synonym path = string

text \<open>A Python 2 \<^verbatim>\<open>str\<close>: a sequence of bytes.\<close>

type_synonym bytes = string

datatype exn =
    NotFoundError | IOError | DecodeError | EncodeError | ConversionError
  | ValueError | AttributeError | NameError | IndexError | BackendError

text \<open>A numpy array: its shape and its elements in row-major order.\<close>

record 'e ndarray =
  shape :: "nat list"
  data :: "'e list"

text \<open>
  What \<^verbatim>\<open>np.load\<close> returns: an array for a file in \<^verbatim>\<open>.npy\<close> format, an archive object
  (which has no \<^verbatim>\<open>reshape\<close> attribute) for a zip archive.
\<close>

datatype 'e loaded = NdArray "'e ndarray" | NpzFile "(string \<times> 'e ndarray) list"

text \<open>\<^verbatim>\<open>a.size\<close>: the number of elements, the product of the dimensions.\<close>

definition size_nd :: "'e ndarray \<Rightarrow> nat" where
  "size_nd a = prod_list (shape a)"

text \<open>
  \<^verbatim>\<open>a.reshape(newshape)\<close> for a shape without \<^verbatim>\<open>-1\<close>: the same elements under the new
  shape, ValueError when the element counts differ.
\<close>

definition reshape :: "'e ndarray \<Rightarrow> nat list \<Rightarrow> exn + 'e ndarray" where
  "reshape a newshape =
     (if prod_list newshape = size_nd a then Inr (a\<lparr>shape := newshape\<rparr>) else Inl ValueError)"

text \<open>The fields of a graph node that the sanity-check cell prints.\<close>

record node_proto =
  node_input :: "string list"
  node_output :: "string list"
  op_type :: string

text \<open>
  The objects the notebook's variables hold: \<open>'g\<close> a TensorFlow GraphDef, \<open>'m\<close> an ONNX
  ModelProto, \<open>'r\<close> the backend's representation of a model, \<open>'o\<close> what the backend's
  \<^verbatim>\<open>run\<close> returns, \<open>'e\<close> the elements of an array; \<open>VModule\<close> is an imported module and
  \<open>VImported m x\<close> the object \<open>x\<close> imported from the module \<open>m\<close>.
\<close>

datatype ('g, 'm, 'r, 'e, 'o) pyobj =
    VModule string
  | VImported string string
  | VFile path
  | VGraphDef 'g
  | VModel 'm
  | VRep 'r
  | VLoaded "'e loaded"
  | VOutput 'o

text \<open>What is written to the standard output, item by item.\<close>

datatype pitem = PStr string | PInt int | PNode node_proto | PNewline

subsection \<open>The libraries\<close>

record ('g, 'm, 'r, 'e, 'o) lib =
  GraphDef :: 'g
  ParseFromString :: "'g \<Rightarrow> bytes \<Rightarrow> exn + 'g"
  tensorflow_graph_to_onnx_model :: "'g \<Rightarrow> string \<Rightarrow> int \<Rightarrow> exn + 'm"
  SerializeToString :: "'m \<Rightarrow> exn + bytes"
  graph_node :: "'m \<Rightarrow> node_proto list"
  open_error :: "path \<Rightarrow> exn option"
  write_error :: "path \<Rightarrow> bytes \<Rightarrow> (exn \<times> nat) option"
  close_error :: "path \<Rightarrow> (exn \<times> nat) option"
  load_from_string :: "bytes \<Rightarrow> exn + 'm"
  prepare :: "'m \<Rightarrow> exn + 'r"
  np_load_bytes :: "bytes \<Rightarrow> exn + 'e loaded"
  run :: "'r \<Rightarrow> 'e ndarray \<Rightarrow> exn + 'o"
  argmax :: "'o \<Rightarrow> exn + int"

text \<open>
  \<open>GraphDef\<close> is the empty message \<^verbatim>\<open>tf.GraphDef()\<close>; \<open>ParseFromString g b\<close> is the message
  \<open>g\<close> after \<^verbatim>\<open>g.ParseFromString(b)\<close>; \<open>open_error\<close>, \<open>write_error\<close> and \<open>close_error\<close> say
  when the operating system refuses \<^verbatim>\<open>open(path, "wb")\<close>, \<^verbatim>\<open>file.write(bytes)\<close> and the
  flush of \<^verbatim>\<open>file.close()\<close> (no permission, disk full), with which exception, and how many
  of the pending bytes have reached the file by then; \<open>load_from_string\<close> and
  \<open>np_load_bytes\<close> are what \<^verbatim>\<open>onnx.load\<close> and \<^verbatim>\<open>np.load\<close> do with the bytes of the file they
  read. The libraries are installed: an import binds its name and does not fail.
\<close>

datatype ('g, 'm, 'r, 'e, 'o) call =
    Call_GFile path string
  | Call_GraphDef
  | Call_read path
  | Call_ParseFromString 'g bytes
  | Call_tensorflow_graph_to_onnx_model 'g string int
  | Call_open path string
  | Call_SerializeToString 'm
  | Call_write path bytes
  | Call_close path
  | Call_onnx_load path
  | Call_prepare 'm
  | Call_np_load path
  | Call_reshape "'e ndarray" "nat list"
  | Call_run 'r "'e ndarray"
  | Call_argmax 'o

fun call_name :: "('g, 'm, 'r, 'e, 'o) call \<Rightarrow> string" where
  "call_name (Call_GFile _ _) = ''tf.gfile.GFile''"
| "call_name Call_GraphDef = ''tf.GraphDef''"
| "call_name (Call_read _) = ''f.read''"
| "call_name (Call_ParseFromString _ _) = ''graph_def.ParseFromString''"
| "call_name (Call_tensorflow_graph_to_onnx_model _ _ _) = ''tensorflow_graph_to_onnx_model''"
| "call_name (Call_open _ _) = ''open''"
| "call_name (Call_SerializeToString _) = ''onnx_model.SerializeToString''"
| "call_name (Call_write _ _) = ''file.write''"
| "call_name (Call_close _) = ''file.close''"
| "call_name (Call_onnx_load _) = ''onnx.load''"
| "call_name (Call_prepare _) = ''prepare''"
| "call_name (Call_np_load _) = ''np.load''"
| "call_name (Call_reshape _ _) = ''img.reshape''"
| "call_name (Call_run _ _) = ''tf_rep.run''"
| "call_name (Call_argmax _) = ''np.argmax''"

subsection \<open>State, exceptions, sequencing\<close>

record ('g, 'm, 'r, 'e, 'o) state =
  fs :: "path \<rightharpoonup> bytes"
  open_files :: "(path \<times> bytes) list"
  vars :: "string \<rightharpoonup> ('g, 'm, 'r, 'e, 'o) pyobj"
  stdout :: "pitem list"
  calls :: "('g, 'm, 'r, 'e, 'o) call list"

text \<open>
  \<open>fs\<close>: the files and their contents on disk; \<open>open_files\<close>: the file objects the
  notebook has opened and not closed, the newest first, each with the bytes written to
  it that are still in its buffer; \<open>vars\<close>: the variables of the notebook (the kernel's
  namespace, which outlives a cell); \<open>stdout\<close>: the items printed.
\<close>

text \<open>The newest open file object of a path: taking it away, and replacing its buffer.\<close>

fun remove_handle :: "path \<Rightarrow> (path \<times> bytes) list \<Rightarrow> (path \<times> bytes) list" where
  "remove_handle p [] = []"
| "remove_handle p ((q, buf) # hs) = (if p = q then hs else (q, buf) # remove_handle p hs)"

fun set_buffer :: "path \<Rightarrow> bytes \<Rightarrow> (path \<times> bytes) list \<Rightarrow> (path \<times> bytes) list" where
  "set_buffer p b [] = []"
| "set_buffer p b ((q, buf) # hs) = (if p = q then (q, b) # hs else (q, buf) # set_buffer p b hs)"

text \<open>The bytes of a file on disk, none when there is no such file.\<close>

definition on_disk :: "(path \<rightharpoonup> bytes) \<Rightarrow> path \<Rightarrow> bytes" where
  "on_disk files p = (case files p of None \<Rightarrow> [] | Some old \<Rightarrow> old)"

type_synonym ('g, 'm, 'r, 'e, 'o, 'a) py =
  "('g, 'm, 'r, 'e, 'o) state \<Rightarrow> (exn + 'a) \<times> ('g, 'm, 'r, 'e, 'o) state"

definition ret :: "'a \<Rightarrow> ('g, 'm, 'r, 'e, 'o, 'a) py" where
  "ret x = (\<lambda>s. (Inr x, s))"

definition raise :: "exn \<Rightarrow> ('g, 'm, 'r, 'e, 'o, 'a) py" where
  "raise e = (\<lambda>s. (Inl e, s))"

text \<open>A call that returns or raises, as the library decides.\<close>

definition lib_result :: "exn + 'a \<Rightarrow> ('g, 'm, 'r, 'e, 'o, 'a) py" where
  "lib_result r = (\<lambda>s. (r, s))"

text \<open>
  One statement after the other. There is no \<^verbatim>\<open>try\<close> in the notebook: an exception ends
  the cell with the state as it is at that point.
\<close>

definition bnd ::
  "('g, 'm, 'r, 'e, 'o, 'a) py \<Rightarrow> ('a \<Rightarrow> ('g, 'm, 'r, 'e, 'o, 'b) py) \<Rightarrow> ('g, 'm, 'r, 'e, 'o, 'b) py"
where
  "bnd m f = (\<lambda>s. case m s of (Inl e, s') \<Rightarrow> (Inl e, s') | (Inr x, s') \<Rightarrow> f x s')"

definition seq ::
  "('g, 'm, 'r, 'e, 'o, 'a) py \<Rightarrow> ('g, 'm, 'r, 'e, 'o, 'b) py \<Rightarrow> ('g, 'm, 'r, 'e, 'o, 'b) py"
where
  "seq m k = bnd m (\<lambda>_. k)"

definition record_call :: "('g, 'm, 'r, 'e, 'o) call \<Rightarrow> ('g, 'm, 'r, 'e, 'o, unit) py" where
  "record_call c = (\<lambda>s. (Inr (), s\<lparr>calls := calls s @ [c]\<rparr>))"

definition assign ::
  "string \<Rightarrow> ('g, 'm, 'r, 'e, 'o) pyobj \<Rightarrow> ('g, 'm, 'r, 'e, 'o, unit) py" where
  "assign x v = (\<lambda>s. (Inr (), s\<lparr>vars := (vars s)(x \<mapsto> v)\<rparr>))"

text \<open>\<^verbatim>\<open>import m as x\<close> and \<^verbatim>\<open>from m import x\<close> bind the name \<open>x\<close>.\<close>

definition py_import :: "string \<Rightarrow> string \<Rightarrow> ('g, 'm, 'r, 'e, 'o, unit) py" where
  "py_import m x = assign x (VModule m)"

definition py_from_import :: "string \<Rightarrow> string \<Rightarrow> ('g, 'm, 'r, 'e, 'o, unit) py" where
  "py_from_import m x = assign x (VImported m x)"

text \<open>
  The Python 2 \<^verbatim>\<open>print\<close> statement writes each item as soon as its expression is
  evaluated, and the newline at the end.
\<close>

definition print_item :: "pitem \<Rightarrow> ('g, 'm, 'r, 'e, 'o, unit) py" where
  "print_item x = (\<lambda>s. (Inr (), s\<lparr>stdout := stdout s @ [x]\<rparr>))"

definition print_newline :: "('g, 'm, 'r, 'e, 'o, unit) py" where
  "print_newline = (\<lambda>s. (Inr (), s\<lparr>stdout := stdout s @ [PNewline]\<rparr>))"

text \<open>
  The exit of a \<^verbatim>\<open>with\<close> block over a file object: the object is closed whether the body
  returned or raised, and an exception of the body goes on.
\<close>

definition with_exit ::
  "path \<Rightarrow> ('g, 'm, 'r, 'e, 'o, 'a) py \<Rightarrow> ('g, 'm, 'r, 'e, 'o, 'a) py" where
  "with_exit h body =
     (\<lambda>s. case body s of
        (r, s') \<Rightarrow> (r, s'\<lparr>open_files := remove_handle h (open_files s')\<rparr>))"

subsection \<open>The calls of the notebook\<close>

definition GFile :: "path \<Rightarrow> string \<Rightarrow> ('g, 'm, 'r, 'e, 'o, path) py" where
  "GFile p mode =
     seq (record_call (Call_GFile p mode))
       (\<lambda>s. (Inr p, s\<lparr>open_files := (p, []) # open_files s\<rparr>))"

definition GFile_read :: "path \<Rightarrow> ('g, 'm, 'r, 'e, 'o, bytes) py" where
  "GFile_read p =
     seq (record_call (Call_read p))
       (\<lambda>s. case fs s p of None \<Rightarrow> (Inl NotFoundError, s) | Some b \<Rightarrow> (Inr b, s))"

definition new_GraphDef :: "('g, 'm, 'r, 'e, 'o) lib \<Rightarrow> ('g, 'm, 'r, 'e, 'o, 'g) py" where
  "new_GraphDef L = seq (record_call Call_GraphDef) (ret (GraphDef L))"

definition call_ParseFromString ::
  "('g, 'm, 'r, 'e, 'o) lib \<Rightarrow> 'g \<Rightarrow> bytes \<Rightarrow> ('g, 'm, 'r, 'e, 'o, 'g) py" where
  "call_ParseFromString L g b =
     seq (record_call (Call_ParseFromString g b)) (lib_result (ParseFromString L g b))"

definition call_tensorflow_graph_to_onnx_model ::
  "('g, 'm, 'r, 'e, 'o) lib \<Rightarrow> 'g \<Rightarrow> string \<Rightarrow> int \<Rightarrow> ('g, 'm, 'r, 'e, 'o, 'm) py" where
  "call_tensorflow_graph_to_onnx_model L g output opset =
     seq (record_call (Call_tensorflow_graph_to_onnx_model g output opset))
       (lib_result (tensorflow_graph_to_onnx_model L g output opset))"

text \<open>\<^verbatim>\<open>open(p, "wb")\<close> creates the file or empties it.\<close>

definition py_open ::
  "('g, 'm, 'r, 'e, 'o) lib \<Rightarrow> path \<Rightarrow> string \<Rightarrow> ('g, 'm, 'r, 'e, 'o, path) py" where
  "py_open L p mode =
     seq (record_call (Call_open p mode))
       (case open_error L p of
          Some e \<Rightarrow> raise e
        | None \<Rightarrow>
            (\<lambda>s. (Inr p, s\<lparr>fs := (fs s)(p \<mapsto> []), open_files := (p, []) # open_files s\<rparr>)))"

definition call_SerializeToString ::
  "('g, 'm, 'r, 'e, 'o) lib \<Rightarrow> 'm \<Rightarrow> ('g, 'm, 'r, 'e, 'o, bytes) py" where
  "call_SerializeToString L m =
     seq (record_call (Call_SerializeToString m)) (lib_result (SerializeToString L m))"

text \<open>
  \<^verbatim>\<open>file.write(b)\<close> on a closed file raises ValueError. On an open one the bytes go to
  the buffer of the file object; when the operating system refuses the write, the first
  \<open>k\<close> of the pending bytes have reached the file, the rest stay in the buffer, and the
  exception is raised.
\<close>

definition file_write ::
  "('g, 'm, 'r, 'e, 'o) lib \<Rightarrow> path \<Rightarrow> bytes \<Rightarrow> ('g, 'm, 'r, 'e, 'o, unit) py" where
  "file_write L p b =
     seq (record_call (Call_write p b))
       (\<lambda>s. case map_of (open_files s) p of
          None \<Rightarrow> (Inl ValueError, s)
        | Some buf \<Rightarrow>
            (case write_error L p b of
               None \<Rightarrow> (Inr (), s\<lparr>open_files := set_buffer p (buf @ b) (open_files s)\<rparr>)
             | Some (e, k) \<Rightarrow>
                 (Inl e,
                  s\<lparr>fs := (fs s)(p \<mapsto> on_disk (fs s) p @ take k (buf @ b)),
                    open_files := set_buffer p (drop k (buf @ b)) (open_files s)\<rparr>)))"

text \<open>
  \<^verbatim>\<open>file.close()\<close> flushes the buffer to the file and closes the file object; when the
  flush is refused, the first \<open>k\<close> pending bytes have reached the file, the file object
  is closed all the same, and the exception is raised. Closing a closed file does nothing.
\<close>

definition file_close ::
  "('g, 'm, 'r, 'e, 'o) lib \<Rightarrow> path \<Rightarrow> ('g, 'm, 'r, 'e, 'o, unit) py" where
  "file_close L p =
     seq (record_call (Call_close p))
       (\<lambda>s. case map_of (open_files s) p of
          None \<Rightarrow> (Inr (), s)
        | Some buf \<Rightarrow>
            (case close_error L p of
               None \<Rightarrow>
                 (Inr (),
                  s\<lparr>fs := (fs s)(p \<mapsto> on_disk (fs s) p @ buf),
                    open_files := remove_handle p (open_files s)\<rparr>)
             | Some (e, k) \<Rightarrow>
                 (Inl e,
                  s\<lparr>fs := (fs s)(p \<mapsto> on_disk (fs s) p @ take k buf),
                    open_files := remove_handle p (open_files s)\<rparr>)))"

definition onnx_load :: "('g, 'm, 'r, 'e, 'o) lib \<Rightarrow> path \<Rightarrow> ('g, 'm, 'r, 'e, 'o, 'm) py" where
  "onnx_load L p =
     seq (record_call (Call_onnx_load p))
       (\<lambda>s. case fs s p of None \<Rightarrow> (Inl IOError, s) | Some b \<Rightarrow> (load_from_string L b, s))"

definition call_prepare :: "('g, 'm, 'r, 'e, 'o) lib \<Rightarrow> 'm \<Rightarrow> ('g, 'm, 'r, 'e, 'o, 'r) py" where
  "call_prepare L m = seq (record_call (Call_prepare m)) (lib_result (prepare L m))"

definition np_load ::
  "('g, 'm, 'r, 'e, 'o) lib \<Rightarrow> path \<Rightarrow> ('g, 'm, 'r, 'e, 'o, 'e loaded) py" where
  "np_load L p =
     seq (record_call (Call_np_load p))
       (\<lambda>s. case fs s p of None \<Rightarrow> (Inl IOError, s) | Some b \<Rightarrow> (np_load_bytes L b, s))"

text \<open>
  \<^verbatim>\<open>img.reshape(shp)\<close>: an archive object has no such attribute, so the lookup raises
  and no call is made.
\<close>

definition img_reshape :: "'e loaded \<Rightarrow> nat list \<Rightarrow> ('g, 'm, 'r, 'e, 'o, 'e ndarray) py" where
  "img_reshape img shp =
     (case img of
        NdArray a \<Rightarrow> seq (record_call (Call_reshape a shp)) (lib_result (reshape a shp))
      | NpzFile _ \<Rightarrow> raise AttributeError)"

definition call_run ::
  "('g, 'm, 'r, 'e, 'o) lib \<Rightarrow> 'r \<Rightarrow> 'e ndarray \<Rightarrow> ('g, 'm, 'r, 'e, 'o, 'o) py" where
  "call_run L r t = seq (record_call (Call_run r t)) (lib_result (run L r t))"

definition call_argmax :: "('g, 'm, 'r, 'e, 'o) lib \<Rightarrow> 'o \<Rightarrow> ('g, 'm, 'r, 'e, 'o, int) py" where
  "call_argmax L out = seq (record_call (Call_argmax out)) (lib_result (argmax L out))"

subsection \<open>The cells\<close>

text \<open>
  \<^verbatim>\<open>
  import tensorflow as tf
  from onnx_tf.frontend import tensorflow_graph_to_onnx_model

  with tf.gfile.GFile("frozen_graph.pb", "rb") as f:
      graph_def = tf.GraphDef()
      graph_def.ParseFromString(f.read())
      onnx_model = tensorflow_graph_to_onnx_model(graph_def,
                                       "fc2/add",
                                       opset=6)

      file = open("mnist.onnx", "wb")
      file.write(onnx_model.SerializeToString())
      file.close()
  \<close>
  \<^verbatim>\<open>ParseFromString\<close> fills the object that \<^verbatim>\<open>graph_def\<close> is bound to.
\<close>

definition conversion_cell :: "('g, 'm, 'r, 'e, 'o) lib \<Rightarrow> ('g, 'm, 'r, 'e, 'o, unit) py" where
  "conversion_cell L =
     seq (py_import ''tensorflow'' ''tf'') (
     seq (py_from_import ''onnx_tf.frontend'' ''tensorflow_graph_to_onnx_model'') (
     bnd (GFile ''frozen_graph.pb'' ''rb'') (\<lambda>f.
     with_exit f (
       seq (assign ''f'' (VFile f)) (
       bnd (new_GraphDef L) (\<lambda>g0.
       seq (assign ''graph_def'' (VGraphDef g0)) (
       bnd (GFile_read f) (\<lambda>b.
       bnd (call_ParseFromString L g0 b) (\<lambda>g.
       seq (assign ''graph_def'' (VGraphDef g)) (
       bnd (call_tensorflow_graph_to_onnx_model L g ''fc2/add'' 6) (\<lambda>onnx_model.
       seq (assign ''onnx_model'' (VModel onnx_model)) (
       bnd (py_open L ''mnist.onnx'' ''wb'') (\<lambda>file.
       seq (assign ''file'' (VFile file)) (
       bnd (call_SerializeToString L onnx_model) (\<lambda>bs.
       seq (file_write L file bs) (
       file_close L file))))))))))))))))"

text \<open>
  \<^verbatim>\<open>print(onnx_model.graph.node[0])\<close>, reading the variable the conversion cell has left.
\<close>

definition sanity_check_cell ::
  "('g, 'm, 'r, 'e, 'o) lib \<Rightarrow> ('g, 'm, 'r, 'e, 'o, unit) py" where
  "sanity_check_cell L =
     (\<lambda>s. case vars s ''onnx_model'' of
        None \<Rightarrow> (Inl NameError, s)
      | Some (VModel m) \<Rightarrow>
          (case graph_node L m of
             [] \<Rightarrow> (Inl IndexError, s)
           | n # _ \<Rightarrow> seq (print_item (PNode n)) print_newline s)
      | Some _ \<Rightarrow> (Inl AttributeError, s))"

text \<open>
  \<^verbatim>\<open>
  import onnx
  import numpy as np
  from onnx_tf.backend import prepare

  model = onnx.load('mnist.onnx')
  tf_rep = prepare(model)

  img = np.load("./assets/image.npz")
  output = tf_rep.run(img.reshape([1, 784]))
  print "The digit is classified as ", np.argmax(output)
  \<close>
\<close>

definition inference_cell :: "('g, 'm, 'r, 'e, 'o) lib \<Rightarrow> ('g, 'm, 'r, 'e, 'o, unit) py" where
  "inference_cell L =
     seq (py_import ''onnx'' ''onnx'') (
     seq (py_import ''numpy'' ''np'') (
     seq (py_from_import ''onnx_tf.backend'' ''prepare'') (
     bnd (onnx_load L ''mnist.onnx'') (\<lambda>model.
     seq (assign ''model'' (VModel model)) (
     bnd (call_prepare L model) (\<lambda>tf_rep.
     seq (assign ''tf_rep'' (VRep tf_rep)) (
     bnd (np_load L ''./assets/image.npz'') (\<lambda>img.
     seq (assign ''img'' (VLoaded img)) (
     bnd (img_reshape img [1, 784]) (\<lambda>t.
     bnd (call_run L tf_rep t) (\<lambda>output.
     seq (assign ''output'' (VOutput output)) (
     seq (print_item (PStr ''The digit is classified as '')) (
     bnd (call_argmax L output) (\<lambda>n.
     seq (print_item (PInt n))
     print_newline))))))))))))))"

text \<open>The calls a cell makes when run from a state, in order.\<close>

definition trace_of ::
  "('g, 'm, 'r, 'e, 'o, 'a) py \<Rightarrow> ('g, 'm, 'r, 'e, 'o) state \<Rightarrow> ('g, 'm, 'r, 'e, 'o) call list"
where
  "trace_of c s = calls (snd (c (s\<lparr>calls := []\<rparr>)))"

text \<open>The arguments of the conversion calls, of the \<^verbatim>\<open>prepare\<close> calls and of the \<^verbatim>\<open>run\<close> calls in a trace.\<close>

fun conversion_args :: "('g, 'm, 'r, 'e, 'o) call list \<Rightarrow> ('g \<times> string \<times> int) list" where
  "conversion_args [] = []"
| "conversion_args (Call_tensorflow_graph_to_onnx_model g n v # cs) = (g, n, v) # conversion_args cs"
| "conversion_args (_ # cs) = conversion_args cs"

fun prepare_args :: "('g, 'm, 'r, 'e, 'o) call list \<Rightarrow> 'm list" where
  "prepare_args [] = []"
| "prepare_args (Call_prepare m # cs) = m # prepare_args cs"
| "prepare_args (_ # cs) = prepare_args cs"

fun run_args :: "('g, 'm, 'r, 'e, 'o) call list \<Rightarrow> 'e ndarray list" where
  "run_args [] = []"
| "run_args (Call_run r t # cs) = t # run_args cs"
| "run_args (_ # cs) = run_args cs"

text \<open>
  What a call of the cells does when it is made with these arguments and these files on
  disk: the exception it raises, or \<open>None\<close> when it returns.
\<close>

fun raises ::
  "('g, 'm, 'r, 'e, 'o) lib \<Rightarrow> (path \<rightharpoonup> bytes) \<Rightarrow> ('g, 'm, 'r, 'e, 'o) call \<Rightarrow> exn option"
where
  "raises L files (Call_GFile p mode) = None"
| "raises L files Call_GraphDef = None"
| "raises L files (Call_read p) =
     (case files p of None \<Rightarrow> Some NotFoundError | Some b \<Rightarrow> None)"
| "raises L files (Call_ParseFromString g b) =
     (case ParseFromString L g b of Inl e \<Rightarrow> Some e | Inr g' \<Rightarrow> None)"
| "raises L files (Call_tensorflow_graph_to_onnx_model g output opset) =
     (case tensorflow_graph_to_onnx_model L g output opset of Inl e \<Rightarrow> Some e | Inr m \<Rightarrow> None)"
| "raises L files (Call_open p mode) = open_error L p"
| "raises L files (Call_SerializeToString m) =
     (case SerializeToString L m of Inl e \<Rightarrow> Some e | Inr b \<Rightarrow> None)"
| "raises L files (Call_write p b) = map_option fst (write_error L p b)"
| "raises L files (Call_close p) = map_option fst (close_error L p)"
| "raises L files (Call_onnx_load p) =
     (case files p of
        None \<Rightarrow> Some IOError
      | Some b \<Rightarrow> (case load_from_string L b of Inl e \<Rightarrow> Some e | Inr m \<Rightarrow> None))"
| "raises L files (Call_prepare m) =
     (case prepare L m of Inl e \<Rightarrow> Some e | Inr r \<Rightarrow> None)"
| "raises L files (Call_np_load p) =
     (case files p of
        None \<Rightarrow> Some IOError
      | Some b \<Rightarrow> (case np_load_bytes L b of Inl e \<Rightarrow> Some e | Inr a \<Rightarrow> None))"
| "raises L files (Call_reshape a shp) =
     (case reshape a shp of Inl e \<Rightarrow> Some e | Inr t \<Rightarrow> None)"
| "raises L files (Call_run r t) =
     (case run L r t of Inl e \<Rightarrow> Some e | Inr out \<Rightarrow> None)"
| "raises L files (Call_argmax out) =
     (case argmax L out of Inl e \<Rightarrow> Some e | Inr n \<Rightarrow> None)"

text \<open>The calls of the two cells by name, in the order of the source.\<close>

definition conversion_calls :: "string list" where
  "conversion_calls =
     [''tf.gfile.GFile'', ''tf.GraphDef'', ''f.read'', ''graph_def.ParseFromString'',
      ''tensorflow_graph_to_onnx_model'', ''open'', ''onnx_model.SerializeToString'',
      ''file.write'', ''file.close'']"

definition inference_calls :: "string list" where
  "inference_calls =
     [''onnx.load'', ''prepare'', ''np.load'', ''img.reshape'', ''tf_rep.run'', ''np.argmax'']"

subsection \<open>A small library and file system to run the cells on\<close>

text \<open>
  Graphs, models and backend representations are byte strings, the converter prefixes the
  graph with the name of the output node, an array file holds a one-dimensional array of
  its bytes, the backend returns the elements of its input, and a model has one node.
\<close>

definition demo_lib :: "(bytes, bytes, bytes, nat, nat list) lib" where
  "demo_lib =
     \<lparr>GraphDef = [],
      ParseFromString = (\<lambda>g b. Inr (g @ b)),
      tensorflow_graph_to_onnx_model = (\<lambda>g output opset. Inr (output @ '':'' @ g)),
      SerializeToString = (\<lambda>m. Inr m),
      graph_node = (\<lambda>m. [\<lparr>node_input = [m], node_output = [''out''], op_type = ''Identity''\<rparr>]),
      open_error = (\<lambda>p. None),
      write_error = (\<lambda>p b. None),
      close_error = (\<lambda>p. None),
      load_from_string = (\<lambda>b. Inr b),
      prepare = (\<lambda>m. Inr m),
      np_load_bytes = (\<lambda>b. Inr (NdArray \<lparr>shape = [length b], data = map of_char b\<rparr>)),
      run = (\<lambda>r t. Inr (data t)),
      argmax = (\<lambda>out. Inr 0)\<rparr>"

definition demo_state :: "(bytes, bytes, bytes, nat, nat list) state" where
  "demo_state =
     \<lparr>fs = [''frozen_graph.pb'' \<mapsto> ''graph'',
            ''./assets/image.npz'' \<mapsto> replicate 784 (CHR ''p'')],
      open_files = [],
      vars = Map.empty,
      stdout = [],
      calls = []\<rparr>"

text \<open>The same library on a disk that is full: every write is refused, no byte gets through.\<close>

definition disk_full_lib :: "(bytes, bytes, bytes, nat, nat list) lib" where
  "disk_full_lib = demo_lib\<lparr>write_error := (\<lambda>p b. Some (IOError, 0))\<rparr>"


text \<open>The files after the conversion cell has run.\<close>

definition converted_state :: "(bytes, bytes, bytes, nat, nat list) state" where
  "converted_state = demo_state\<lparr>fs := (fs demo_state)(''mnist.onnx'' \<mapsto> ''fc2/add:graph'')\<rparr>"

text \<open>The same files with an image of three elements.\<close>

definition small_image_state :: "(bytes, bytes, bytes, nat, nat list) state" where
  "small_image_state =
     converted_state\<lparr>fs := (fs converted_state)(''./assets/image.npz'' \<mapsto> ''abc'')\<rparr>"

text \<open>Libraries that refuse a graph, a conversion and an inference.\<close>

definition malformed_graph_lib :: "(bytes, bytes, bytes, nat, nat list) lib" where
  "malformed_graph_lib = demo_lib\<lparr>ParseFromString := (\<lambda>g b. Inl DecodeError)\<rparr>"

definition missing_node_lib :: "(bytes, bytes, bytes, nat, nat list) lib" where
  "missing_node_lib =
     demo_lib\<lparr>tensorflow_graph_to_onnx_model :=
       (\<lambda>g output opset. if output = ''fc2/add'' then Inl ConversionError else Inr g)\<rparr>"

definition failing_backend_lib :: "(bytes, bytes, bytes, nat, nat list) lib" where
  "failing_backend_lib = demo_lib\<lparr>run := (\<lambda>r t. Inl BackendError)\<rparr>"

subsection \<open>The freezing command of the notebook's text\<close>

text \<open>
  \<^verbatim>\<open>
  bazel-bin/tensorflow/python/tools/freeze_graph \
      --input_graph=/home/mnist-tf/graph.proto \
      --input_checkpoint=/home/mnist-tf/ckpt/model.ckpt \
      --output_graph=/tmp/frozen_graph.pb \
      --output_node_names=fc2/add \
      --input_binary=True
  \<close>
\<close>

definition freeze_graph_args :: "string list" where
  "freeze_graph_args =
     [''--input_graph=/home/mnist-tf/graph.proto'',
      ''--input_checkpoint=/home/mnist-tf/ckpt/model.ckpt'',
      ''--output_graph=/tmp/frozen_graph.pb'',
      ''--output_node_names=fc2/add'',
      ''--input_binary=True'']"

text \<open>The value of \<^verbatim>\<open>--name=value\<close> among the arguments, the first one that matches.\<close>

fun strip_prefix :: "string \<Rightarrow> string \<Rightarrow> string option" where
  "strip_prefix [] s = Some s"
| "strip_prefix (c # cs) [] = None"
| "strip_prefix (c # cs) (d # ds) = (if c = d then strip_prefix cs ds else None)"

fun flag_value :: "string \<Rightarrow> string list \<Rightarrow> string option" where
  "flag_value name [] = None"
| "flag_value name (a # as) =
     (case strip_prefix (''--'' @ name @ ''='') a of
        Some v \<Rightarrow> Some v
      | None \<Rightarrow> flag_value name as)"

text \<open>The freezing tool reads \<^verbatim>\<open>output_node_names\<close> as a list separated by commas.\<close>

fun split_commas :: "string \<Rightarrow> string list" where
  "split_commas [] = [[]]"
| "split_commas (c # cs) =
     (if c = CHR '','' then [] # split_commas cs
      else (case split_commas cs of [] \<Rightarrow> [[c]] | w # ws \<Rightarrow> (c # w) # ws))"

definition frozen_output_nodes :: "string list" where
  "frozen_output_nodes =
     (case flag_value ''output_node_names'' freeze_graph_args of
        None \<Rightarrow> []
      | Some v \<Rightarrow> split_commas v)"

section \<open>Running the cells\<close>

lemmas py_defs = ret_def raise_def lib_result_def bnd_def seq_def record_call_def assign_def
  py_import_def py_from_import_def print_item_def print_newline_def with_exit_def on_disk_def
  GFile_def GFile_read_def new_GraphDef_def call_ParseFromString_def
  call_tensorflow_graph_to_onnx_model_def py_open_def call_SerializeToString_def file_write_def
  file_close_def onnx_load_def call_prepare_def np_load_def img_reshape_def call_run_def
  call_argmax_def

subsection \<open>The conversion cell, outcome by outcome\<close>

text \<open>
  For each way the calls of the cell can turn out: the result of the cell and the state
  it leaves, with the calls made in \<open>calls\<close>.
\<close>

lemma conversion_no_file:
  assumes "fs s ''frozen_graph.pb'' = None"
  shows "conversion_cell L s =
      (Inl NotFoundError,
       s\<lparr>vars := (vars s)(''tf'' \<mapsto> VModule ''tensorflow'',
         ''tensorflow_graph_to_onnx_model'' \<mapsto> VImported ''onnx_tf.frontend'' ''tensorflow_graph_to_onnx_model'',
         ''f'' \<mapsto> VFile ''frozen_graph.pb'',
         ''graph_def'' \<mapsto> VGraphDef (GraphDef L)),
         calls := calls s @ [Call_GFile ''frozen_graph.pb'' ''rb'', Call_GraphDef,
         Call_read ''frozen_graph.pb'']\<rparr>)"
  using assms by (simp add: conversion_cell_def py_defs)

lemma conversion_parse_fails:
  assumes "fs s ''frozen_graph.pb'' = Some b"
    and "ParseFromString L (GraphDef L) b = Inl e"
  shows "conversion_cell L s =
      (Inl e,
       s\<lparr>vars := (vars s)(''tf'' \<mapsto> VModule ''tensorflow'',
         ''tensorflow_graph_to_onnx_model'' \<mapsto> VImported ''onnx_tf.frontend'' ''tensorflow_graph_to_onnx_model'',
         ''f'' \<mapsto> VFile ''frozen_graph.pb'',
         ''graph_def'' \<mapsto> VGraphDef (GraphDef L)),
         calls := calls s @ [Call_GFile ''frozen_graph.pb'' ''rb'', Call_GraphDef,
         Call_read ''frozen_graph.pb'', Call_ParseFromString (GraphDef L) b]\<rparr>)"
  using assms by (simp add: conversion_cell_def py_defs)

lemma conversion_convert_fails:
  assumes "fs s ''frozen_graph.pb'' = Some b"
    and "ParseFromString L (GraphDef L) b = Inr g"
    and "tensorflow_graph_to_onnx_model L g ''fc2/add'' 6 = Inl e"
  shows "conversion_cell L s =
      (Inl e,
       s\<lparr>vars := (vars s)(''tf'' \<mapsto> VModule ''tensorflow'',
         ''tensorflow_graph_to_onnx_model'' \<mapsto> VImported ''onnx_tf.frontend'' ''tensorflow_graph_to_onnx_model'',
         ''f'' \<mapsto> VFile ''frozen_graph.pb'', ''graph_def'' \<mapsto> VGraphDef g),
         calls := calls s @ [Call_GFile ''frozen_graph.pb'' ''rb'', Call_GraphDef,
         Call_read ''frozen_graph.pb'', Call_ParseFromString (GraphDef L) b,
         Call_tensorflow_graph_to_onnx_model g ''fc2/add'' 6]\<rparr>)"
  using assms by (simp add: conversion_cell_def py_defs)

lemma conversion_open_fails:
  assumes "fs s ''frozen_graph.pb'' = Some b"
    and "ParseFromString L (GraphDef L) b = Inr g"
    and "tensorflow_graph_to_onnx_model L g ''fc2/add'' 6 = Inr m"
    and "open_error L ''mnist.onnx'' = Some e"
  shows "conversion_cell L s =
      (Inl e,
       s\<lparr>vars := (vars s)(''tf'' \<mapsto> VModule ''tensorflow'',
         ''tensorflow_graph_to_onnx_model'' \<mapsto> VImported ''onnx_tf.frontend'' ''tensorflow_graph_to_onnx_model'',
         ''f'' \<mapsto> VFile ''frozen_graph.pb'', ''graph_def'' \<mapsto> VGraphDef g,
         ''onnx_model'' \<mapsto> VModel m),
         calls := calls s @ [Call_GFile ''frozen_graph.pb'' ''rb'', Call_GraphDef,
         Call_read ''frozen_graph.pb'', Call_ParseFromString (GraphDef L) b,
         Call_tensorflow_graph_to_onnx_model g ''fc2/add'' 6,
         Call_open ''mnist.onnx'' ''wb'']\<rparr>)"
  using assms by (simp add: conversion_cell_def py_defs)

lemma conversion_serialize_fails:
  assumes "fs s ''frozen_graph.pb'' = Some b"
    and "ParseFromString L (GraphDef L) b = Inr g"
    and "tensorflow_graph_to_onnx_model L g ''fc2/add'' 6 = Inr m"
    and "open_error L ''mnist.onnx'' = None"
    and "SerializeToString L m = Inl e"
  shows "conversion_cell L s =
      (Inl e,
       s\<lparr>fs := (fs s)(''mnist.onnx'' \<mapsto> []), open_files := (''mnist.onnx'',
         []) # open_files s, vars := (vars s)(''tf'' \<mapsto> VModule ''tensorflow'',
         ''tensorflow_graph_to_onnx_model'' \<mapsto> VImported ''onnx_tf.frontend'' ''tensorflow_graph_to_onnx_model'',
         ''f'' \<mapsto> VFile ''frozen_graph.pb'', ''graph_def'' \<mapsto> VGraphDef g,
         ''onnx_model'' \<mapsto> VModel m, ''file'' \<mapsto> VFile ''mnist.onnx''),
         calls := calls s @ [Call_GFile ''frozen_graph.pb'' ''rb'', Call_GraphDef,
         Call_read ''frozen_graph.pb'', Call_ParseFromString (GraphDef L) b,
         Call_tensorflow_graph_to_onnx_model g ''fc2/add'' 6, Call_open ''mnist.onnx'' ''wb'',
         Call_SerializeToString m]\<rparr>)"
  using assms by (simp add: conversion_cell_def py_defs)

lemma conversion_write_fails:
  assumes "fs s ''frozen_graph.pb'' = Some b"
    and "ParseFromString L (GraphDef L) b = Inr g"
    and "tensorflow_graph_to_onnx_model L g ''fc2/add'' 6 = Inr m"
    and "open_error L ''mnist.onnx'' = None"
    and "SerializeToString L m = Inr bs"
    and "write_error L ''mnist.onnx'' bs = Some (e, k)"
  shows "conversion_cell L s =
      (Inl e,
       s\<lparr>fs := (fs s)(''mnist.onnx'' \<mapsto> take k bs),
         open_files := (''mnist.onnx'', drop k bs) # open_files s,
         vars := (vars s)(''tf'' \<mapsto> VModule ''tensorflow'',
         ''tensorflow_graph_to_onnx_model'' \<mapsto> VImported ''onnx_tf.frontend'' ''tensorflow_graph_to_onnx_model'',
         ''f'' \<mapsto> VFile ''frozen_graph.pb'', ''graph_def'' \<mapsto> VGraphDef g,
         ''onnx_model'' \<mapsto> VModel m, ''file'' \<mapsto> VFile ''mnist.onnx''),
         calls := calls s @ [Call_GFile ''frozen_graph.pb'' ''rb'', Call_GraphDef,
         Call_read ''frozen_graph.pb'', Call_ParseFromString (GraphDef L) b,
         Call_tensorflow_graph_to_onnx_model g ''fc2/add'' 6, Call_open ''mnist.onnx'' ''wb'',
         Call_SerializeToString m, Call_write ''mnist.onnx'' bs]\<rparr>)"
  using assms by (simp add: conversion_cell_def py_defs)

lemma conversion_close_fails:
  assumes "fs s ''frozen_graph.pb'' = Some b"
    and "ParseFromString L (GraphDef L) b = Inr g"
    and "tensorflow_graph_to_onnx_model L g ''fc2/add'' 6 = Inr m"
    and "open_error L ''mnist.onnx'' = None"
    and "SerializeToString L m = Inr bs"
    and "write_error L ''mnist.onnx'' bs = None"
    and "close_error L ''mnist.onnx'' = Some (e, k)"
  shows "conversion_cell L s =
      (Inl e,
       s\<lparr>fs := (fs s)(''mnist.onnx'' \<mapsto> take k bs),
         vars := (vars s)(''tf'' \<mapsto> VModule ''tensorflow'',
         ''tensorflow_graph_to_onnx_model'' \<mapsto> VImported ''onnx_tf.frontend'' ''tensorflow_graph_to_onnx_model'',
         ''f'' \<mapsto> VFile ''frozen_graph.pb'', ''graph_def'' \<mapsto> VGraphDef g,
         ''onnx_model'' \<mapsto> VModel m, ''file'' \<mapsto> VFile ''mnist.onnx''),
         calls := calls s @ [Call_GFile ''frozen_graph.pb'' ''rb'', Call_GraphDef,
         Call_read ''frozen_graph.pb'', Call_ParseFromString (GraphDef L) b,
         Call_tensorflow_graph_to_onnx_model g ''fc2/add'' 6, Call_open ''mnist.onnx'' ''wb'',
         Call_SerializeToString m, Call_write ''mnist.onnx'' bs,
         Call_close ''mnist.onnx'']\<rparr>)"
  using assms by (simp add: conversion_cell_def py_defs)

lemma conversion_ok:
  assumes "fs s ''frozen_graph.pb'' = Some b"
    and "ParseFromString L (GraphDef L) b = Inr g"
    and "tensorflow_graph_to_onnx_model L g ''fc2/add'' 6 = Inr m"
    and "open_error L ''mnist.onnx'' = None"
    and "SerializeToString L m = Inr bs"
    and "write_error L ''mnist.onnx'' bs = None"
    and "close_error L ''mnist.onnx'' = None"
  shows "conversion_cell L s =
      (Inr (),
       s\<lparr>fs := (fs s)(''mnist.onnx'' \<mapsto> bs),
         vars := (vars s)(''tf'' \<mapsto> VModule ''tensorflow'',
         ''tensorflow_graph_to_onnx_model'' \<mapsto> VImported ''onnx_tf.frontend'' ''tensorflow_graph_to_onnx_model'',
         ''f'' \<mapsto> VFile ''frozen_graph.pb'', ''graph_def'' \<mapsto> VGraphDef g,
         ''onnx_model'' \<mapsto> VModel m, ''file'' \<mapsto> VFile ''mnist.onnx''),
         calls := calls s @ [Call_GFile ''frozen_graph.pb'' ''rb'', Call_GraphDef,
         Call_read ''frozen_graph.pb'', Call_ParseFromString (GraphDef L) b,
         Call_tensorflow_graph_to_onnx_model g ''fc2/add'' 6, Call_open ''mnist.onnx'' ''wb'',
         Call_SerializeToString m, Call_write ''mnist.onnx'' bs,
         Call_close ''mnist.onnx'']\<rparr>)"
  using assms by (simp add: conversion_cell_def py_defs)

lemmas conversion_rows = conversion_no_file conversion_parse_fails conversion_convert_fails conversion_open_fails
    conversion_serialize_fails conversion_write_fails conversion_close_fails conversion_ok

text \<open>The outcomes above are all there are.\<close>

lemma conversion_outcomes
  [case_names no_file parse_fails convert_fails open_fails serialize_fails write_fails close_fails ok]:
  fixes L :: "('g, 'm, 'r, 'e, 'o) lib" and s :: "('g, 'm, 'r, 'e, 'o) state"
  obtains "fs s ''frozen_graph.pb'' = None"
  | b e where "fs s ''frozen_graph.pb'' = Some b"
      "ParseFromString L (GraphDef L) b = Inl e"
  | b g e where "fs s ''frozen_graph.pb'' = Some b"
      "ParseFromString L (GraphDef L) b = Inr g"
      "tensorflow_graph_to_onnx_model L g ''fc2/add'' 6 = Inl e"
  | b g m e where "fs s ''frozen_graph.pb'' = Some b"
      "ParseFromString L (GraphDef L) b = Inr g"
      "tensorflow_graph_to_onnx_model L g ''fc2/add'' 6 = Inr m"
      "open_error L ''mnist.onnx'' = Some e"
  | b g m e where "fs s ''frozen_graph.pb'' = Some b"
      "ParseFromString L (GraphDef L) b = Inr g"
      "tensorflow_graph_to_onnx_model L g ''fc2/add'' 6 = Inr m"
      "open_error L ''mnist.onnx'' = None"
      "SerializeToString L m = Inl e"
  | b g m bs e k where "fs s ''frozen_graph.pb'' = Some b"
      "ParseFromString L (GraphDef L) b = Inr g"
      "tensorflow_graph_to_onnx_model L g ''fc2/add'' 6 = Inr m"
      "open_error L ''mnist.onnx'' = None"
      "SerializeToString L m = Inr bs"
      "write_error L ''mnist.onnx'' bs = Some (e, k)"
  | b g m bs e k where "fs s ''frozen_graph.pb'' = Some b"
      "ParseFromString L (GraphDef L) b = Inr g"
      "tensorflow_graph_to_onnx_model L g ''fc2/add'' 6 = Inr m"
      "open_error L ''mnist.onnx'' = None"
      "SerializeToString L m = Inr bs"
      "write_error L ''mnist.onnx'' bs = None"
      "close_error L ''mnist.onnx'' = Some (e, k)"
  | b g m bs where "fs s ''frozen_graph.pb'' = Some b"
      "ParseFromString L (GraphDef L) b = Inr g"
      "tensorflow_graph_to_onnx_model L g ''fc2/add'' 6 = Inr m"
      "open_error L ''mnist.onnx'' = None"
      "SerializeToString L m = Inr bs"
      "write_error L ''mnist.onnx'' bs = None"
      "close_error L ''mnist.onnx'' = None"
proof (cases "fs s ''frozen_graph.pb''")
  case None
  then show ?thesis by (rule that(1))
next
  case f: (Some b)
  show ?thesis
  proof (cases "ParseFromString L (GraphDef L) b")
    case (Inl e)
    with f show ?thesis by (rule that(2))
  next
    case p: (Inr g)
    show ?thesis
    proof (cases "tensorflow_graph_to_onnx_model L g ''fc2/add'' 6")
      case (Inl e)
      with f p show ?thesis by (rule that(3))
    next
      case c: (Inr m)
      show ?thesis
      proof (cases "open_error L ''mnist.onnx''")
        case (Some e)
        with f p c show ?thesis by (rule that(4))
      next
        case o: None
        show ?thesis
        proof (cases "SerializeToString L m")
          case (Inl e)
          with f p c o show ?thesis by (rule that(5))
        next
          case z: (Inr bs)
          show ?thesis
          proof (cases "write_error L ''mnist.onnx'' bs")
            case (Some ek)
            obtain e k where "ek = (e, k)" by (cases ek)
            with Some have "write_error L ''mnist.onnx'' bs = Some (e, k)" by simp
            with f p c o z show ?thesis by (rule that(6))
          next
            case w: None
            show ?thesis
            proof (cases "close_error L ''mnist.onnx''")
              case (Some ek)
              obtain e k where "ek = (e, k)" by (cases ek)
              with Some have "close_error L ''mnist.onnx'' = Some (e, k)" by simp
              with f p c o z w show ?thesis by (rule that(7))
            next
              case None
              with f p c o z w show ?thesis by (rule that(8))
            qed
          qed
        qed
      qed
    qed
  qed
qed

subsection \<open>The inference cell, outcome by outcome\<close>

lemma inference_no_model_file:
  assumes "fs s ''mnist.onnx'' = None"
  shows "inference_cell L s =
      (Inl IOError,
       s\<lparr>vars := (vars s)(''onnx'' \<mapsto> VModule ''onnx'',
         ''np'' \<mapsto> VModule ''numpy'',
         ''prepare'' \<mapsto> VImported ''onnx_tf.backend'' ''prepare''),
         calls := calls s @ [Call_onnx_load ''mnist.onnx'']\<rparr>)"
  using assms by (simp add: inference_cell_def py_defs)

lemma inference_load_fails:
  assumes "fs s ''mnist.onnx'' = Some mb"
    and "load_from_string L mb = Inl e"
  shows "inference_cell L s =
      (Inl e,
       s\<lparr>vars := (vars s)(''onnx'' \<mapsto> VModule ''onnx'',
         ''np'' \<mapsto> VModule ''numpy'',
         ''prepare'' \<mapsto> VImported ''onnx_tf.backend'' ''prepare''),
         calls := calls s @ [Call_onnx_load ''mnist.onnx'']\<rparr>)"
  using assms by (simp add: inference_cell_def py_defs)

lemma inference_prepare_fails:
  assumes "fs s ''mnist.onnx'' = Some mb"
    and "load_from_string L mb = Inr model"
    and "prepare L model = Inl e"
  shows "inference_cell L s =
      (Inl e,
       s\<lparr>vars := (vars s)(''onnx'' \<mapsto> VModule ''onnx'',
         ''np'' \<mapsto> VModule ''numpy'',
         ''prepare'' \<mapsto> VImported ''onnx_tf.backend'' ''prepare'',
         ''model'' \<mapsto> VModel model), calls := calls s @ [Call_onnx_load ''mnist.onnx'',
         Call_prepare model]\<rparr>)"
  using assms by (simp add: inference_cell_def py_defs)

lemma inference_no_image_file:
  assumes "fs s ''mnist.onnx'' = Some mb"
    and "load_from_string L mb = Inr model"
    and "prepare L model = Inr r"
    and "fs s ''./assets/image.npz'' = None"
  shows "inference_cell L s =
      (Inl IOError,
       s\<lparr>vars := (vars s)(''onnx'' \<mapsto> VModule ''onnx'',
         ''np'' \<mapsto> VModule ''numpy'',
         ''prepare'' \<mapsto> VImported ''onnx_tf.backend'' ''prepare'',
         ''model'' \<mapsto> VModel model, ''tf_rep'' \<mapsto> VRep r),
         calls := calls s @ [Call_onnx_load ''mnist.onnx'', Call_prepare model,
         Call_np_load ''./assets/image.npz'']\<rparr>)"
  using assms by (simp add: inference_cell_def py_defs)

lemma inference_np_load_fails:
  assumes "fs s ''mnist.onnx'' = Some mb"
    and "load_from_string L mb = Inr model"
    and "prepare L model = Inr r"
    and "fs s ''./assets/image.npz'' = Some ib"
    and "np_load_bytes L ib = Inl e"
  shows "inference_cell L s =
      (Inl e,
       s\<lparr>vars := (vars s)(''onnx'' \<mapsto> VModule ''onnx'',
         ''np'' \<mapsto> VModule ''numpy'',
         ''prepare'' \<mapsto> VImported ''onnx_tf.backend'' ''prepare'',
         ''model'' \<mapsto> VModel model, ''tf_rep'' \<mapsto> VRep r),
         calls := calls s @ [Call_onnx_load ''mnist.onnx'', Call_prepare model,
         Call_np_load ''./assets/image.npz'']\<rparr>)"
  using assms by (simp add: inference_cell_def py_defs)

lemma inference_archive:
  assumes "fs s ''mnist.onnx'' = Some mb"
    and "load_from_string L mb = Inr model"
    and "prepare L model = Inr r"
    and "fs s ''./assets/image.npz'' = Some ib"
    and "np_load_bytes L ib = Inr (NpzFile z)"
  shows "inference_cell L s =
      (Inl AttributeError,
       s\<lparr>vars := (vars s)(''onnx'' \<mapsto> VModule ''onnx'',
         ''np'' \<mapsto> VModule ''numpy'',
         ''prepare'' \<mapsto> VImported ''onnx_tf.backend'' ''prepare'',
         ''model'' \<mapsto> VModel model, ''tf_rep'' \<mapsto> VRep r,
         ''img'' \<mapsto> VLoaded (NpzFile z)),
         calls := calls s @ [Call_onnx_load ''mnist.onnx'', Call_prepare model,
         Call_np_load ''./assets/image.npz'']\<rparr>)"
  using assms by (simp add: inference_cell_def py_defs)

lemma inference_reshape_fails:
  assumes "fs s ''mnist.onnx'' = Some mb"
    and "load_from_string L mb = Inr model"
    and "prepare L model = Inr r"
    and "fs s ''./assets/image.npz'' = Some ib"
    and "np_load_bytes L ib = Inr (NdArray a)"
    and "reshape a [1, 784] = Inl e"
  shows "inference_cell L s =
      (Inl e,
       s\<lparr>vars := (vars s)(''onnx'' \<mapsto> VModule ''onnx'',
         ''np'' \<mapsto> VModule ''numpy'',
         ''prepare'' \<mapsto> VImported ''onnx_tf.backend'' ''prepare'',
         ''model'' \<mapsto> VModel model, ''tf_rep'' \<mapsto> VRep r,
         ''img'' \<mapsto> VLoaded (NdArray a)),
         calls := calls s @ [Call_onnx_load ''mnist.onnx'', Call_prepare model,
         Call_np_load ''./assets/image.npz'', Call_reshape a [1, 784]]\<rparr>)"
  using assms by (simp add: inference_cell_def py_defs)

lemma inference_run_fails:
  assumes "fs s ''mnist.onnx'' = Some mb"
    and "load_from_string L mb = Inr model"
    and "prepare L model = Inr r"
    and "fs s ''./assets/image.npz'' = Some ib"
    and "np_load_bytes L ib = Inr (NdArray a)"
    and "reshape a [1, 784] = Inr t"
    and "run L r t = Inl e"
  shows "inference_cell L s =
      (Inl e,
       s\<lparr>vars := (vars s)(''onnx'' \<mapsto> VModule ''onnx'',
         ''np'' \<mapsto> VModule ''numpy'',
         ''prepare'' \<mapsto> VImported ''onnx_tf.backend'' ''prepare'',
         ''model'' \<mapsto> VModel model, ''tf_rep'' \<mapsto> VRep r,
         ''img'' \<mapsto> VLoaded (NdArray a)),
         calls := calls s @ [Call_onnx_load ''mnist.onnx'', Call_prepare model,
         Call_np_load ''./assets/image.npz'', Call_reshape a [1, 784], Call_run r t]\<rparr>)"
  using assms by (simp add: inference_cell_def py_defs)

lemma inference_argmax_fails:
  assumes "fs s ''mnist.onnx'' = Some mb"
    and "load_from_string L mb = Inr model"
    and "prepare L model = Inr r"
    and "fs s ''./assets/image.npz'' = Some ib"
    and "np_load_bytes L ib = Inr (NdArray a)"
    and "reshape a [1, 784] = Inr t"
    and "run L r t = Inr out"
    and "argmax L out = Inl e"
  shows "inference_cell L s =
      (Inl e,
       s\<lparr>vars := (vars s)(''onnx'' \<mapsto> VModule ''onnx'',
         ''np'' \<mapsto> VModule ''numpy'',
         ''prepare'' \<mapsto> VImported ''onnx_tf.backend'' ''prepare'',
         ''model'' \<mapsto> VModel model, ''tf_rep'' \<mapsto> VRep r,
         ''img'' \<mapsto> VLoaded (NdArray a), ''output'' \<mapsto> VOutput out),
         stdout := stdout s @ [PStr ''The digit is classified as ''],
         calls := calls s @ [Call_onnx_load ''mnist.onnx'', Call_prepare model,
         Call_np_load ''./assets/image.npz'', Call_reshape a [1, 784], Call_run r t,
         Call_argmax out]\<rparr>)"
  using assms by (simp add: inference_cell_def py_defs)

lemma inference_ok:
  assumes "fs s ''mnist.onnx'' = Some mb"
    and "load_from_string L mb = Inr model"
    and "prepare L model = Inr r"
    and "fs s ''./assets/image.npz'' = Some ib"
    and "np_load_bytes L ib = Inr (NdArray a)"
    and "reshape a [1, 784] = Inr t"
    and "run L r t = Inr out"
    and "argmax L out = Inr n"
  shows "inference_cell L s =
      (Inr (),
       s\<lparr>vars := (vars s)(''onnx'' \<mapsto> VModule ''onnx'',
         ''np'' \<mapsto> VModule ''numpy'',
         ''prepare'' \<mapsto> VImported ''onnx_tf.backend'' ''prepare'',
         ''model'' \<mapsto> VModel model, ''tf_rep'' \<mapsto> VRep r,
         ''img'' \<mapsto> VLoaded (NdArray a), ''output'' \<mapsto> VOutput out),
         stdout := stdout s @ [PStr ''The digit is classified as '', PInt n, PNewline],
         calls := calls s @ [Call_onnx_load ''mnist.onnx'', Call_prepare model,
         Call_np_load ''./assets/image.npz'', Call_reshape a [1, 784], Call_run r t,
         Call_argmax out]\<rparr>)"
  using assms by (simp add: inference_cell_def py_defs)

lemmas inference_rows = inference_no_model_file inference_load_fails inference_prepare_fails
    inference_no_image_file inference_np_load_fails inference_archive inference_reshape_fails
    inference_run_fails inference_argmax_fails inference_ok

lemma inference_outcomes
  [case_names no_model_file load_fails prepare_fails no_image_file np_load_fails archive reshape_fails run_fails argmax_fails ok]:
  fixes L :: "('g, 'm, 'r, 'e, 'o) lib" and s :: "('g, 'm, 'r, 'e, 'o) state"
  obtains "fs s ''mnist.onnx'' = None"
  | mb e where "fs s ''mnist.onnx'' = Some mb"
      "load_from_string L mb = Inl e"
  | mb model e where "fs s ''mnist.onnx'' = Some mb"
      "load_from_string L mb = Inr model"
      "prepare L model = Inl e"
  | mb model r where "fs s ''mnist.onnx'' = Some mb"
      "load_from_string L mb = Inr model"
      "prepare L model = Inr r"
      "fs s ''./assets/image.npz'' = None"
  | mb model r ib e where "fs s ''mnist.onnx'' = Some mb"
      "load_from_string L mb = Inr model"
      "prepare L model = Inr r"
      "fs s ''./assets/image.npz'' = Some ib"
      "np_load_bytes L ib = Inl e"
  | mb model r ib z where "fs s ''mnist.onnx'' = Some mb"
      "load_from_string L mb = Inr model"
      "prepare L model = Inr r"
      "fs s ''./assets/image.npz'' = Some ib"
      "np_load_bytes L ib = Inr (NpzFile z)"
  | mb model r ib a e where "fs s ''mnist.onnx'' = Some mb"
      "load_from_string L mb = Inr model"
      "prepare L model = Inr r"
      "fs s ''./assets/image.npz'' = Some ib"
      "np_load_bytes L ib = Inr (NdArray a)"
      "reshape a [1, 784] = Inl e"
  | mb model r ib a t e where "fs s ''mnist.onnx'' = Some mb"
      "load_from_string L mb = Inr model"
      "prepare L model = Inr r"
      "fs s ''./assets/image.npz'' = Some ib"
      "np_load_bytes L ib = Inr (NdArray a)"
      "reshape a [1, 784] = Inr t"
      "run L r t = Inl e"
  | mb model r ib a t out e where "fs s ''mnist.onnx'' = Some mb"
      "load_from_string L mb = Inr model"
      "prepare L model = Inr r"
      "fs s ''./assets/image.npz'' = Some ib"
      "np_load_bytes L ib = Inr (NdArray a)"
      "reshape a [1, 784] = Inr t"
      "run L r t = Inr out"
      "argmax L out = Inl e"
  | mb model r ib a t out n where "fs s ''mnist.onnx'' = Some mb"
      "load_from_string L mb = Inr model"
      "prepare L model = Inr r"
      "fs s ''./assets/image.npz'' = Some ib"
      "np_load_bytes L ib = Inr (NdArray a)"
      "reshape a [1, 784] = Inr t"
      "run L r t = Inr out"
      "argmax L out = Inr n"
proof (cases "fs s ''mnist.onnx''")
  case None
  then show ?thesis by (rule that(1))
next
  case f: (Some mb)
  show ?thesis
  proof (cases "load_from_string L mb")
    case (Inl e)
    with f show ?thesis by (rule that(2))
  next
    case l: (Inr model)
    show ?thesis
    proof (cases "prepare L model")
      case (Inl e)
      with f l show ?thesis by (rule that(3))
    next
      case p: (Inr r)
      show ?thesis
      proof (cases "fs s ''./assets/image.npz''")
        case None
        with f l p show ?thesis by (rule that(4))
      next
        case i: (Some ib)
        show ?thesis
        proof (cases "np_load_bytes L ib")
          case (Inl e)
          with f l p i show ?thesis by (rule that(5))
        next
          case (Inr v)
          show ?thesis
          proof (cases v)
            case (NpzFile z)
            with Inr have "np_load_bytes L ib = Inr (NpzFile z)" by simp
            with f l p i show ?thesis by (rule that(6))
          next
            case (NdArray a)
            with Inr have n: "np_load_bytes L ib = Inr (NdArray a)" by simp
            show ?thesis
            proof (cases "reshape a [1, 784]")
              case (Inl e)
              with f l p i n show ?thesis by (rule that(7))
            next
              case t: (Inr t)
              show ?thesis
              proof (cases "run L r t")
                case (Inl e)
                with f l p i n t show ?thesis by (rule that(8))
              next
                case u: (Inr out)
                show ?thesis
                proof (cases "argmax L out")
                  case (Inl e)
                  with f l p i n t u show ?thesis by (rule that(9))
                next
                  case (Inr k)
                  with f l p i n t u show ?thesis by (rule that(10))
                qed
              qed
            qed
          qed
        qed
      qed
    qed
  qed
qed

subsection \<open>The sanity-check cell, outcome by outcome\<close>

lemma sanity_check_name_error:
  assumes "vars s ''onnx_model'' = None"
  shows "sanity_check_cell L s =
      (Inl NameError,
       s)"
  using assms by (simp add: sanity_check_cell_def py_defs)

lemma sanity_check_attribute_error:
  assumes "vars s ''onnx_model'' = Some v"
    and "(\<forall>m'. v \<noteq> VModel m')"
  shows "sanity_check_cell L s =
      (Inl AttributeError,
       s)"
  using assms by (cases v) (simp_all add: sanity_check_cell_def)

lemma sanity_check_index_error:
  assumes "vars s ''onnx_model'' = Some (VModel m)"
    and "graph_node L m = []"
  shows "sanity_check_cell L s =
      (Inl IndexError,
       s)"
  using assms by (simp add: sanity_check_cell_def py_defs)

lemma sanity_check_ok:
  assumes "vars s ''onnx_model'' = Some (VModel m)"
    and "graph_node L m = nd # nds"
  shows "sanity_check_cell L s =
      (Inr (),
       s\<lparr>stdout := stdout s @ [PNode nd, PNewline]\<rparr>)"
  using assms by (simp add: sanity_check_cell_def py_defs)

subsection \<open>Facts that hold on every run\<close>

lemma conversion_trace_prefix:
  "prefix (map call_name (trace_of (conversion_cell L) s)) conversion_calls"
  by (cases rule: conversion_outcomes [where L = L and s = s])
    (simp_all add: trace_of_def conversion_calls_def conversion_rows)

lemma conversion_trace_complete:
  assumes "fst (conversion_cell L s) = Inr ()"
  shows "map call_name (trace_of (conversion_cell L) s) = conversion_calls"
  using assms
  by (cases rule: conversion_outcomes [where L = L and s = s])
    (simp_all add: trace_of_def conversion_calls_def conversion_rows)

lemma conversion_fails_at_last_call:
  assumes "fst (conversion_cell L s) = Inl e"
  shows "raises L (fs s) (last (trace_of (conversion_cell L) s)) = Some e"
  using assms
  by (cases rule: conversion_outcomes [where L = L and s = s])
    (simp_all add: trace_of_def conversion_rows)

lemma inference_trace_prefix:
  "prefix (map call_name (trace_of (inference_cell L) s)) inference_calls"
  by (cases rule: inference_outcomes [where L = L and s = s])
    (simp_all add: trace_of_def inference_calls_def inference_rows)

lemma inference_trace_complete:
  assumes "fst (inference_cell L s) = Inr ()"
  shows "map call_name (trace_of (inference_cell L) s) = inference_calls"
  using assms
  by (cases rule: inference_outcomes [where L = L and s = s])
    (simp_all add: trace_of_def inference_calls_def inference_rows)

lemma inference_fails_at_last_call:
  assumes "fst (inference_cell L s) = Inl e"
  shows "raises L (fs s) (last (trace_of (inference_cell L) s)) = Some e \<or>
    (e = AttributeError \<and>
     last (trace_of (inference_cell L) s) = Call_np_load ''./assets/image.npz'' \<and>
     (\<exists>ib z. fs s ''./assets/image.npz'' = Some ib \<and> np_load_bytes L ib = Inr (NpzFile z)))"
  using assms
  by (cases rule: inference_outcomes [where L = L and s = s])
    (simp_all add: trace_of_def inference_rows)

lemma conversion_vars_frame:
  assumes "x \<notin> {''tf'', ''tensorflow_graph_to_onnx_model'', ''f'', ''graph_def'',
    ''onnx_model'', ''file''}"
  shows "vars (snd (conversion_cell L s)) x = vars s x"
  using assms
  by (cases rule: conversion_outcomes [where L = L and s = s])
    (simp_all add: conversion_rows)

lemma inference_vars_frame:
  assumes "x \<notin> {''onnx'', ''np'', ''prepare'', ''model'', ''tf_rep'', ''img'', ''output''}"
  shows "vars (snd (inference_cell L s)) x = vars s x"
  using assms
  by (cases rule: inference_outcomes [where L = L and s = s])
    (simp_all add: inference_rows)

lemma conversion_fs_frame:
  assumes "p \<noteq> ''mnist.onnx''"
  shows "fs (snd (conversion_cell L s)) p = fs s p"
  using assms
  by (cases rule: conversion_outcomes [where L = L and s = s])
    (simp_all add: conversion_rows)

lemma inference_fs_frame: "fs (snd (inference_cell L s)) = fs s"
  by (cases rule: inference_outcomes [where L = L and s = s])
    (simp_all add: inference_rows)

lemma sanity_check_frame:
  "trace_of (sanity_check_cell L) s = [] \<and> vars (snd (sanity_check_cell L s)) = vars s \<and>
   fs (snd (sanity_check_cell L s)) = fs s"
  by (simp add: trace_of_def sanity_check_cell_def py_defs
      split: option.splits pyobj.splits list.splits)

lemma conversion_args_fixed:
  assumes "c \<in> set (conversion_args (trace_of (conversion_cell L) s))"
  shows "snd c = (''fc2/add'', 6)"
  using assms
  by (cases rule: conversion_outcomes [where L = L and s = s])
    (simp_all add: trace_of_def conversion_rows)

lemma conversion_args_parsed:
  assumes "fs s ''frozen_graph.pb'' = Some b" and "ParseFromString L (GraphDef L) b = Inr g"
  shows "conversion_args (trace_of (conversion_cell L) s) = [(g, ''fc2/add'', 6)]"
  using assms
  by (cases rule: conversion_outcomes [where L = L and s = s])
    (simp_all add: trace_of_def conversion_rows)

lemma reshape_784:
  "size_nd a = 784 \<Longrightarrow> reshape a [1, 784] = Inr (a\<lparr>shape := [1, 784]\<rparr>)"
  "size_nd a \<noteq> 784 \<Longrightarrow> reshape a [1, 784] = Inl ValueError"
  by (simp_all add: reshape_def)

lemma reshape_shape: "reshape a shp = Inr t \<Longrightarrow> shape t = shp"
  by (auto simp add: reshape_def split: if_splits)

lemma run_args_shape:
  assumes "t \<in> set (run_args (trace_of (inference_cell L) s))"
  shows "shape t = [1, 784]"
  using assms
  by (cases rule: inference_outcomes [where L = L and s = s])
    (auto simp add: trace_of_def inference_rows dest: reshape_shape)

lemma run_args_small_image:
  assumes "fs s ''./assets/image.npz'' = Some ib" and "np_load_bytes L ib = Inr (NdArray a)"
    and "size_nd a \<noteq> 784"
  shows "run_args (trace_of (inference_cell L) s) = [] \<and> fst (inference_cell L s) \<noteq> Inr ()"
  using assms
  by (cases rule: inference_outcomes [where L = L and s = s])
    (simp_all add: trace_of_def inference_rows reshape_def)

lemma run_args_fitting_image:
  assumes "fs s ''mnist.onnx'' = Some mb" and "load_from_string L mb = Inr model"
    and "prepare L model = Inr r" and "fs s ''./assets/image.npz'' = Some ib"
    and "np_load_bytes L ib = Inr (NdArray a)" and "size_nd a = 784"
  shows "run_args (trace_of (inference_cell L) s) = [a\<lparr>shape := [1, 784]\<rparr>]"
  using assms
  by (cases rule: inference_outcomes [where L = L and s = s])
    (auto simp add: trace_of_def inference_rows reshape_def)

lemma inference_small_image_fails:
  assumes "fs s ''mnist.onnx'' = Some mb" and "load_from_string L mb = Inr model"
    and "prepare L model = Inr r" and "fs s ''./assets/image.npz'' = Some ib"
    and "np_load_bytes L ib = Inr (NdArray a)" and "size_nd a \<noteq> 784"
  shows "fst (inference_cell L s) = Inl ValueError \<and>
    last (trace_of (inference_cell L) s) = Call_reshape a [1, 784] \<and>
    prepare_args (trace_of (inference_cell L) s) = [model]"
proof -
  from assms(6) have "reshape a [1, 784] = Inl ValueError"
    by (rule reshape_784)
  with assms show ?thesis
    by (simp add: trace_of_def inference_reshape_fails)
qed



text \<open>
  The file objects: the one of \<^verbatim>\<open>frozen_graph.pb\<close> is closed on every run, the one of
  \<^verbatim>\<open>mnist.onnx\<close> on the runs that reach \<^verbatim>\<open>file.close()\<close>.
\<close>

lemma conversion_open_files:
  "open_files (snd (conversion_cell L s)) = open_files s \<or>
   (\<exists>buf. open_files (snd (conversion_cell L s)) = (''mnist.onnx'', buf) # open_files s)"
  by (cases rule: conversion_outcomes [where L = L and s = s])
    (simp_all add: conversion_rows)

lemma conversion_closes_all_on_success:
  assumes "fst (conversion_cell L s) = Inr ()"
  shows "open_files (snd (conversion_cell L s)) = open_files s"
  using assms
  by (cases rule: conversion_outcomes [where L = L and s = s])
    (simp_all add: conversion_rows)

lemma inference_open_files: "open_files (snd (inference_cell L s)) = open_files s"
  by (cases rule: inference_outcomes [where L = L and s = s])
    (simp_all add: inference_rows)

subsection \<open>The freezing command\<close>

lemma frozen_output_nodes_eq: "frozen_output_nodes = [''fc2/add'']"
  by (simp add: frozen_output_nodes_def freeze_graph_args_def)

subsection \<open>The small library at work\<close>

lemma demo_lib_simps:
  "GraphDef demo_lib = []"
  "ParseFromString demo_lib g b = Inr (g @ b)"
  "tensorflow_graph_to_onnx_model demo_lib g output opset = Inr (output @ '':'' @ g)"
  "SerializeToString demo_lib m = Inr m"
  "graph_node demo_lib m =
     [\<lparr>node_input = [m], node_output = [''out''], op_type = ''Identity''\<rparr>]"
  "open_error demo_lib p = None"
  "write_error demo_lib p b = None"
  "close_error demo_lib p = None"
  "load_from_string demo_lib b = Inr b"
  "prepare demo_lib m = Inr m"
  "np_load_bytes demo_lib b = Inr (NdArray \<lparr>shape = [length b], data = map of_char b\<rparr>)"
  "run demo_lib r t = Inr (data t)"
  "argmax demo_lib out = Inr 0"
  by (simp_all add: demo_lib_def)

lemma demo_state_simps:
  "fs demo_state ''frozen_graph.pb'' = Some ''graph''"
  "fs demo_state ''mnist.onnx'' = None"
  "fs demo_state ''./assets/image.npz'' = Some (replicate 784 (CHR ''p''))"
  "open_files demo_state = []"
  "vars demo_state = Map.empty"
  "stdout demo_state = []"
  "calls demo_state = []"
  by (simp_all add: demo_state_def)

lemma converted_state_simps:
  "fs converted_state ''mnist.onnx'' = Some ''fc2/add:graph''"
  "fs converted_state ''./assets/image.npz'' = Some (replicate 784 (CHR ''p''))"
  "open_files converted_state = []"
  "vars converted_state = Map.empty"
  "stdout converted_state = []"
  "calls converted_state = []"
  by (simp_all add: converted_state_def demo_state_def)

lemma small_image_state_simps:
  "fs small_image_state ''mnist.onnx'' = Some ''fc2/add:graph''"
  "fs small_image_state ''./assets/image.npz'' = Some ''abc''"
  by (simp_all add: small_image_state_def converted_state_def demo_state_def)

lemma disk_full_lib_simps:
  "GraphDef disk_full_lib = []"
  "ParseFromString disk_full_lib g b = Inr (g @ b)"
  "tensorflow_graph_to_onnx_model disk_full_lib g output opset = Inr (output @ '':'' @ g)"
  "SerializeToString disk_full_lib m = Inr m"
  "open_error disk_full_lib p = None"
  "write_error disk_full_lib p b = Some (IOError, 0)"
  by (simp_all add: disk_full_lib_def demo_lib_def)

lemma malformed_graph_lib_simps:
  "GraphDef malformed_graph_lib = []"
  "ParseFromString malformed_graph_lib g b = Inl DecodeError"
  by (simp_all add: malformed_graph_lib_def demo_lib_def)

lemma missing_node_lib_simps:
  "GraphDef missing_node_lib = []"
  "ParseFromString missing_node_lib g b = Inr (g @ b)"
  "tensorflow_graph_to_onnx_model missing_node_lib g ''fc2/add'' opset = Inl ConversionError"
  by (simp_all add: missing_node_lib_def demo_lib_def)

lemma failing_backend_lib_simps:
  "load_from_string failing_backend_lib b = Inr b"
  "prepare failing_backend_lib m = Inr m"
  "np_load_bytes failing_backend_lib b =
     Inr (NdArray \<lparr>shape = [length b], data = map of_char b\<rparr>)"
  "run failing_backend_lib r t = Inl BackendError"
  by (simp_all add: failing_backend_lib_def demo_lib_def)


lemma demo_conversion:
  "conversion_cell demo_lib demo_state =
     (Inr (),
      demo_state\<lparr>fs := (fs demo_state)(''mnist.onnx'' \<mapsto> ''fc2/add:graph''),
        vars := [''tf'' \<mapsto> VModule ''tensorflow'',
          ''tensorflow_graph_to_onnx_model'' \<mapsto>
            VImported ''onnx_tf.frontend'' ''tensorflow_graph_to_onnx_model'',
          ''f'' \<mapsto> VFile ''frozen_graph.pb'', ''graph_def'' \<mapsto> VGraphDef ''graph'',
          ''onnx_model'' \<mapsto> VModel ''fc2/add:graph'', ''file'' \<mapsto> VFile ''mnist.onnx''],
        calls :=
          [Call_GFile ''frozen_graph.pb'' ''rb'', Call_GraphDef, Call_read ''frozen_graph.pb'',
           Call_ParseFromString [] ''graph'',
           Call_tensorflow_graph_to_onnx_model ''graph'' ''fc2/add'' 6,
           Call_open ''mnist.onnx'' ''wb'', Call_SerializeToString ''fc2/add:graph'',
           Call_write ''mnist.onnx'' ''fc2/add:graph'', Call_close ''mnist.onnx'']\<rparr>)"
  by (simp add: conversion_ok [where b = "''graph''" and g = "''graph''"
        and m = "''fc2/add:graph''" and bs = "''fc2/add:graph''"]
      demo_lib_simps demo_state_simps)

lemma disk_full_conversion:
  "fst (conversion_cell disk_full_lib demo_state) = Inl IOError"
  "open_files (snd (conversion_cell disk_full_lib demo_state)) =
     [(''mnist.onnx'', ''fc2/add:graph'')]"
  by (simp_all add: conversion_write_fails [where b = "''graph''" and g = "''graph''"
        and m = "''fc2/add:graph''" and bs = "''fc2/add:graph''" and e = IOError and k = 0]
      disk_full_lib_simps demo_state_simps)


lemma demo_inference:
  "vars (snd (inference_cell demo_lib converted_state)) ''img'' =
     Some (VLoaded (NdArray \<lparr>shape = [784], data = replicate 784 112\<rparr>))"
  "run_args (trace_of (inference_cell demo_lib) converted_state) =
     [\<lparr>shape = [1, 784], data = replicate 784 112\<rparr>]"
  by (simp_all add: trace_of_def
      inference_ok [where mb = "''fc2/add:graph''" and model = "''fc2/add:graph''"
        and r = "''fc2/add:graph''" and ib = "replicate 784 (CHR ''p'')"
        and a = "\<lparr>shape = [784], data = replicate 784 112\<rparr>"
        and t = "\<lparr>shape = [1, 784], data = replicate 784 112\<rparr>"
        and out = "replicate 784 112" and n = 0]
      demo_lib_simps converted_state_simps reshape_def size_nd_def)

lemma small_image_inference:
  "fst (inference_cell demo_lib small_image_state) = Inl ValueError"
  "trace_of (inference_cell demo_lib) small_image_state =
     [Call_onnx_load ''mnist.onnx'', Call_prepare ''fc2/add:graph'',
      Call_np_load ''./assets/image.npz'',
      Call_reshape \<lparr>shape = [3], data = [97, 98, 99]\<rparr> [1, 784]]"
  by (simp_all add: trace_of_def
      inference_reshape_fails [where mb = "''fc2/add:graph''" and model = "''fc2/add:graph''"
        and r = "''fc2/add:graph''" and ib = "''abc''"
        and a = "\<lparr>shape = [3], data = [97, 98, 99]\<rparr>" and e = ValueError]
      demo_lib_simps small_image_state_simps reshape_def size_nd_def)

section \<open>The claims\<close>

text \<open>
  C3. Every step of the notebook is a direct call into a library (or an import, an
  assignment or a print of what a call returned), and the notebook adds no error handling,
  no retry and no validation between the calls: for every way the calls can turn out, a
  cell makes exactly the calls of the source up to the first one that raises, each once,
  each on exactly what an earlier call returned or on a literal of the source, and ends
  with that exception or, when every call returns, normally; it writes nothing else to
  the variables, the files or the standard output. The artifacts are handed on unmodified
  with one exception: the loaded input array is reshaped to \<^verbatim>\<open>[1, 784]\<close>, by a call of numpy,
  before it is handed to \<^verbatim>\<open>run\<close>.
\<close>

theorem cells_do_exactly_their_calls:
  "(fs s ''frozen_graph.pb'' = None \<longrightarrow>
      conversion_cell L s =
        (Inl NotFoundError,
         s\<lparr>vars := (vars s)(''tf'' \<mapsto> VModule ''tensorflow'',
           ''tensorflow_graph_to_onnx_model'' \<mapsto> VImported ''onnx_tf.frontend'' ''tensorflow_graph_to_onnx_model'',
           ''f'' \<mapsto> VFile ''frozen_graph.pb'',
           ''graph_def'' \<mapsto> VGraphDef (GraphDef L)),
           calls := calls s @ [Call_GFile ''frozen_graph.pb'' ''rb'', Call_GraphDef,
           Call_read ''frozen_graph.pb'']\<rparr>))
   \<and> (fs s ''frozen_graph.pb'' = Some b \<and>
     ParseFromString L (GraphDef L) b = Inl e \<longrightarrow>
      conversion_cell L s =
        (Inl e,
         s\<lparr>vars := (vars s)(''tf'' \<mapsto> VModule ''tensorflow'',
           ''tensorflow_graph_to_onnx_model'' \<mapsto> VImported ''onnx_tf.frontend'' ''tensorflow_graph_to_onnx_model'',
           ''f'' \<mapsto> VFile ''frozen_graph.pb'',
           ''graph_def'' \<mapsto> VGraphDef (GraphDef L)),
           calls := calls s @ [Call_GFile ''frozen_graph.pb'' ''rb'', Call_GraphDef,
           Call_read ''frozen_graph.pb'', Call_ParseFromString (GraphDef L) b]\<rparr>))
   \<and> (fs s ''frozen_graph.pb'' = Some b \<and>
     ParseFromString L (GraphDef L) b = Inr g \<and>
     tensorflow_graph_to_onnx_model L g ''fc2/add'' 6 = Inl e \<longrightarrow>
      conversion_cell L s =
        (Inl e,
         s\<lparr>vars := (vars s)(''tf'' \<mapsto> VModule ''tensorflow'',
           ''tensorflow_graph_to_onnx_model'' \<mapsto> VImported ''onnx_tf.frontend'' ''tensorflow_graph_to_onnx_model'',
           ''f'' \<mapsto> VFile ''frozen_graph.pb'', ''graph_def'' \<mapsto> VGraphDef g),
           calls := calls s @ [Call_GFile ''frozen_graph.pb'' ''rb'', Call_GraphDef,
           Call_read ''frozen_graph.pb'', Call_ParseFromString (GraphDef L) b,
           Call_tensorflow_graph_to_onnx_model g ''fc2/add'' 6]\<rparr>))
   \<and> (fs s ''frozen_graph.pb'' = Some b \<and>
     ParseFromString L (GraphDef L) b = Inr g \<and>
     tensorflow_graph_to_onnx_model L g ''fc2/add'' 6 = Inr m \<and>
     open_error L ''mnist.onnx'' = Some e \<longrightarrow>
      conversion_cell L s =
        (Inl e,
         s\<lparr>vars := (vars s)(''tf'' \<mapsto> VModule ''tensorflow'',
           ''tensorflow_graph_to_onnx_model'' \<mapsto> VImported ''onnx_tf.frontend'' ''tensorflow_graph_to_onnx_model'',
           ''f'' \<mapsto> VFile ''frozen_graph.pb'', ''graph_def'' \<mapsto> VGraphDef g,
           ''onnx_model'' \<mapsto> VModel m),
           calls := calls s @ [Call_GFile ''frozen_graph.pb'' ''rb'', Call_GraphDef,
           Call_read ''frozen_graph.pb'', Call_ParseFromString (GraphDef L) b,
           Call_tensorflow_graph_to_onnx_model g ''fc2/add'' 6,
           Call_open ''mnist.onnx'' ''wb'']\<rparr>))
   \<and> (fs s ''frozen_graph.pb'' = Some b \<and>
     ParseFromString L (GraphDef L) b = Inr g \<and>
     tensorflow_graph_to_onnx_model L g ''fc2/add'' 6 = Inr m \<and>
     open_error L ''mnist.onnx'' = None \<and>
     SerializeToString L m = Inl e \<longrightarrow>
      conversion_cell L s =
        (Inl e,
         s\<lparr>fs := (fs s)(''mnist.onnx'' \<mapsto> []), open_files := (''mnist.onnx'',
           []) # open_files s, vars := (vars s)(''tf'' \<mapsto> VModule ''tensorflow'',
           ''tensorflow_graph_to_onnx_model'' \<mapsto> VImported ''onnx_tf.frontend'' ''tensorflow_graph_to_onnx_model'',
           ''f'' \<mapsto> VFile ''frozen_graph.pb'', ''graph_def'' \<mapsto> VGraphDef g,
           ''onnx_model'' \<mapsto> VModel m, ''file'' \<mapsto> VFile ''mnist.onnx''),
           calls := calls s @ [Call_GFile ''frozen_graph.pb'' ''rb'', Call_GraphDef,
           Call_read ''frozen_graph.pb'', Call_ParseFromString (GraphDef L) b,
           Call_tensorflow_graph_to_onnx_model g ''fc2/add'' 6, Call_open ''mnist.onnx'' ''wb'',
           Call_SerializeToString m]\<rparr>))
   \<and> (fs s ''frozen_graph.pb'' = Some b \<and>
     ParseFromString L (GraphDef L) b = Inr g \<and>
     tensorflow_graph_to_onnx_model L g ''fc2/add'' 6 = Inr m \<and>
     open_error L ''mnist.onnx'' = None \<and>
     SerializeToString L m = Inr bs \<and>
     write_error L ''mnist.onnx'' bs = Some (e, k) \<longrightarrow>
      conversion_cell L s =
        (Inl e,
         s\<lparr>fs := (fs s)(''mnist.onnx'' \<mapsto> take k bs),
           open_files := (''mnist.onnx'', drop k bs) # open_files s,
           vars := (vars s)(''tf'' \<mapsto> VModule ''tensorflow'',
           ''tensorflow_graph_to_onnx_model'' \<mapsto> VImported ''onnx_tf.frontend'' ''tensorflow_graph_to_onnx_model'',
           ''f'' \<mapsto> VFile ''frozen_graph.pb'', ''graph_def'' \<mapsto> VGraphDef g,
           ''onnx_model'' \<mapsto> VModel m, ''file'' \<mapsto> VFile ''mnist.onnx''),
           calls := calls s @ [Call_GFile ''frozen_graph.pb'' ''rb'', Call_GraphDef,
           Call_read ''frozen_graph.pb'', Call_ParseFromString (GraphDef L) b,
           Call_tensorflow_graph_to_onnx_model g ''fc2/add'' 6, Call_open ''mnist.onnx'' ''wb'',
           Call_SerializeToString m, Call_write ''mnist.onnx'' bs]\<rparr>))
   \<and> (fs s ''frozen_graph.pb'' = Some b \<and>
     ParseFromString L (GraphDef L) b = Inr g \<and>
     tensorflow_graph_to_onnx_model L g ''fc2/add'' 6 = Inr m \<and>
     open_error L ''mnist.onnx'' = None \<and>
     SerializeToString L m = Inr bs \<and>
     write_error L ''mnist.onnx'' bs = None \<and>
     close_error L ''mnist.onnx'' = Some (e, k) \<longrightarrow>
      conversion_cell L s =
        (Inl e,
         s\<lparr>fs := (fs s)(''mnist.onnx'' \<mapsto> take k bs),
           vars := (vars s)(''tf'' \<mapsto> VModule ''tensorflow'',
           ''tensorflow_graph_to_onnx_model'' \<mapsto> VImported ''onnx_tf.frontend'' ''tensorflow_graph_to_onnx_model'',
           ''f'' \<mapsto> VFile ''frozen_graph.pb'', ''graph_def'' \<mapsto> VGraphDef g,
           ''onnx_model'' \<mapsto> VModel m, ''file'' \<mapsto> VFile ''mnist.onnx''),
           calls := calls s @ [Call_GFile ''frozen_graph.pb'' ''rb'', Call_GraphDef,
           Call_read ''frozen_graph.pb'', Call_ParseFromString (GraphDef L) b,
           Call_tensorflow_graph_to_onnx_model g ''fc2/add'' 6, Call_open ''mnist.onnx'' ''wb'',
           Call_SerializeToString m, Call_write ''mnist.onnx'' bs,
           Call_close ''mnist.onnx'']\<rparr>))
   \<and> (fs s ''frozen_graph.pb'' = Some b \<and>
     ParseFromString L (GraphDef L) b = Inr g \<and>
     tensorflow_graph_to_onnx_model L g ''fc2/add'' 6 = Inr m \<and>
     open_error L ''mnist.onnx'' = None \<and>
     SerializeToString L m = Inr bs \<and>
     write_error L ''mnist.onnx'' bs = None \<and>
     close_error L ''mnist.onnx'' = None \<longrightarrow>
      conversion_cell L s =
        (Inr (),
         s\<lparr>fs := (fs s)(''mnist.onnx'' \<mapsto> bs),
           vars := (vars s)(''tf'' \<mapsto> VModule ''tensorflow'',
           ''tensorflow_graph_to_onnx_model'' \<mapsto> VImported ''onnx_tf.frontend'' ''tensorflow_graph_to_onnx_model'',
           ''f'' \<mapsto> VFile ''frozen_graph.pb'', ''graph_def'' \<mapsto> VGraphDef g,
           ''onnx_model'' \<mapsto> VModel m, ''file'' \<mapsto> VFile ''mnist.onnx''),
           calls := calls s @ [Call_GFile ''frozen_graph.pb'' ''rb'', Call_GraphDef,
           Call_read ''frozen_graph.pb'', Call_ParseFromString (GraphDef L) b,
           Call_tensorflow_graph_to_onnx_model g ''fc2/add'' 6, Call_open ''mnist.onnx'' ''wb'',
           Call_SerializeToString m, Call_write ''mnist.onnx'' bs,
           Call_close ''mnist.onnx'']\<rparr>))
   \<and> (vars s ''onnx_model'' = None \<longrightarrow>
      sanity_check_cell L s =
        (Inl NameError,
         s))
   \<and> (vars s ''onnx_model'' = Some v \<and>
     (\<forall>m'. v \<noteq> VModel m') \<longrightarrow>
      sanity_check_cell L s =
        (Inl AttributeError,
         s))
   \<and> (vars s ''onnx_model'' = Some (VModel m) \<and>
     graph_node L m = [] \<longrightarrow>
      sanity_check_cell L s =
        (Inl IndexError,
         s))
   \<and> (vars s ''onnx_model'' = Some (VModel m) \<and>
     graph_node L m = nd # nds \<longrightarrow>
      sanity_check_cell L s =
        (Inr (),
         s\<lparr>stdout := stdout s @ [PNode nd, PNewline]\<rparr>))
   \<and> (fs s ''mnist.onnx'' = None \<longrightarrow>
      inference_cell L s =
        (Inl IOError,
         s\<lparr>vars := (vars s)(''onnx'' \<mapsto> VModule ''onnx'',
           ''np'' \<mapsto> VModule ''numpy'',
           ''prepare'' \<mapsto> VImported ''onnx_tf.backend'' ''prepare''),
           calls := calls s @ [Call_onnx_load ''mnist.onnx'']\<rparr>))
   \<and> (fs s ''mnist.onnx'' = Some mb \<and>
     load_from_string L mb = Inl e \<longrightarrow>
      inference_cell L s =
        (Inl e,
         s\<lparr>vars := (vars s)(''onnx'' \<mapsto> VModule ''onnx'',
           ''np'' \<mapsto> VModule ''numpy'',
           ''prepare'' \<mapsto> VImported ''onnx_tf.backend'' ''prepare''),
           calls := calls s @ [Call_onnx_load ''mnist.onnx'']\<rparr>))
   \<and> (fs s ''mnist.onnx'' = Some mb \<and>
     load_from_string L mb = Inr model \<and>
     prepare L model = Inl e \<longrightarrow>
      inference_cell L s =
        (Inl e,
         s\<lparr>vars := (vars s)(''onnx'' \<mapsto> VModule ''onnx'',
           ''np'' \<mapsto> VModule ''numpy'',
           ''prepare'' \<mapsto> VImported ''onnx_tf.backend'' ''prepare'',
           ''model'' \<mapsto> VModel model), calls := calls s @ [Call_onnx_load ''mnist.onnx'',
           Call_prepare model]\<rparr>))
   \<and> (fs s ''mnist.onnx'' = Some mb \<and>
     load_from_string L mb = Inr model \<and>
     prepare L model = Inr r \<and>
     fs s ''./assets/image.npz'' = None \<longrightarrow>
      inference_cell L s =
        (Inl IOError,
         s\<lparr>vars := (vars s)(''onnx'' \<mapsto> VModule ''onnx'',
           ''np'' \<mapsto> VModule ''numpy'',
           ''prepare'' \<mapsto> VImported ''onnx_tf.backend'' ''prepare'',
           ''model'' \<mapsto> VModel model, ''tf_rep'' \<mapsto> VRep r),
           calls := calls s @ [Call_onnx_load ''mnist.onnx'', Call_prepare model,
           Call_np_load ''./assets/image.npz'']\<rparr>))
   \<and> (fs s ''mnist.onnx'' = Some mb \<and>
     load_from_string L mb = Inr model \<and>
     prepare L model = Inr r \<and>
     fs s ''./assets/image.npz'' = Some ib \<and>
     np_load_bytes L ib = Inl e \<longrightarrow>
      inference_cell L s =
        (Inl e,
         s\<lparr>vars := (vars s)(''onnx'' \<mapsto> VModule ''onnx'',
           ''np'' \<mapsto> VModule ''numpy'',
           ''prepare'' \<mapsto> VImported ''onnx_tf.backend'' ''prepare'',
           ''model'' \<mapsto> VModel model, ''tf_rep'' \<mapsto> VRep r),
           calls := calls s @ [Call_onnx_load ''mnist.onnx'', Call_prepare model,
           Call_np_load ''./assets/image.npz'']\<rparr>))
   \<and> (fs s ''mnist.onnx'' = Some mb \<and>
     load_from_string L mb = Inr model \<and>
     prepare L model = Inr r \<and>
     fs s ''./assets/image.npz'' = Some ib \<and>
     np_load_bytes L ib = Inr (NpzFile z) \<longrightarrow>
      inference_cell L s =
        (Inl AttributeError,
         s\<lparr>vars := (vars s)(''onnx'' \<mapsto> VModule ''onnx'',
           ''np'' \<mapsto> VModule ''numpy'',
           ''prepare'' \<mapsto> VImported ''onnx_tf.backend'' ''prepare'',
           ''model'' \<mapsto> VModel model, ''tf_rep'' \<mapsto> VRep r,
           ''img'' \<mapsto> VLoaded (NpzFile z)),
           calls := calls s @ [Call_onnx_load ''mnist.onnx'', Call_prepare model,
           Call_np_load ''./assets/image.npz'']\<rparr>))
   \<and> (fs s ''mnist.onnx'' = Some mb \<and>
     load_from_string L mb = Inr model \<and>
     prepare L model = Inr r \<and>
     fs s ''./assets/image.npz'' = Some ib \<and>
     np_load_bytes L ib = Inr (NdArray a) \<and>
     reshape a [1, 784] = Inl e \<longrightarrow>
      inference_cell L s =
        (Inl e,
         s\<lparr>vars := (vars s)(''onnx'' \<mapsto> VModule ''onnx'',
           ''np'' \<mapsto> VModule ''numpy'',
           ''prepare'' \<mapsto> VImported ''onnx_tf.backend'' ''prepare'',
           ''model'' \<mapsto> VModel model, ''tf_rep'' \<mapsto> VRep r,
           ''img'' \<mapsto> VLoaded (NdArray a)),
           calls := calls s @ [Call_onnx_load ''mnist.onnx'', Call_prepare model,
           Call_np_load ''./assets/image.npz'', Call_reshape a [1, 784]]\<rparr>))
   \<and> (fs s ''mnist.onnx'' = Some mb \<and>
     load_from_string L mb = Inr model \<and>
     prepare L model = Inr r \<and>
     fs s ''./assets/image.npz'' = Some ib \<and>
     np_load_bytes L ib = Inr (NdArray a) \<and>
     reshape a [1, 784] = Inr t \<and>
     run L r t = Inl e \<longrightarrow>
      inference_cell L s =
        (Inl e,
         s\<lparr>vars := (vars s)(''onnx'' \<mapsto> VModule ''onnx'',
           ''np'' \<mapsto> VModule ''numpy'',
           ''prepare'' \<mapsto> VImported ''onnx_tf.backend'' ''prepare'',
           ''model'' \<mapsto> VModel model, ''tf_rep'' \<mapsto> VRep r,
           ''img'' \<mapsto> VLoaded (NdArray a)),
           calls := calls s @ [Call_onnx_load ''mnist.onnx'', Call_prepare model,
           Call_np_load ''./assets/image.npz'', Call_reshape a [1, 784], Call_run r t]\<rparr>))
   \<and> (fs s ''mnist.onnx'' = Some mb \<and>
     load_from_string L mb = Inr model \<and>
     prepare L model = Inr r \<and>
     fs s ''./assets/image.npz'' = Some ib \<and>
     np_load_bytes L ib = Inr (NdArray a) \<and>
     reshape a [1, 784] = Inr t \<and>
     run L r t = Inr out \<and>
     argmax L out = Inl e \<longrightarrow>
      inference_cell L s =
        (Inl e,
         s\<lparr>vars := (vars s)(''onnx'' \<mapsto> VModule ''onnx'',
           ''np'' \<mapsto> VModule ''numpy'',
           ''prepare'' \<mapsto> VImported ''onnx_tf.backend'' ''prepare'',
           ''model'' \<mapsto> VModel model, ''tf_rep'' \<mapsto> VRep r,
           ''img'' \<mapsto> VLoaded (NdArray a), ''output'' \<mapsto> VOutput out),
           stdout := stdout s @ [PStr ''The digit is classified as ''],
           calls := calls s @ [Call_onnx_load ''mnist.onnx'', Call_prepare model,
           Call_np_load ''./assets/image.npz'', Call_reshape a [1, 784], Call_run r t,
           Call_argmax out]\<rparr>))
   \<and> (fs s ''mnist.onnx'' = Some mb \<and>
     load_from_string L mb = Inr model \<and>
     prepare L model = Inr r \<and>
     fs s ''./assets/image.npz'' = Some ib \<and>
     np_load_bytes L ib = Inr (NdArray a) \<and>
     reshape a [1, 784] = Inr t \<and>
     run L r t = Inr out \<and>
     argmax L out = Inr n \<longrightarrow>
      inference_cell L s =
        (Inr (),
         s\<lparr>vars := (vars s)(''onnx'' \<mapsto> VModule ''onnx'',
           ''np'' \<mapsto> VModule ''numpy'',
           ''prepare'' \<mapsto> VImported ''onnx_tf.backend'' ''prepare'',
           ''model'' \<mapsto> VModel model, ''tf_rep'' \<mapsto> VRep r,
           ''img'' \<mapsto> VLoaded (NdArray a), ''output'' \<mapsto> VOutput out),
           stdout := stdout s @ [PStr ''The digit is classified as '', PInt n, PNewline],
           calls := calls s @ [Call_onnx_load ''mnist.onnx'', Call_prepare model,
           Call_np_load ''./assets/image.npz'', Call_reshape a [1, 784], Call_run r t,
           Call_argmax out]\<rparr>))"
proof (intro conjI impI)
  assume "fs s ''frozen_graph.pb'' = None"
  then show "conversion_cell L s =
        (Inl NotFoundError,
         s\<lparr>vars := (vars s)(''tf'' \<mapsto> VModule ''tensorflow'',
           ''tensorflow_graph_to_onnx_model'' \<mapsto> VImported ''onnx_tf.frontend'' ''tensorflow_graph_to_onnx_model'',
           ''f'' \<mapsto> VFile ''frozen_graph.pb'',
           ''graph_def'' \<mapsto> VGraphDef (GraphDef L)),
           calls := calls s @ [Call_GFile ''frozen_graph.pb'' ''rb'', Call_GraphDef,
           Call_read ''frozen_graph.pb'']\<rparr>)"
    by (rule conversion_no_file)
next
  assume "fs s ''frozen_graph.pb'' = Some b \<and>
     ParseFromString L (GraphDef L) b = Inl e"
  then show "conversion_cell L s =
        (Inl e,
         s\<lparr>vars := (vars s)(''tf'' \<mapsto> VModule ''tensorflow'',
           ''tensorflow_graph_to_onnx_model'' \<mapsto> VImported ''onnx_tf.frontend'' ''tensorflow_graph_to_onnx_model'',
           ''f'' \<mapsto> VFile ''frozen_graph.pb'',
           ''graph_def'' \<mapsto> VGraphDef (GraphDef L)),
           calls := calls s @ [Call_GFile ''frozen_graph.pb'' ''rb'', Call_GraphDef,
           Call_read ''frozen_graph.pb'', Call_ParseFromString (GraphDef L) b]\<rparr>)"
    by (elim conjE) (rule conversion_parse_fails)
next
  assume "fs s ''frozen_graph.pb'' = Some b \<and>
     ParseFromString L (GraphDef L) b = Inr g \<and>
     tensorflow_graph_to_onnx_model L g ''fc2/add'' 6 = Inl e"
  then show "conversion_cell L s =
        (Inl e,
         s\<lparr>vars := (vars s)(''tf'' \<mapsto> VModule ''tensorflow'',
           ''tensorflow_graph_to_onnx_model'' \<mapsto> VImported ''onnx_tf.frontend'' ''tensorflow_graph_to_onnx_model'',
           ''f'' \<mapsto> VFile ''frozen_graph.pb'', ''graph_def'' \<mapsto> VGraphDef g),
           calls := calls s @ [Call_GFile ''frozen_graph.pb'' ''rb'', Call_GraphDef,
           Call_read ''frozen_graph.pb'', Call_ParseFromString (GraphDef L) b,
           Call_tensorflow_graph_to_onnx_model g ''fc2/add'' 6]\<rparr>)"
    by (elim conjE) (rule conversion_convert_fails)
next
  assume "fs s ''frozen_graph.pb'' = Some b \<and>
     ParseFromString L (GraphDef L) b = Inr g \<and>
     tensorflow_graph_to_onnx_model L g ''fc2/add'' 6 = Inr m \<and>
     open_error L ''mnist.onnx'' = Some e"
  then show "conversion_cell L s =
        (Inl e,
         s\<lparr>vars := (vars s)(''tf'' \<mapsto> VModule ''tensorflow'',
           ''tensorflow_graph_to_onnx_model'' \<mapsto> VImported ''onnx_tf.frontend'' ''tensorflow_graph_to_onnx_model'',
           ''f'' \<mapsto> VFile ''frozen_graph.pb'', ''graph_def'' \<mapsto> VGraphDef g,
           ''onnx_model'' \<mapsto> VModel m),
           calls := calls s @ [Call_GFile ''frozen_graph.pb'' ''rb'', Call_GraphDef,
           Call_read ''frozen_graph.pb'', Call_ParseFromString (GraphDef L) b,
           Call_tensorflow_graph_to_onnx_model g ''fc2/add'' 6,
           Call_open ''mnist.onnx'' ''wb'']\<rparr>)"
    by (elim conjE) (rule conversion_open_fails)
next
  assume "fs s ''frozen_graph.pb'' = Some b \<and>
     ParseFromString L (GraphDef L) b = Inr g \<and>
     tensorflow_graph_to_onnx_model L g ''fc2/add'' 6 = Inr m \<and>
     open_error L ''mnist.onnx'' = None \<and>
     SerializeToString L m = Inl e"
  then show "conversion_cell L s =
        (Inl e,
         s\<lparr>fs := (fs s)(''mnist.onnx'' \<mapsto> []), open_files := (''mnist.onnx'',
           []) # open_files s, vars := (vars s)(''tf'' \<mapsto> VModule ''tensorflow'',
           ''tensorflow_graph_to_onnx_model'' \<mapsto> VImported ''onnx_tf.frontend'' ''tensorflow_graph_to_onnx_model'',
           ''f'' \<mapsto> VFile ''frozen_graph.pb'', ''graph_def'' \<mapsto> VGraphDef g,
           ''onnx_model'' \<mapsto> VModel m, ''file'' \<mapsto> VFile ''mnist.onnx''),
           calls := calls s @ [Call_GFile ''frozen_graph.pb'' ''rb'', Call_GraphDef,
           Call_read ''frozen_graph.pb'', Call_ParseFromString (GraphDef L) b,
           Call_tensorflow_graph_to_onnx_model g ''fc2/add'' 6, Call_open ''mnist.onnx'' ''wb'',
           Call_SerializeToString m]\<rparr>)"
    by (elim conjE) (rule conversion_serialize_fails)
next
  assume "fs s ''frozen_graph.pb'' = Some b \<and>
     ParseFromString L (GraphDef L) b = Inr g \<and>
     tensorflow_graph_to_onnx_model L g ''fc2/add'' 6 = Inr m \<and>
     open_error L ''mnist.onnx'' = None \<and>
     SerializeToString L m = Inr bs \<and>
     write_error L ''mnist.onnx'' bs = Some (e, k)"
  then show "conversion_cell L s =
        (Inl e,
         s\<lparr>fs := (fs s)(''mnist.onnx'' \<mapsto> take k bs),
           open_files := (''mnist.onnx'', drop k bs) # open_files s,
           vars := (vars s)(''tf'' \<mapsto> VModule ''tensorflow'',
           ''tensorflow_graph_to_onnx_model'' \<mapsto> VImported ''onnx_tf.frontend'' ''tensorflow_graph_to_onnx_model'',
           ''f'' \<mapsto> VFile ''frozen_graph.pb'', ''graph_def'' \<mapsto> VGraphDef g,
           ''onnx_model'' \<mapsto> VModel m, ''file'' \<mapsto> VFile ''mnist.onnx''),
           calls := calls s @ [Call_GFile ''frozen_graph.pb'' ''rb'', Call_GraphDef,
           Call_read ''frozen_graph.pb'', Call_ParseFromString (GraphDef L) b,
           Call_tensorflow_graph_to_onnx_model g ''fc2/add'' 6, Call_open ''mnist.onnx'' ''wb'',
           Call_SerializeToString m, Call_write ''mnist.onnx'' bs]\<rparr>)"
    by (elim conjE) (rule conversion_write_fails)
next
  assume "fs s ''frozen_graph.pb'' = Some b \<and>
     ParseFromString L (GraphDef L) b = Inr g \<and>
     tensorflow_graph_to_onnx_model L g ''fc2/add'' 6 = Inr m \<and>
     open_error L ''mnist.onnx'' = None \<and>
     SerializeToString L m = Inr bs \<and>
     write_error L ''mnist.onnx'' bs = None \<and>
     close_error L ''mnist.onnx'' = Some (e, k)"
  then show "conversion_cell L s =
        (Inl e,
         s\<lparr>fs := (fs s)(''mnist.onnx'' \<mapsto> take k bs),
           vars := (vars s)(''tf'' \<mapsto> VModule ''tensorflow'',
           ''tensorflow_graph_to_onnx_model'' \<mapsto> VImported ''onnx_tf.frontend'' ''tensorflow_graph_to_onnx_model'',
           ''f'' \<mapsto> VFile ''frozen_graph.pb'', ''graph_def'' \<mapsto> VGraphDef g,
           ''onnx_model'' \<mapsto> VModel m, ''file'' \<mapsto> VFile ''mnist.onnx''),
           calls := calls s @ [Call_GFile ''frozen_graph.pb'' ''rb'', Call_GraphDef,
           Call_read ''frozen_graph.pb'', Call_ParseFromString (GraphDef L) b,
           Call_tensorflow_graph_to_onnx_model g ''fc2/add'' 6, Call_open ''mnist.onnx'' ''wb'',
           Call_SerializeToString m, Call_write ''mnist.onnx'' bs,
           Call_close ''mnist.onnx'']\<rparr>)"
    by (elim conjE) (rule conversion_close_fails)
next
  assume "fs s ''frozen_graph.pb'' = Some b \<and>
     ParseFromString L (GraphDef L) b = Inr g \<and>
     tensorflow_graph_to_onnx_model L g ''fc2/add'' 6 = Inr m \<and>
     open_error L ''mnist.onnx'' = None \<and>
     SerializeToString L m = Inr bs \<and>
     write_error L ''mnist.onnx'' bs = None \<and>
     close_error L ''mnist.onnx'' = None"
  then show "conversion_cell L s =
        (Inr (),
         s\<lparr>fs := (fs s)(''mnist.onnx'' \<mapsto> bs),
           vars := (vars s)(''tf'' \<mapsto> VModule ''tensorflow'',
           ''tensorflow_graph_to_onnx_model'' \<mapsto> VImported ''onnx_tf.frontend'' ''tensorflow_graph_to_onnx_model'',
           ''f'' \<mapsto> VFile ''frozen_graph.pb'', ''graph_def'' \<mapsto> VGraphDef g,
           ''onnx_model'' \<mapsto> VModel m, ''file'' \<mapsto> VFile ''mnist.onnx''),
           calls := calls s @ [Call_GFile ''frozen_graph.pb'' ''rb'', Call_GraphDef,
           Call_read ''frozen_graph.pb'', Call_ParseFromString (GraphDef L) b,
           Call_tensorflow_graph_to_onnx_model g ''fc2/add'' 6, Call_open ''mnist.onnx'' ''wb'',
           Call_SerializeToString m, Call_write ''mnist.onnx'' bs,
           Call_close ''mnist.onnx'']\<rparr>)"
    by (elim conjE) (rule conversion_ok)
next
  assume "vars s ''onnx_model'' = None"
  then show "sanity_check_cell L s =
        (Inl NameError,
         s)"
    by (rule sanity_check_name_error)
next
  assume "vars s ''onnx_model'' = Some v \<and>
     (\<forall>m'. v \<noteq> VModel m')"
  then show "sanity_check_cell L s =
        (Inl AttributeError,
         s)"
    by (elim conjE) (rule sanity_check_attribute_error)
next
  assume "vars s ''onnx_model'' = Some (VModel m) \<and>
     graph_node L m = []"
  then show "sanity_check_cell L s =
        (Inl IndexError,
         s)"
    by (elim conjE) (rule sanity_check_index_error)
next
  assume "vars s ''onnx_model'' = Some (VModel m) \<and>
     graph_node L m = nd # nds"
  then show "sanity_check_cell L s =
        (Inr (),
         s\<lparr>stdout := stdout s @ [PNode nd, PNewline]\<rparr>)"
    by (elim conjE) (rule sanity_check_ok)
next
  assume "fs s ''mnist.onnx'' = None"
  then show "inference_cell L s =
        (Inl IOError,
         s\<lparr>vars := (vars s)(''onnx'' \<mapsto> VModule ''onnx'',
           ''np'' \<mapsto> VModule ''numpy'',
           ''prepare'' \<mapsto> VImported ''onnx_tf.backend'' ''prepare''),
           calls := calls s @ [Call_onnx_load ''mnist.onnx'']\<rparr>)"
    by (rule inference_no_model_file)
next
  assume "fs s ''mnist.onnx'' = Some mb \<and>
     load_from_string L mb = Inl e"
  then show "inference_cell L s =
        (Inl e,
         s\<lparr>vars := (vars s)(''onnx'' \<mapsto> VModule ''onnx'',
           ''np'' \<mapsto> VModule ''numpy'',
           ''prepare'' \<mapsto> VImported ''onnx_tf.backend'' ''prepare''),
           calls := calls s @ [Call_onnx_load ''mnist.onnx'']\<rparr>)"
    by (elim conjE) (rule inference_load_fails)
next
  assume "fs s ''mnist.onnx'' = Some mb \<and>
     load_from_string L mb = Inr model \<and>
     prepare L model = Inl e"
  then show "inference_cell L s =
        (Inl e,
         s\<lparr>vars := (vars s)(''onnx'' \<mapsto> VModule ''onnx'',
           ''np'' \<mapsto> VModule ''numpy'',
           ''prepare'' \<mapsto> VImported ''onnx_tf.backend'' ''prepare'',
           ''model'' \<mapsto> VModel model), calls := calls s @ [Call_onnx_load ''mnist.onnx'',
           Call_prepare model]\<rparr>)"
    by (elim conjE) (rule inference_prepare_fails)
next
  assume "fs s ''mnist.onnx'' = Some mb \<and>
     load_from_string L mb = Inr model \<and>
     prepare L model = Inr r \<and>
     fs s ''./assets/image.npz'' = None"
  then show "inference_cell L s =
        (Inl IOError,
         s\<lparr>vars := (vars s)(''onnx'' \<mapsto> VModule ''onnx'',
           ''np'' \<mapsto> VModule ''numpy'',
           ''prepare'' \<mapsto> VImported ''onnx_tf.backend'' ''prepare'',
           ''model'' \<mapsto> VModel model, ''tf_rep'' \<mapsto> VRep r),
           calls := calls s @ [Call_onnx_load ''mnist.onnx'', Call_prepare model,
           Call_np_load ''./assets/image.npz'']\<rparr>)"
    by (elim conjE) (rule inference_no_image_file)
next
  assume "fs s ''mnist.onnx'' = Some mb \<and>
     load_from_string L mb = Inr model \<and>
     prepare L model = Inr r \<and>
     fs s ''./assets/image.npz'' = Some ib \<and>
     np_load_bytes L ib = Inl e"
  then show "inference_cell L s =
        (Inl e,
         s\<lparr>vars := (vars s)(''onnx'' \<mapsto> VModule ''onnx'',
           ''np'' \<mapsto> VModule ''numpy'',
           ''prepare'' \<mapsto> VImported ''onnx_tf.backend'' ''prepare'',
           ''model'' \<mapsto> VModel model, ''tf_rep'' \<mapsto> VRep r),
           calls := calls s @ [Call_onnx_load ''mnist.onnx'', Call_prepare model,
           Call_np_load ''./assets/image.npz'']\<rparr>)"
    by (elim conjE) (rule inference_np_load_fails)
next
  assume "fs s ''mnist.onnx'' = Some mb \<and>
     load_from_string L mb = Inr model \<and>
     prepare L model = Inr r \<and>
     fs s ''./assets/image.npz'' = Some ib \<and>
     np_load_bytes L ib = Inr (NpzFile z)"
  then show "inference_cell L s =
        (Inl AttributeError,
         s\<lparr>vars := (vars s)(''onnx'' \<mapsto> VModule ''onnx'',
           ''np'' \<mapsto> VModule ''numpy'',
           ''prepare'' \<mapsto> VImported ''onnx_tf.backend'' ''prepare'',
           ''model'' \<mapsto> VModel model, ''tf_rep'' \<mapsto> VRep r,
           ''img'' \<mapsto> VLoaded (NpzFile z)),
           calls := calls s @ [Call_onnx_load ''mnist.onnx'', Call_prepare model,
           Call_np_load ''./assets/image.npz'']\<rparr>)"
    by (elim conjE) (rule inference_archive)
next
  assume "fs s ''mnist.onnx'' = Some mb \<and>
     load_from_string L mb = Inr model \<and>
     prepare L model = Inr r \<and>
     fs s ''./assets/image.npz'' = Some ib \<and>
     np_load_bytes L ib = Inr (NdArray a) \<and>
     reshape a [1, 784] = Inl e"
  then show "inference_cell L s =
        (Inl e,
         s\<lparr>vars := (vars s)(''onnx'' \<mapsto> VModule ''onnx'',
           ''np'' \<mapsto> VModule ''numpy'',
           ''prepare'' \<mapsto> VImported ''onnx_tf.backend'' ''prepare'',
           ''model'' \<mapsto> VModel model, ''tf_rep'' \<mapsto> VRep r,
           ''img'' \<mapsto> VLoaded (NdArray a)),
           calls := calls s @ [Call_onnx_load ''mnist.onnx'', Call_prepare model,
           Call_np_load ''./assets/image.npz'', Call_reshape a [1, 784]]\<rparr>)"
    by (elim conjE) (rule inference_reshape_fails)
next
  assume "fs s ''mnist.onnx'' = Some mb \<and>
     load_from_string L mb = Inr model \<and>
     prepare L model = Inr r \<and>
     fs s ''./assets/image.npz'' = Some ib \<and>
     np_load_bytes L ib = Inr (NdArray a) \<and>
     reshape a [1, 784] = Inr t \<and>
     run L r t = Inl e"
  then show "inference_cell L s =
        (Inl e,
         s\<lparr>vars := (vars s)(''onnx'' \<mapsto> VModule ''onnx'',
           ''np'' \<mapsto> VModule ''numpy'',
           ''prepare'' \<mapsto> VImported ''onnx_tf.backend'' ''prepare'',
           ''model'' \<mapsto> VModel model, ''tf_rep'' \<mapsto> VRep r,
           ''img'' \<mapsto> VLoaded (NdArray a)),
           calls := calls s @ [Call_onnx_load ''mnist.onnx'', Call_prepare model,
           Call_np_load ''./assets/image.npz'', Call_reshape a [1, 784], Call_run r t]\<rparr>)"
    by (elim conjE) (rule inference_run_fails)
next
  assume "fs s ''mnist.onnx'' = Some mb \<and>
     load_from_string L mb = Inr model \<and>
     prepare L model = Inr r \<and>
     fs s ''./assets/image.npz'' = Some ib \<and>
     np_load_bytes L ib = Inr (NdArray a) \<and>
     reshape a [1, 784] = Inr t \<and>
     run L r t = Inr out \<and>
     argmax L out = Inl e"
  then show "inference_cell L s =
        (Inl e,
         s\<lparr>vars := (vars s)(''onnx'' \<mapsto> VModule ''onnx'',
           ''np'' \<mapsto> VModule ''numpy'',
           ''prepare'' \<mapsto> VImported ''onnx_tf.backend'' ''prepare'',
           ''model'' \<mapsto> VModel model, ''tf_rep'' \<mapsto> VRep r,
           ''img'' \<mapsto> VLoaded (NdArray a), ''output'' \<mapsto> VOutput out),
           stdout := stdout s @ [PStr ''The digit is classified as ''],
           calls := calls s @ [Call_onnx_load ''mnist.onnx'', Call_prepare model,
           Call_np_load ''./assets/image.npz'', Call_reshape a [1, 784], Call_run r t,
           Call_argmax out]\<rparr>)"
    by (elim conjE) (rule inference_argmax_fails)
next
  assume "fs s ''mnist.onnx'' = Some mb \<and>
     load_from_string L mb = Inr model \<and>
     prepare L model = Inr r \<and>
     fs s ''./assets/image.npz'' = Some ib \<and>
     np_load_bytes L ib = Inr (NdArray a) \<and>
     reshape a [1, 784] = Inr t \<and>
     run L r t = Inr out \<and>
     argmax L out = Inr n"
  then show "inference_cell L s =
        (Inr (),
         s\<lparr>vars := (vars s)(''onnx'' \<mapsto> VModule ''onnx'',
           ''np'' \<mapsto> VModule ''numpy'',
           ''prepare'' \<mapsto> VImported ''onnx_tf.backend'' ''prepare'',
           ''model'' \<mapsto> VModel model, ''tf_rep'' \<mapsto> VRep r,
           ''img'' \<mapsto> VLoaded (NdArray a), ''output'' \<mapsto> VOutput out),
           stdout := stdout s @ [PStr ''The digit is classified as '', PInt n, PNewline],
           calls := calls s @ [Call_onnx_load ''mnist.onnx'', Call_prepare model,
           Call_np_load ''./assets/image.npz'', Call_reshape a [1, 784], Call_run r t,
           Call_argmax out]\<rparr>)"
    by (elim conjE) (rule inference_ok)
qed

theorem cells_do_exactly_their_calls_witness:
  "fs demo_state ''frozen_graph.pb'' = Some ''graph'' \<and>
   ParseFromString demo_lib (GraphDef demo_lib) ''graph'' = Inr ''graph'' \<and>
   tensorflow_graph_to_onnx_model demo_lib ''graph'' ''fc2/add'' 6 = Inr ''fc2/add:graph'' \<and>
   open_error demo_lib ''mnist.onnx'' = None \<and>
   SerializeToString demo_lib ''fc2/add:graph'' = Inr ''fc2/add:graph'' \<and>
   write_error demo_lib ''mnist.onnx'' ''fc2/add:graph'' = None \<and>
   close_error demo_lib ''mnist.onnx'' = None \<and>
   conversion_cell demo_lib demo_state =
       (Inr (),
        demo_state\<lparr>fs := (fs demo_state)(''mnist.onnx'' \<mapsto> ''fc2/add:graph''),
          vars := (vars demo_state)(''tf'' \<mapsto> VModule ''tensorflow'',
          ''tensorflow_graph_to_onnx_model'' \<mapsto> VImported ''onnx_tf.frontend'' ''tensorflow_graph_to_onnx_model'',
          ''f'' \<mapsto> VFile ''frozen_graph.pb'', ''graph_def'' \<mapsto> VGraphDef ''graph'',
          ''onnx_model'' \<mapsto> VModel ''fc2/add:graph'',
          ''file'' \<mapsto> VFile ''mnist.onnx''),
          calls := calls demo_state @ [Call_GFile ''frozen_graph.pb'' ''rb'', Call_GraphDef,
          Call_read ''frozen_graph.pb'', Call_ParseFromString (GraphDef demo_lib) ''graph'',
          Call_tensorflow_graph_to_onnx_model ''graph'' ''fc2/add'' 6,
          Call_open ''mnist.onnx'' ''wb'', Call_SerializeToString ''fc2/add:graph'',
          Call_write ''mnist.onnx'' ''fc2/add:graph'', Call_close ''mnist.onnx'']\<rparr>) \<and>
   vars (snd (conversion_cell demo_lib demo_state)) ''onnx_model'' = Some (VModel ''fc2/add:graph'') \<and>
   graph_node demo_lib ''fc2/add:graph'' = \<lparr>node_input = [''fc2/add:graph''], node_output = [''out''], op_type = ''Identity''\<rparr> # [] \<and>
   sanity_check_cell demo_lib (snd (conversion_cell demo_lib demo_state)) =
       (Inr (),
        (snd (conversion_cell demo_lib demo_state))\<lparr>stdout := stdout (snd (conversion_cell demo_lib demo_state)) @ [PNode \<lparr>node_input = [''fc2/add:graph''],
          node_output = [''out''], op_type = ''Identity''\<rparr>, PNewline]\<rparr>) \<and>
   fs converted_state ''mnist.onnx'' = Some ''fc2/add:graph'' \<and>
   load_from_string demo_lib ''fc2/add:graph'' = Inr ''fc2/add:graph'' \<and>
   prepare demo_lib ''fc2/add:graph'' = Inr ''fc2/add:graph'' \<and>
   fs converted_state ''./assets/image.npz'' = Some (replicate 784 (CHR ''p'')) \<and>
   np_load_bytes demo_lib (replicate 784 (CHR ''p'')) = Inr (NdArray \<lparr>shape = [784], data = replicate 784 (112::nat)\<rparr>) \<and>
   reshape \<lparr>shape = [784], data = replicate 784 (112::nat)\<rparr> [1, 784] = Inr \<lparr>shape = [1, 784], data = replicate 784 (112::nat)\<rparr> \<and>
   run demo_lib ''fc2/add:graph'' \<lparr>shape = [1, 784], data = replicate 784 (112::nat)\<rparr> = Inr (replicate 784 (112::nat)) \<and>
   argmax demo_lib (replicate 784 (112::nat)) = Inr 0 \<and>
   inference_cell demo_lib converted_state =
       (Inr (),
        converted_state\<lparr>vars := (vars converted_state)(''onnx'' \<mapsto> VModule ''onnx'',
          ''np'' \<mapsto> VModule ''numpy'',
          ''prepare'' \<mapsto> VImported ''onnx_tf.backend'' ''prepare'',
          ''model'' \<mapsto> VModel ''fc2/add:graph'',
          ''tf_rep'' \<mapsto> VRep ''fc2/add:graph'',
          ''img'' \<mapsto> VLoaded (NdArray \<lparr>shape = [784],
          data = replicate 784 (112::nat)\<rparr>),
          ''output'' \<mapsto> VOutput (replicate 784 (112::nat))),
          stdout := stdout converted_state @ [PStr ''The digit is classified as '', PInt 0,
          PNewline], calls := calls converted_state @ [Call_onnx_load ''mnist.onnx'',
          Call_prepare ''fc2/add:graph'', Call_np_load ''./assets/image.npz'',
          Call_reshape \<lparr>shape = [784], data = replicate 784 (112::nat)\<rparr> [1, 784],
          Call_run ''fc2/add:graph'' \<lparr>shape = [1, 784],
          data = replicate 784 (112::nat)\<rparr>, Call_argmax (replicate 784 (112::nat))]\<rparr>) \<and>
   fs demo_state ''frozen_graph.pb'' = Some ''graph'' \<and>
   ParseFromString disk_full_lib (GraphDef disk_full_lib) ''graph'' = Inr ''graph'' \<and>
   tensorflow_graph_to_onnx_model disk_full_lib ''graph'' ''fc2/add'' 6 = Inr ''fc2/add:graph'' \<and>
   open_error disk_full_lib ''mnist.onnx'' = None \<and>
   SerializeToString disk_full_lib ''fc2/add:graph'' = Inr ''fc2/add:graph'' \<and>
   write_error disk_full_lib ''mnist.onnx'' ''fc2/add:graph'' = Some (IOError, 0) \<and>
   conversion_cell disk_full_lib demo_state =
       (Inl IOError,
        demo_state\<lparr>fs := (fs demo_state)(''mnist.onnx'' \<mapsto> take 0 ''fc2/add:graph''),
          open_files := (''mnist.onnx'', drop 0 ''fc2/add:graph'') # open_files demo_state,
          vars := (vars demo_state)(''tf'' \<mapsto> VModule ''tensorflow'',
          ''tensorflow_graph_to_onnx_model'' \<mapsto> VImported ''onnx_tf.frontend'' ''tensorflow_graph_to_onnx_model'',
          ''f'' \<mapsto> VFile ''frozen_graph.pb'', ''graph_def'' \<mapsto> VGraphDef ''graph'',
          ''onnx_model'' \<mapsto> VModel ''fc2/add:graph'',
          ''file'' \<mapsto> VFile ''mnist.onnx''),
          calls := calls demo_state @ [Call_GFile ''frozen_graph.pb'' ''rb'', Call_GraphDef,
          Call_read ''frozen_graph.pb'', Call_ParseFromString (GraphDef disk_full_lib) ''graph'',
          Call_tensorflow_graph_to_onnx_model ''graph'' ''fc2/add'' 6,
          Call_open ''mnist.onnx'' ''wb'', Call_SerializeToString ''fc2/add:graph'',
          Call_write ''mnist.onnx'' ''fc2/add:graph'']\<rparr>)"
proof -
  have h1: "fs demo_state ''frozen_graph.pb'' = Some ''graph'' \<and>
      ParseFromString demo_lib (GraphDef demo_lib) ''graph'' = Inr ''graph'' \<and>
      tensorflow_graph_to_onnx_model demo_lib ''graph'' ''fc2/add'' 6 = Inr ''fc2/add:graph'' \<and>
      open_error demo_lib ''mnist.onnx'' = None \<and>
      SerializeToString demo_lib ''fc2/add:graph'' = Inr ''fc2/add:graph'' \<and>
      write_error demo_lib ''mnist.onnx'' ''fc2/add:graph'' = None \<and>
      close_error demo_lib ''mnist.onnx'' = None"
    by (simp add: demo_lib_simps demo_state_simps)
  note t1 = cells_do_exactly_their_calls [where L = demo_lib and s = demo_state and b = "''graph''" and g = "''graph''" and m = "''fc2/add:graph''" and bs = "''fc2/add:graph''"]
  note r1 = mp [OF t1 [THEN conjunct2, THEN conjunct2, THEN conjunct2, THEN conjunct2, THEN conjunct2, THEN conjunct2, THEN conjunct2, THEN conjunct1] h1]
  have h2: "vars (snd (conversion_cell demo_lib demo_state)) ''onnx_model'' = Some (VModel ''fc2/add:graph'') \<and>
      graph_node demo_lib ''fc2/add:graph'' = \<lparr>node_input = [''fc2/add:graph''], node_output = [''out''], op_type = ''Identity''\<rparr> # []"
    by (simp add: demo_lib_simps demo_conversion)
  note t2 = cells_do_exactly_their_calls [where L = demo_lib and s = "(snd (conversion_cell demo_lib demo_state))" and m = "''fc2/add:graph''" and nd = "\<lparr>node_input = [''fc2/add:graph''], node_output = [''out''], op_type = ''Identity''\<rparr>" and nds = "[]"]
  note r2 = mp [OF t2 [THEN conjunct2, THEN conjunct2, THEN conjunct2, THEN conjunct2, THEN conjunct2, THEN conjunct2, THEN conjunct2, THEN conjunct2, THEN conjunct2, THEN conjunct2, THEN conjunct2, THEN conjunct1] h2]
  have h3: "fs converted_state ''mnist.onnx'' = Some ''fc2/add:graph'' \<and>
      load_from_string demo_lib ''fc2/add:graph'' = Inr ''fc2/add:graph'' \<and>
      prepare demo_lib ''fc2/add:graph'' = Inr ''fc2/add:graph'' \<and>
      fs converted_state ''./assets/image.npz'' = Some (replicate 784 (CHR ''p'')) \<and>
      np_load_bytes demo_lib (replicate 784 (CHR ''p'')) = Inr (NdArray \<lparr>shape = [784], data = replicate 784 (112::nat)\<rparr>) \<and>
      reshape \<lparr>shape = [784], data = replicate 784 (112::nat)\<rparr> [1, 784] = Inr \<lparr>shape = [1, 784], data = replicate 784 (112::nat)\<rparr> \<and>
      run demo_lib ''fc2/add:graph'' \<lparr>shape = [1, 784], data = replicate 784 (112::nat)\<rparr> = Inr (replicate 784 (112::nat)) \<and>
      argmax demo_lib (replicate 784 (112::nat)) = Inr 0"
    by (simp add: demo_lib_simps converted_state_simps reshape_def size_nd_def)
  note t3 = cells_do_exactly_their_calls [where L = demo_lib and s = converted_state and mb = "''fc2/add:graph''" and model = "''fc2/add:graph''" and r = "''fc2/add:graph''" and ib = "(replicate 784 (CHR ''p''))" and a = "\<lparr>shape = [784], data = replicate 784 (112::nat)\<rparr>" and t = "\<lparr>shape = [1, 784], data = replicate 784 (112::nat)\<rparr>" and out = "(replicate 784 (112::nat))" and n = "0"]
  note r3 = mp [OF t3 [THEN conjunct2, THEN conjunct2, THEN conjunct2, THEN conjunct2, THEN conjunct2, THEN conjunct2, THEN conjunct2, THEN conjunct2, THEN conjunct2, THEN conjunct2, THEN conjunct2, THEN conjunct2, THEN conjunct2, THEN conjunct2, THEN conjunct2, THEN conjunct2, THEN conjunct2, THEN conjunct2, THEN conjunct2, THEN conjunct2, THEN conjunct2] h3]
  have h4: "fs demo_state ''frozen_graph.pb'' = Some ''graph'' \<and>
      ParseFromString disk_full_lib (GraphDef disk_full_lib) ''graph'' = Inr ''graph'' \<and>
      tensorflow_graph_to_onnx_model disk_full_lib ''graph'' ''fc2/add'' 6 = Inr ''fc2/add:graph'' \<and>
      open_error disk_full_lib ''mnist.onnx'' = None \<and>
      SerializeToString disk_full_lib ''fc2/add:graph'' = Inr ''fc2/add:graph'' \<and>
      write_error disk_full_lib ''mnist.onnx'' ''fc2/add:graph'' = Some (IOError, 0)"
    by (simp add: disk_full_lib_simps demo_state_simps)
  note t4 = cells_do_exactly_their_calls [where L = disk_full_lib and s = demo_state and b = "''graph''" and g = "''graph''" and m = "''fc2/add:graph''" and bs = "''fc2/add:graph''" and e = IOError and k = "0"]
  note r4 = mp [OF t4 [THEN conjunct2, THEN conjunct2, THEN conjunct2, THEN conjunct2, THEN conjunct2, THEN conjunct1] h4]
  from h1 r1 h2 r2 h3 r3 h4 r4 show ?thesis
    by blast
qed

text \<open>
  The array that \<^verbatim>\<open>run\<close> receives is not the array that \<^verbatim>\<open>np.load\<close> returned: its shape
  has been changed.
\<close>

theorem loaded_array_is_reshaped_before_run:
  "vars (snd (inference_cell demo_lib converted_state)) ''img'' =
     Some (VLoaded (NdArray \<lparr>shape = [784], data = replicate 784 112\<rparr>)) \<and>
   run_args (trace_of (inference_cell demo_lib) converted_state) =
     [\<lparr>shape = [1, 784], data = replicate 784 112\<rparr>] \<and>
   \<lparr>shape = [784], data = replicate 784 (112::nat)\<rparr> \<noteq>
     \<lparr>shape = [1, 784], data = replicate 784 112\<rparr>"
  by (simp add: demo_inference)

text \<open>
  C4. A failure of a called library is not caught, and nothing is retried or recovered:
  for each call of the conversion cell and of the inference cell, when the calls before it
  return and it raises an exception (a missing file, a malformed graph at the parser, a
  missing output node or a format version the converter rejects, a refused open, write or
  close, a model the backend rejects, a shape mismatch at \<^verbatim>\<open>reshape\<close> or in the backend),
  the cell ends with that very exception; the calls it has made are those of the source
  up to the failing one, each once, and the state is the one those calls have left, with
  nothing printed or written by a handler. The \<^verbatim>\<open>with\<close> block closes its file and lets the
  exception go on. The same holds when \<^verbatim>\<open>np.load\<close> returns an archive and the lookup of
  \<^verbatim>\<open>reshape\<close> on it raises AttributeError.
\<close>

theorem library_failure_ends_the_cell:
  "(fs s ''frozen_graph.pb'' = None \<longrightarrow>
      conversion_cell L s =
        (Inl NotFoundError,
         s\<lparr>vars := (vars s)(''tf'' \<mapsto> VModule ''tensorflow'',
           ''tensorflow_graph_to_onnx_model'' \<mapsto> VImported ''onnx_tf.frontend'' ''tensorflow_graph_to_onnx_model'',
           ''f'' \<mapsto> VFile ''frozen_graph.pb'',
           ''graph_def'' \<mapsto> VGraphDef (GraphDef L)),
           calls := calls s @ [Call_GFile ''frozen_graph.pb'' ''rb'', Call_GraphDef,
           Call_read ''frozen_graph.pb'']\<rparr>))
   \<and> (fs s ''frozen_graph.pb'' = Some b \<and>
     ParseFromString L (GraphDef L) b = Inl e \<longrightarrow>
      conversion_cell L s =
        (Inl e,
         s\<lparr>vars := (vars s)(''tf'' \<mapsto> VModule ''tensorflow'',
           ''tensorflow_graph_to_onnx_model'' \<mapsto> VImported ''onnx_tf.frontend'' ''tensorflow_graph_to_onnx_model'',
           ''f'' \<mapsto> VFile ''frozen_graph.pb'',
           ''graph_def'' \<mapsto> VGraphDef (GraphDef L)),
           calls := calls s @ [Call_GFile ''frozen_graph.pb'' ''rb'', Call_GraphDef,
           Call_read ''frozen_graph.pb'', Call_ParseFromString (GraphDef L) b]\<rparr>))
   \<and> (fs s ''frozen_graph.pb'' = Some b \<and>
     ParseFromString L (GraphDef L) b = Inr g \<and>
     tensorflow_graph_to_onnx_model L g ''fc2/add'' 6 = Inl e \<longrightarrow>
      conversion_cell L s =
        (Inl e,
         s\<lparr>vars := (vars s)(''tf'' \<mapsto> VModule ''tensorflow'',
           ''tensorflow_graph_to_onnx_model'' \<mapsto> VImported ''onnx_tf.frontend'' ''tensorflow_graph_to_onnx_model'',
           ''f'' \<mapsto> VFile ''frozen_graph.pb'', ''graph_def'' \<mapsto> VGraphDef g),
           calls := calls s @ [Call_GFile ''frozen_graph.pb'' ''rb'', Call_GraphDef,
           Call_read ''frozen_graph.pb'', Call_ParseFromString (GraphDef L) b,
           Call_tensorflow_graph_to_onnx_model g ''fc2/add'' 6]\<rparr>))
   \<and> (fs s ''frozen_graph.pb'' = Some b \<and>
     ParseFromString L (GraphDef L) b = Inr g \<and>
     tensorflow_graph_to_onnx_model L g ''fc2/add'' 6 = Inr m \<and>
     open_error L ''mnist.onnx'' = Some e \<longrightarrow>
      conversion_cell L s =
        (Inl e,
         s\<lparr>vars := (vars s)(''tf'' \<mapsto> VModule ''tensorflow'',
           ''tensorflow_graph_to_onnx_model'' \<mapsto> VImported ''onnx_tf.frontend'' ''tensorflow_graph_to_onnx_model'',
           ''f'' \<mapsto> VFile ''frozen_graph.pb'', ''graph_def'' \<mapsto> VGraphDef g,
           ''onnx_model'' \<mapsto> VModel m),
           calls := calls s @ [Call_GFile ''frozen_graph.pb'' ''rb'', Call_GraphDef,
           Call_read ''frozen_graph.pb'', Call_ParseFromString (GraphDef L) b,
           Call_tensorflow_graph_to_onnx_model g ''fc2/add'' 6,
           Call_open ''mnist.onnx'' ''wb'']\<rparr>))
   \<and> (fs s ''frozen_graph.pb'' = Some b \<and>
     ParseFromString L (GraphDef L) b = Inr g \<and>
     tensorflow_graph_to_onnx_model L g ''fc2/add'' 6 = Inr m \<and>
     open_error L ''mnist.onnx'' = None \<and>
     SerializeToString L m = Inl e \<longrightarrow>
      conversion_cell L s =
        (Inl e,
         s\<lparr>fs := (fs s)(''mnist.onnx'' \<mapsto> []), open_files := (''mnist.onnx'',
           []) # open_files s, vars := (vars s)(''tf'' \<mapsto> VModule ''tensorflow'',
           ''tensorflow_graph_to_onnx_model'' \<mapsto> VImported ''onnx_tf.frontend'' ''tensorflow_graph_to_onnx_model'',
           ''f'' \<mapsto> VFile ''frozen_graph.pb'', ''graph_def'' \<mapsto> VGraphDef g,
           ''onnx_model'' \<mapsto> VModel m, ''file'' \<mapsto> VFile ''mnist.onnx''),
           calls := calls s @ [Call_GFile ''frozen_graph.pb'' ''rb'', Call_GraphDef,
           Call_read ''frozen_graph.pb'', Call_ParseFromString (GraphDef L) b,
           Call_tensorflow_graph_to_onnx_model g ''fc2/add'' 6, Call_open ''mnist.onnx'' ''wb'',
           Call_SerializeToString m]\<rparr>))
   \<and> (fs s ''frozen_graph.pb'' = Some b \<and>
     ParseFromString L (GraphDef L) b = Inr g \<and>
     tensorflow_graph_to_onnx_model L g ''fc2/add'' 6 = Inr m \<and>
     open_error L ''mnist.onnx'' = None \<and>
     SerializeToString L m = Inr bs \<and>
     write_error L ''mnist.onnx'' bs = Some (e, k) \<longrightarrow>
      conversion_cell L s =
        (Inl e,
         s\<lparr>fs := (fs s)(''mnist.onnx'' \<mapsto> take k bs),
           open_files := (''mnist.onnx'', drop k bs) # open_files s,
           vars := (vars s)(''tf'' \<mapsto> VModule ''tensorflow'',
           ''tensorflow_graph_to_onnx_model'' \<mapsto> VImported ''onnx_tf.frontend'' ''tensorflow_graph_to_onnx_model'',
           ''f'' \<mapsto> VFile ''frozen_graph.pb'', ''graph_def'' \<mapsto> VGraphDef g,
           ''onnx_model'' \<mapsto> VModel m, ''file'' \<mapsto> VFile ''mnist.onnx''),
           calls := calls s @ [Call_GFile ''frozen_graph.pb'' ''rb'', Call_GraphDef,
           Call_read ''frozen_graph.pb'', Call_ParseFromString (GraphDef L) b,
           Call_tensorflow_graph_to_onnx_model g ''fc2/add'' 6, Call_open ''mnist.onnx'' ''wb'',
           Call_SerializeToString m, Call_write ''mnist.onnx'' bs]\<rparr>))
   \<and> (fs s ''frozen_graph.pb'' = Some b \<and>
     ParseFromString L (GraphDef L) b = Inr g \<and>
     tensorflow_graph_to_onnx_model L g ''fc2/add'' 6 = Inr m \<and>
     open_error L ''mnist.onnx'' = None \<and>
     SerializeToString L m = Inr bs \<and>
     write_error L ''mnist.onnx'' bs = None \<and>
     close_error L ''mnist.onnx'' = Some (e, k) \<longrightarrow>
      conversion_cell L s =
        (Inl e,
         s\<lparr>fs := (fs s)(''mnist.onnx'' \<mapsto> take k bs),
           vars := (vars s)(''tf'' \<mapsto> VModule ''tensorflow'',
           ''tensorflow_graph_to_onnx_model'' \<mapsto> VImported ''onnx_tf.frontend'' ''tensorflow_graph_to_onnx_model'',
           ''f'' \<mapsto> VFile ''frozen_graph.pb'', ''graph_def'' \<mapsto> VGraphDef g,
           ''onnx_model'' \<mapsto> VModel m, ''file'' \<mapsto> VFile ''mnist.onnx''),
           calls := calls s @ [Call_GFile ''frozen_graph.pb'' ''rb'', Call_GraphDef,
           Call_read ''frozen_graph.pb'', Call_ParseFromString (GraphDef L) b,
           Call_tensorflow_graph_to_onnx_model g ''fc2/add'' 6, Call_open ''mnist.onnx'' ''wb'',
           Call_SerializeToString m, Call_write ''mnist.onnx'' bs,
           Call_close ''mnist.onnx'']\<rparr>))
   \<and> (fs s ''mnist.onnx'' = None \<longrightarrow>
      inference_cell L s =
        (Inl IOError,
         s\<lparr>vars := (vars s)(''onnx'' \<mapsto> VModule ''onnx'',
           ''np'' \<mapsto> VModule ''numpy'',
           ''prepare'' \<mapsto> VImported ''onnx_tf.backend'' ''prepare''),
           calls := calls s @ [Call_onnx_load ''mnist.onnx'']\<rparr>))
   \<and> (fs s ''mnist.onnx'' = Some mb \<and>
     load_from_string L mb = Inl e \<longrightarrow>
      inference_cell L s =
        (Inl e,
         s\<lparr>vars := (vars s)(''onnx'' \<mapsto> VModule ''onnx'',
           ''np'' \<mapsto> VModule ''numpy'',
           ''prepare'' \<mapsto> VImported ''onnx_tf.backend'' ''prepare''),
           calls := calls s @ [Call_onnx_load ''mnist.onnx'']\<rparr>))
   \<and> (fs s ''mnist.onnx'' = Some mb \<and>
     load_from_string L mb = Inr model \<and>
     prepare L model = Inl e \<longrightarrow>
      inference_cell L s =
        (Inl e,
         s\<lparr>vars := (vars s)(''onnx'' \<mapsto> VModule ''onnx'',
           ''np'' \<mapsto> VModule ''numpy'',
           ''prepare'' \<mapsto> VImported ''onnx_tf.backend'' ''prepare'',
           ''model'' \<mapsto> VModel model), calls := calls s @ [Call_onnx_load ''mnist.onnx'',
           Call_prepare model]\<rparr>))
   \<and> (fs s ''mnist.onnx'' = Some mb \<and>
     load_from_string L mb = Inr model \<and>
     prepare L model = Inr r \<and>
     fs s ''./assets/image.npz'' = None \<longrightarrow>
      inference_cell L s =
        (Inl IOError,
         s\<lparr>vars := (vars s)(''onnx'' \<mapsto> VModule ''onnx'',
           ''np'' \<mapsto> VModule ''numpy'',
           ''prepare'' \<mapsto> VImported ''onnx_tf.backend'' ''prepare'',
           ''model'' \<mapsto> VModel model, ''tf_rep'' \<mapsto> VRep r),
           calls := calls s @ [Call_onnx_load ''mnist.onnx'', Call_prepare model,
           Call_np_load ''./assets/image.npz'']\<rparr>))
   \<and> (fs s ''mnist.onnx'' = Some mb \<and>
     load_from_string L mb = Inr model \<and>
     prepare L model = Inr r \<and>
     fs s ''./assets/image.npz'' = Some ib \<and>
     np_load_bytes L ib = Inl e \<longrightarrow>
      inference_cell L s =
        (Inl e,
         s\<lparr>vars := (vars s)(''onnx'' \<mapsto> VModule ''onnx'',
           ''np'' \<mapsto> VModule ''numpy'',
           ''prepare'' \<mapsto> VImported ''onnx_tf.backend'' ''prepare'',
           ''model'' \<mapsto> VModel model, ''tf_rep'' \<mapsto> VRep r),
           calls := calls s @ [Call_onnx_load ''mnist.onnx'', Call_prepare model,
           Call_np_load ''./assets/image.npz'']\<rparr>))
   \<and> (fs s ''mnist.onnx'' = Some mb \<and>
     load_from_string L mb = Inr model \<and>
     prepare L model = Inr r \<and>
     fs s ''./assets/image.npz'' = Some ib \<and>
     np_load_bytes L ib = Inr (NpzFile z) \<longrightarrow>
      inference_cell L s =
        (Inl AttributeError,
         s\<lparr>vars := (vars s)(''onnx'' \<mapsto> VModule ''onnx'',
           ''np'' \<mapsto> VModule ''numpy'',
           ''prepare'' \<mapsto> VImported ''onnx_tf.backend'' ''prepare'',
           ''model'' \<mapsto> VModel model, ''tf_rep'' \<mapsto> VRep r,
           ''img'' \<mapsto> VLoaded (NpzFile z)),
           calls := calls s @ [Call_onnx_load ''mnist.onnx'', Call_prepare model,
           Call_np_load ''./assets/image.npz'']\<rparr>))
   \<and> (fs s ''mnist.onnx'' = Some mb \<and>
     load_from_string L mb = Inr model \<and>
     prepare L model = Inr r \<and>
     fs s ''./assets/image.npz'' = Some ib \<and>
     np_load_bytes L ib = Inr (NdArray a) \<and>
     reshape a [1, 784] = Inl e \<longrightarrow>
      inference_cell L s =
        (Inl e,
         s\<lparr>vars := (vars s)(''onnx'' \<mapsto> VModule ''onnx'',
           ''np'' \<mapsto> VModule ''numpy'',
           ''prepare'' \<mapsto> VImported ''onnx_tf.backend'' ''prepare'',
           ''model'' \<mapsto> VModel model, ''tf_rep'' \<mapsto> VRep r,
           ''img'' \<mapsto> VLoaded (NdArray a)),
           calls := calls s @ [Call_onnx_load ''mnist.onnx'', Call_prepare model,
           Call_np_load ''./assets/image.npz'', Call_reshape a [1, 784]]\<rparr>))
   \<and> (fs s ''mnist.onnx'' = Some mb \<and>
     load_from_string L mb = Inr model \<and>
     prepare L model = Inr r \<and>
     fs s ''./assets/image.npz'' = Some ib \<and>
     np_load_bytes L ib = Inr (NdArray a) \<and>
     reshape a [1, 784] = Inr t \<and>
     run L r t = Inl e \<longrightarrow>
      inference_cell L s =
        (Inl e,
         s\<lparr>vars := (vars s)(''onnx'' \<mapsto> VModule ''onnx'',
           ''np'' \<mapsto> VModule ''numpy'',
           ''prepare'' \<mapsto> VImported ''onnx_tf.backend'' ''prepare'',
           ''model'' \<mapsto> VModel model, ''tf_rep'' \<mapsto> VRep r,
           ''img'' \<mapsto> VLoaded (NdArray a)),
           calls := calls s @ [Call_onnx_load ''mnist.onnx'', Call_prepare model,
           Call_np_load ''./assets/image.npz'', Call_reshape a [1, 784], Call_run r t]\<rparr>))
   \<and> (fs s ''mnist.onnx'' = Some mb \<and>
     load_from_string L mb = Inr model \<and>
     prepare L model = Inr r \<and>
     fs s ''./assets/image.npz'' = Some ib \<and>
     np_load_bytes L ib = Inr (NdArray a) \<and>
     reshape a [1, 784] = Inr t \<and>
     run L r t = Inr out \<and>
     argmax L out = Inl e \<longrightarrow>
      inference_cell L s =
        (Inl e,
         s\<lparr>vars := (vars s)(''onnx'' \<mapsto> VModule ''onnx'',
           ''np'' \<mapsto> VModule ''numpy'',
           ''prepare'' \<mapsto> VImported ''onnx_tf.backend'' ''prepare'',
           ''model'' \<mapsto> VModel model, ''tf_rep'' \<mapsto> VRep r,
           ''img'' \<mapsto> VLoaded (NdArray a), ''output'' \<mapsto> VOutput out),
           stdout := stdout s @ [PStr ''The digit is classified as ''],
           calls := calls s @ [Call_onnx_load ''mnist.onnx'', Call_prepare model,
           Call_np_load ''./assets/image.npz'', Call_reshape a [1, 784], Call_run r t,
           Call_argmax out]\<rparr>))"
proof (intro conjI impI)
  assume "fs s ''frozen_graph.pb'' = None"
  then show "conversion_cell L s =
        (Inl NotFoundError,
         s\<lparr>vars := (vars s)(''tf'' \<mapsto> VModule ''tensorflow'',
           ''tensorflow_graph_to_onnx_model'' \<mapsto> VImported ''onnx_tf.frontend'' ''tensorflow_graph_to_onnx_model'',
           ''f'' \<mapsto> VFile ''frozen_graph.pb'',
           ''graph_def'' \<mapsto> VGraphDef (GraphDef L)),
           calls := calls s @ [Call_GFile ''frozen_graph.pb'' ''rb'', Call_GraphDef,
           Call_read ''frozen_graph.pb'']\<rparr>)"
    by (rule conversion_no_file)
next
  assume "fs s ''frozen_graph.pb'' = Some b \<and>
     ParseFromString L (GraphDef L) b = Inl e"
  then show "conversion_cell L s =
        (Inl e,
         s\<lparr>vars := (vars s)(''tf'' \<mapsto> VModule ''tensorflow'',
           ''tensorflow_graph_to_onnx_model'' \<mapsto> VImported ''onnx_tf.frontend'' ''tensorflow_graph_to_onnx_model'',
           ''f'' \<mapsto> VFile ''frozen_graph.pb'',
           ''graph_def'' \<mapsto> VGraphDef (GraphDef L)),
           calls := calls s @ [Call_GFile ''frozen_graph.pb'' ''rb'', Call_GraphDef,
           Call_read ''frozen_graph.pb'', Call_ParseFromString (GraphDef L) b]\<rparr>)"
    by (elim conjE) (rule conversion_parse_fails)
next
  assume "fs s ''frozen_graph.pb'' = Some b \<and>
     ParseFromString L (GraphDef L) b = Inr g \<and>
     tensorflow_graph_to_onnx_model L g ''fc2/add'' 6 = Inl e"
  then show "conversion_cell L s =
        (Inl e,
         s\<lparr>vars := (vars s)(''tf'' \<mapsto> VModule ''tensorflow'',
           ''tensorflow_graph_to_onnx_model'' \<mapsto> VImported ''onnx_tf.frontend'' ''tensorflow_graph_to_onnx_model'',
           ''f'' \<mapsto> VFile ''frozen_graph.pb'', ''graph_def'' \<mapsto> VGraphDef g),
           calls := calls s @ [Call_GFile ''frozen_graph.pb'' ''rb'', Call_GraphDef,
           Call_read ''frozen_graph.pb'', Call_ParseFromString (GraphDef L) b,
           Call_tensorflow_graph_to_onnx_model g ''fc2/add'' 6]\<rparr>)"
    by (elim conjE) (rule conversion_convert_fails)
next
  assume "fs s ''frozen_graph.pb'' = Some b \<and>
     ParseFromString L (GraphDef L) b = Inr g \<and>
     tensorflow_graph_to_onnx_model L g ''fc2/add'' 6 = Inr m \<and>
     open_error L ''mnist.onnx'' = Some e"
  then show "conversion_cell L s =
        (Inl e,
         s\<lparr>vars := (vars s)(''tf'' \<mapsto> VModule ''tensorflow'',
           ''tensorflow_graph_to_onnx_model'' \<mapsto> VImported ''onnx_tf.frontend'' ''tensorflow_graph_to_onnx_model'',
           ''f'' \<mapsto> VFile ''frozen_graph.pb'', ''graph_def'' \<mapsto> VGraphDef g,
           ''onnx_model'' \<mapsto> VModel m),
           calls := calls s @ [Call_GFile ''frozen_graph.pb'' ''rb'', Call_GraphDef,
           Call_read ''frozen_graph.pb'', Call_ParseFromString (GraphDef L) b,
           Call_tensorflow_graph_to_onnx_model g ''fc2/add'' 6,
           Call_open ''mnist.onnx'' ''wb'']\<rparr>)"
    by (elim conjE) (rule conversion_open_fails)
next
  assume "fs s ''frozen_graph.pb'' = Some b \<and>
     ParseFromString L (GraphDef L) b = Inr g \<and>
     tensorflow_graph_to_onnx_model L g ''fc2/add'' 6 = Inr m \<and>
     open_error L ''mnist.onnx'' = None \<and>
     SerializeToString L m = Inl e"
  then show "conversion_cell L s =
        (Inl e,
         s\<lparr>fs := (fs s)(''mnist.onnx'' \<mapsto> []), open_files := (''mnist.onnx'',
           []) # open_files s, vars := (vars s)(''tf'' \<mapsto> VModule ''tensorflow'',
           ''tensorflow_graph_to_onnx_model'' \<mapsto> VImported ''onnx_tf.frontend'' ''tensorflow_graph_to_onnx_model'',
           ''f'' \<mapsto> VFile ''frozen_graph.pb'', ''graph_def'' \<mapsto> VGraphDef g,
           ''onnx_model'' \<mapsto> VModel m, ''file'' \<mapsto> VFile ''mnist.onnx''),
           calls := calls s @ [Call_GFile ''frozen_graph.pb'' ''rb'', Call_GraphDef,
           Call_read ''frozen_graph.pb'', Call_ParseFromString (GraphDef L) b,
           Call_tensorflow_graph_to_onnx_model g ''fc2/add'' 6, Call_open ''mnist.onnx'' ''wb'',
           Call_SerializeToString m]\<rparr>)"
    by (elim conjE) (rule conversion_serialize_fails)
next
  assume "fs s ''frozen_graph.pb'' = Some b \<and>
     ParseFromString L (GraphDef L) b = Inr g \<and>
     tensorflow_graph_to_onnx_model L g ''fc2/add'' 6 = Inr m \<and>
     open_error L ''mnist.onnx'' = None \<and>
     SerializeToString L m = Inr bs \<and>
     write_error L ''mnist.onnx'' bs = Some (e, k)"
  then show "conversion_cell L s =
        (Inl e,
         s\<lparr>fs := (fs s)(''mnist.onnx'' \<mapsto> take k bs),
           open_files := (''mnist.onnx'', drop k bs) # open_files s,
           vars := (vars s)(''tf'' \<mapsto> VModule ''tensorflow'',
           ''tensorflow_graph_to_onnx_model'' \<mapsto> VImported ''onnx_tf.frontend'' ''tensorflow_graph_to_onnx_model'',
           ''f'' \<mapsto> VFile ''frozen_graph.pb'', ''graph_def'' \<mapsto> VGraphDef g,
           ''onnx_model'' \<mapsto> VModel m, ''file'' \<mapsto> VFile ''mnist.onnx''),
           calls := calls s @ [Call_GFile ''frozen_graph.pb'' ''rb'', Call_GraphDef,
           Call_read ''frozen_graph.pb'', Call_ParseFromString (GraphDef L) b,
           Call_tensorflow_graph_to_onnx_model g ''fc2/add'' 6, Call_open ''mnist.onnx'' ''wb'',
           Call_SerializeToString m, Call_write ''mnist.onnx'' bs]\<rparr>)"
    by (elim conjE) (rule conversion_write_fails)
next
  assume "fs s ''frozen_graph.pb'' = Some b \<and>
     ParseFromString L (GraphDef L) b = Inr g \<and>
     tensorflow_graph_to_onnx_model L g ''fc2/add'' 6 = Inr m \<and>
     open_error L ''mnist.onnx'' = None \<and>
     SerializeToString L m = Inr bs \<and>
     write_error L ''mnist.onnx'' bs = None \<and>
     close_error L ''mnist.onnx'' = Some (e, k)"
  then show "conversion_cell L s =
        (Inl e,
         s\<lparr>fs := (fs s)(''mnist.onnx'' \<mapsto> take k bs),
           vars := (vars s)(''tf'' \<mapsto> VModule ''tensorflow'',
           ''tensorflow_graph_to_onnx_model'' \<mapsto> VImported ''onnx_tf.frontend'' ''tensorflow_graph_to_onnx_model'',
           ''f'' \<mapsto> VFile ''frozen_graph.pb'', ''graph_def'' \<mapsto> VGraphDef g,
           ''onnx_model'' \<mapsto> VModel m, ''file'' \<mapsto> VFile ''mnist.onnx''),
           calls := calls s @ [Call_GFile ''frozen_graph.pb'' ''rb'', Call_GraphDef,
           Call_read ''frozen_graph.pb'', Call_ParseFromString (GraphDef L) b,
           Call_tensorflow_graph_to_onnx_model g ''fc2/add'' 6, Call_open ''mnist.onnx'' ''wb'',
           Call_SerializeToString m, Call_write ''mnist.onnx'' bs,
           Call_close ''mnist.onnx'']\<rparr>)"
    by (elim conjE) (rule conversion_close_fails)
next
  assume "fs s ''mnist.onnx'' = None"
  then show "inference_cell L s =
        (Inl IOError,
         s\<lparr>vars := (vars s)(''onnx'' \<mapsto> VModule ''onnx'',
           ''np'' \<mapsto> VModule ''numpy'',
           ''prepare'' \<mapsto> VImported ''onnx_tf.backend'' ''prepare''),
           calls := calls s @ [Call_onnx_load ''mnist.onnx'']\<rparr>)"
    by (rule inference_no_model_file)
next
  assume "fs s ''mnist.onnx'' = Some mb \<and>
     load_from_string L mb = Inl e"
  then show "inference_cell L s =
        (Inl e,
         s\<lparr>vars := (vars s)(''onnx'' \<mapsto> VModule ''onnx'',
           ''np'' \<mapsto> VModule ''numpy'',
           ''prepare'' \<mapsto> VImported ''onnx_tf.backend'' ''prepare''),
           calls := calls s @ [Call_onnx_load ''mnist.onnx'']\<rparr>)"
    by (elim conjE) (rule inference_load_fails)
next
  assume "fs s ''mnist.onnx'' = Some mb \<and>
     load_from_string L mb = Inr model \<and>
     prepare L model = Inl e"
  then show "inference_cell L s =
        (Inl e,
         s\<lparr>vars := (vars s)(''onnx'' \<mapsto> VModule ''onnx'',
           ''np'' \<mapsto> VModule ''numpy'',
           ''prepare'' \<mapsto> VImported ''onnx_tf.backend'' ''prepare'',
           ''model'' \<mapsto> VModel model), calls := calls s @ [Call_onnx_load ''mnist.onnx'',
           Call_prepare model]\<rparr>)"
    by (elim conjE) (rule inference_prepare_fails)
next
  assume "fs s ''mnist.onnx'' = Some mb \<and>
     load_from_string L mb = Inr model \<and>
     prepare L model = Inr r \<and>
     fs s ''./assets/image.npz'' = None"
  then show "inference_cell L s =
        (Inl IOError,
         s\<lparr>vars := (vars s)(''onnx'' \<mapsto> VModule ''onnx'',
           ''np'' \<mapsto> VModule ''numpy'',
           ''prepare'' \<mapsto> VImported ''onnx_tf.backend'' ''prepare'',
           ''model'' \<mapsto> VModel model, ''tf_rep'' \<mapsto> VRep r),
           calls := calls s @ [Call_onnx_load ''mnist.onnx'', Call_prepare model,
           Call_np_load ''./assets/image.npz'']\<rparr>)"
    by (elim conjE) (rule inference_no_image_file)
next
  assume "fs s ''mnist.onnx'' = Some mb \<and>
     load_from_string L mb = Inr model \<and>
     prepare L model = Inr r \<and>
     fs s ''./assets/image.npz'' = Some ib \<and>
     np_load_bytes L ib = Inl e"
  then show "inference_cell L s =
        (Inl e,
         s\<lparr>vars := (vars s)(''onnx'' \<mapsto> VModule ''onnx'',
           ''np'' \<mapsto> VModule ''numpy'',
           ''prepare'' \<mapsto> VImported ''onnx_tf.backend'' ''prepare'',
           ''model'' \<mapsto> VModel model, ''tf_rep'' \<mapsto> VRep r),
           calls := calls s @ [Call_onnx_load ''mnist.onnx'', Call_prepare model,
           Call_np_load ''./assets/image.npz'']\<rparr>)"
    by (elim conjE) (rule inference_np_load_fails)
next
  assume "fs s ''mnist.onnx'' = Some mb \<and>
     load_from_string L mb = Inr model \<and>
     prepare L model = Inr r \<and>
     fs s ''./assets/image.npz'' = Some ib \<and>
     np_load_bytes L ib = Inr (NpzFile z)"
  then show "inference_cell L s =
        (Inl AttributeError,
         s\<lparr>vars := (vars s)(''onnx'' \<mapsto> VModule ''onnx'',
           ''np'' \<mapsto> VModule ''numpy'',
           ''prepare'' \<mapsto> VImported ''onnx_tf.backend'' ''prepare'',
           ''model'' \<mapsto> VModel model, ''tf_rep'' \<mapsto> VRep r,
           ''img'' \<mapsto> VLoaded (NpzFile z)),
           calls := calls s @ [Call_onnx_load ''mnist.onnx'', Call_prepare model,
           Call_np_load ''./assets/image.npz'']\<rparr>)"
    by (elim conjE) (rule inference_archive)
next
  assume "fs s ''mnist.onnx'' = Some mb \<and>
     load_from_string L mb = Inr model \<and>
     prepare L model = Inr r \<and>
     fs s ''./assets/image.npz'' = Some ib \<and>
     np_load_bytes L ib = Inr (NdArray a) \<and>
     reshape a [1, 784] = Inl e"
  then show "inference_cell L s =
        (Inl e,
         s\<lparr>vars := (vars s)(''onnx'' \<mapsto> VModule ''onnx'',
           ''np'' \<mapsto> VModule ''numpy'',
           ''prepare'' \<mapsto> VImported ''onnx_tf.backend'' ''prepare'',
           ''model'' \<mapsto> VModel model, ''tf_rep'' \<mapsto> VRep r,
           ''img'' \<mapsto> VLoaded (NdArray a)),
           calls := calls s @ [Call_onnx_load ''mnist.onnx'', Call_prepare model,
           Call_np_load ''./assets/image.npz'', Call_reshape a [1, 784]]\<rparr>)"
    by (elim conjE) (rule inference_reshape_fails)
next
  assume "fs s ''mnist.onnx'' = Some mb \<and>
     load_from_string L mb = Inr model \<and>
     prepare L model = Inr r \<and>
     fs s ''./assets/image.npz'' = Some ib \<and>
     np_load_bytes L ib = Inr (NdArray a) \<and>
     reshape a [1, 784] = Inr t \<and>
     run L r t = Inl e"
  then show "inference_cell L s =
        (Inl e,
         s\<lparr>vars := (vars s)(''onnx'' \<mapsto> VModule ''onnx'',
           ''np'' \<mapsto> VModule ''numpy'',
           ''prepare'' \<mapsto> VImported ''onnx_tf.backend'' ''prepare'',
           ''model'' \<mapsto> VModel model, ''tf_rep'' \<mapsto> VRep r,
           ''img'' \<mapsto> VLoaded (NdArray a)),
           calls := calls s @ [Call_onnx_load ''mnist.onnx'', Call_prepare model,
           Call_np_load ''./assets/image.npz'', Call_reshape a [1, 784], Call_run r t]\<rparr>)"
    by (elim conjE) (rule inference_run_fails)
next
  assume "fs s ''mnist.onnx'' = Some mb \<and>
     load_from_string L mb = Inr model \<and>
     prepare L model = Inr r \<and>
     fs s ''./assets/image.npz'' = Some ib \<and>
     np_load_bytes L ib = Inr (NdArray a) \<and>
     reshape a [1, 784] = Inr t \<and>
     run L r t = Inr out \<and>
     argmax L out = Inl e"
  then show "inference_cell L s =
        (Inl e,
         s\<lparr>vars := (vars s)(''onnx'' \<mapsto> VModule ''onnx'',
           ''np'' \<mapsto> VModule ''numpy'',
           ''prepare'' \<mapsto> VImported ''onnx_tf.backend'' ''prepare'',
           ''model'' \<mapsto> VModel model, ''tf_rep'' \<mapsto> VRep r,
           ''img'' \<mapsto> VLoaded (NdArray a), ''output'' \<mapsto> VOutput out),
           stdout := stdout s @ [PStr ''The digit is classified as ''],
           calls := calls s @ [Call_onnx_load ''mnist.onnx'', Call_prepare model,
           Call_np_load ''./assets/image.npz'', Call_reshape a [1, 784], Call_run r t,
           Call_argmax out]\<rparr>)"
    by (elim conjE) (rule inference_argmax_fails)
qed

theorem library_failure_ends_the_cell_witness:
  "fs demo_state ''frozen_graph.pb'' = Some ''graph'' \<and>
   ParseFromString malformed_graph_lib (GraphDef malformed_graph_lib) ''graph'' = Inl DecodeError \<and>
   conversion_cell malformed_graph_lib demo_state =
       (Inl DecodeError,
        demo_state\<lparr>vars := (vars demo_state)(''tf'' \<mapsto> VModule ''tensorflow'',
          ''tensorflow_graph_to_onnx_model'' \<mapsto> VImported ''onnx_tf.frontend'' ''tensorflow_graph_to_onnx_model'',
          ''f'' \<mapsto> VFile ''frozen_graph.pb'',
          ''graph_def'' \<mapsto> VGraphDef (GraphDef malformed_graph_lib)),
          calls := calls demo_state @ [Call_GFile ''frozen_graph.pb'' ''rb'', Call_GraphDef,
          Call_read ''frozen_graph.pb'',
          Call_ParseFromString (GraphDef malformed_graph_lib) ''graph'']\<rparr>) \<and>
   fs demo_state ''frozen_graph.pb'' = Some ''graph'' \<and>
   ParseFromString missing_node_lib (GraphDef missing_node_lib) ''graph'' = Inr ''graph'' \<and>
   tensorflow_graph_to_onnx_model missing_node_lib ''graph'' ''fc2/add'' 6 = Inl ConversionError \<and>
   conversion_cell missing_node_lib demo_state =
       (Inl ConversionError,
        demo_state\<lparr>vars := (vars demo_state)(''tf'' \<mapsto> VModule ''tensorflow'',
          ''tensorflow_graph_to_onnx_model'' \<mapsto> VImported ''onnx_tf.frontend'' ''tensorflow_graph_to_onnx_model'',
          ''f'' \<mapsto> VFile ''frozen_graph.pb'', ''graph_def'' \<mapsto> VGraphDef ''graph''),
          calls := calls demo_state @ [Call_GFile ''frozen_graph.pb'' ''rb'', Call_GraphDef,
          Call_read ''frozen_graph.pb'',
          Call_ParseFromString (GraphDef missing_node_lib) ''graph'',
          Call_tensorflow_graph_to_onnx_model ''graph'' ''fc2/add'' 6]\<rparr>) \<and>
   fs demo_state ''frozen_graph.pb'' = Some ''graph'' \<and>
   ParseFromString disk_full_lib (GraphDef disk_full_lib) ''graph'' = Inr ''graph'' \<and>
   tensorflow_graph_to_onnx_model disk_full_lib ''graph'' ''fc2/add'' 6 = Inr ''fc2/add:graph'' \<and>
   open_error disk_full_lib ''mnist.onnx'' = None \<and>
   SerializeToString disk_full_lib ''fc2/add:graph'' = Inr ''fc2/add:graph'' \<and>
   write_error disk_full_lib ''mnist.onnx'' ''fc2/add:graph'' = Some (IOError, 0) \<and>
   conversion_cell disk_full_lib demo_state =
       (Inl IOError,
        demo_state\<lparr>fs := (fs demo_state)(''mnist.onnx'' \<mapsto> take 0 ''fc2/add:graph''),
          open_files := (''mnist.onnx'', drop 0 ''fc2/add:graph'') # open_files demo_state,
          vars := (vars demo_state)(''tf'' \<mapsto> VModule ''tensorflow'',
          ''tensorflow_graph_to_onnx_model'' \<mapsto> VImported ''onnx_tf.frontend'' ''tensorflow_graph_to_onnx_model'',
          ''f'' \<mapsto> VFile ''frozen_graph.pb'', ''graph_def'' \<mapsto> VGraphDef ''graph'',
          ''onnx_model'' \<mapsto> VModel ''fc2/add:graph'',
          ''file'' \<mapsto> VFile ''mnist.onnx''),
          calls := calls demo_state @ [Call_GFile ''frozen_graph.pb'' ''rb'', Call_GraphDef,
          Call_read ''frozen_graph.pb'', Call_ParseFromString (GraphDef disk_full_lib) ''graph'',
          Call_tensorflow_graph_to_onnx_model ''graph'' ''fc2/add'' 6,
          Call_open ''mnist.onnx'' ''wb'', Call_SerializeToString ''fc2/add:graph'',
          Call_write ''mnist.onnx'' ''fc2/add:graph'']\<rparr>) \<and>
   fs small_image_state ''mnist.onnx'' = Some ''fc2/add:graph'' \<and>
   load_from_string demo_lib ''fc2/add:graph'' = Inr ''fc2/add:graph'' \<and>
   prepare demo_lib ''fc2/add:graph'' = Inr ''fc2/add:graph'' \<and>
   fs small_image_state ''./assets/image.npz'' = Some ''abc'' \<and>
   np_load_bytes demo_lib ''abc'' = Inr (NdArray \<lparr>shape = [3], data = [97, 98, 99 :: nat]\<rparr>) \<and>
   reshape \<lparr>shape = [3], data = [97, 98, 99 :: nat]\<rparr> [1, 784] = Inl ValueError \<and>
   inference_cell demo_lib small_image_state =
       (Inl ValueError,
        small_image_state\<lparr>vars := (vars small_image_state)(''onnx'' \<mapsto> VModule ''onnx'',
          ''np'' \<mapsto> VModule ''numpy'',
          ''prepare'' \<mapsto> VImported ''onnx_tf.backend'' ''prepare'',
          ''model'' \<mapsto> VModel ''fc2/add:graph'',
          ''tf_rep'' \<mapsto> VRep ''fc2/add:graph'',
          ''img'' \<mapsto> VLoaded (NdArray \<lparr>shape = [3], data = [97, 98,
          99 :: nat]\<rparr>)), calls := calls small_image_state @ [Call_onnx_load ''mnist.onnx'',
          Call_prepare ''fc2/add:graph'', Call_np_load ''./assets/image.npz'',
          Call_reshape \<lparr>shape = [3], data = [97, 98, 99 :: nat]\<rparr> [1, 784]]\<rparr>) \<and>
   fs converted_state ''mnist.onnx'' = Some ''fc2/add:graph'' \<and>
   load_from_string failing_backend_lib ''fc2/add:graph'' = Inr ''fc2/add:graph'' \<and>
   prepare failing_backend_lib ''fc2/add:graph'' = Inr ''fc2/add:graph'' \<and>
   fs converted_state ''./assets/image.npz'' = Some (replicate 784 (CHR ''p'')) \<and>
   np_load_bytes failing_backend_lib (replicate 784 (CHR ''p'')) = Inr (NdArray \<lparr>shape = [784], data = replicate 784 (112::nat)\<rparr>) \<and>
   reshape \<lparr>shape = [784], data = replicate 784 (112::nat)\<rparr> [1, 784] = Inr \<lparr>shape = [1, 784], data = replicate 784 (112::nat)\<rparr> \<and>
   run failing_backend_lib ''fc2/add:graph'' \<lparr>shape = [1, 784], data = replicate 784 (112::nat)\<rparr> = Inl BackendError \<and>
   inference_cell failing_backend_lib converted_state =
       (Inl BackendError,
        converted_state\<lparr>vars := (vars converted_state)(''onnx'' \<mapsto> VModule ''onnx'',
          ''np'' \<mapsto> VModule ''numpy'',
          ''prepare'' \<mapsto> VImported ''onnx_tf.backend'' ''prepare'',
          ''model'' \<mapsto> VModel ''fc2/add:graph'',
          ''tf_rep'' \<mapsto> VRep ''fc2/add:graph'',
          ''img'' \<mapsto> VLoaded (NdArray \<lparr>shape = [784],
          data = replicate 784 (112::nat)\<rparr>)),
          calls := calls converted_state @ [Call_onnx_load ''mnist.onnx'',
          Call_prepare ''fc2/add:graph'', Call_np_load ''./assets/image.npz'',
          Call_reshape \<lparr>shape = [784], data = replicate 784 (112::nat)\<rparr> [1, 784],
          Call_run ''fc2/add:graph'' \<lparr>shape = [1, 784],
          data = replicate 784 (112::nat)\<rparr>]\<rparr>)"
proof -
  have h1: "fs demo_state ''frozen_graph.pb'' = Some ''graph'' \<and>
      ParseFromString malformed_graph_lib (GraphDef malformed_graph_lib) ''graph'' = Inl DecodeError"
    by (simp add: malformed_graph_lib_simps demo_state_simps)
  note t1 = library_failure_ends_the_cell [where L = malformed_graph_lib and s = demo_state and b = "''graph''" and e = DecodeError]
  note r1 = mp [OF t1 [THEN conjunct2, THEN conjunct1] h1]
  have h2: "fs demo_state ''frozen_graph.pb'' = Some ''graph'' \<and>
      ParseFromString missing_node_lib (GraphDef missing_node_lib) ''graph'' = Inr ''graph'' \<and>
      tensorflow_graph_to_onnx_model missing_node_lib ''graph'' ''fc2/add'' 6 = Inl ConversionError"
    by (simp add: missing_node_lib_simps demo_state_simps)
  note t2 = library_failure_ends_the_cell [where L = missing_node_lib and s = demo_state and b = "''graph''" and g = "''graph''" and e = ConversionError]
  note r2 = mp [OF t2 [THEN conjunct2, THEN conjunct2, THEN conjunct1] h2]
  have h3: "fs demo_state ''frozen_graph.pb'' = Some ''graph'' \<and>
      ParseFromString disk_full_lib (GraphDef disk_full_lib) ''graph'' = Inr ''graph'' \<and>
      tensorflow_graph_to_onnx_model disk_full_lib ''graph'' ''fc2/add'' 6 = Inr ''fc2/add:graph'' \<and>
      open_error disk_full_lib ''mnist.onnx'' = None \<and>
      SerializeToString disk_full_lib ''fc2/add:graph'' = Inr ''fc2/add:graph'' \<and>
      write_error disk_full_lib ''mnist.onnx'' ''fc2/add:graph'' = Some (IOError, 0)"
    by (simp add: disk_full_lib_simps demo_state_simps)
  note t3 = library_failure_ends_the_cell [where L = disk_full_lib and s = demo_state and b = "''graph''" and g = "''graph''" and m = "''fc2/add:graph''" and bs = "''fc2/add:graph''" and e = IOError and k = "0"]
  note r3 = mp [OF t3 [THEN conjunct2, THEN conjunct2, THEN conjunct2, THEN conjunct2, THEN conjunct2, THEN conjunct1] h3]
  have h4: "fs small_image_state ''mnist.onnx'' = Some ''fc2/add:graph'' \<and>
      load_from_string demo_lib ''fc2/add:graph'' = Inr ''fc2/add:graph'' \<and>
      prepare demo_lib ''fc2/add:graph'' = Inr ''fc2/add:graph'' \<and>
      fs small_image_state ''./assets/image.npz'' = Some ''abc'' \<and>
      np_load_bytes demo_lib ''abc'' = Inr (NdArray \<lparr>shape = [3], data = [97, 98, 99 :: nat]\<rparr>) \<and>
      reshape \<lparr>shape = [3], data = [97, 98, 99 :: nat]\<rparr> [1, 784] = Inl ValueError"
    by (simp add: demo_lib_simps small_image_state_simps reshape_def size_nd_def)
  note t4 = library_failure_ends_the_cell [where L = demo_lib and s = small_image_state and mb = "''fc2/add:graph''" and model = "''fc2/add:graph''" and r = "''fc2/add:graph''" and ib = "''abc''" and a = "\<lparr>shape = [3], data = [97, 98, 99 :: nat]\<rparr>" and e = ValueError]
  note r4 = mp [OF t4 [THEN conjunct2, THEN conjunct2, THEN conjunct2, THEN conjunct2, THEN conjunct2, THEN conjunct2, THEN conjunct2, THEN conjunct2, THEN conjunct2, THEN conjunct2, THEN conjunct2, THEN conjunct2, THEN conjunct2, THEN conjunct1] h4]
  have h5: "fs converted_state ''mnist.onnx'' = Some ''fc2/add:graph'' \<and>
      load_from_string failing_backend_lib ''fc2/add:graph'' = Inr ''fc2/add:graph'' \<and>
      prepare failing_backend_lib ''fc2/add:graph'' = Inr ''fc2/add:graph'' \<and>
      fs converted_state ''./assets/image.npz'' = Some (replicate 784 (CHR ''p'')) \<and>
      np_load_bytes failing_backend_lib (replicate 784 (CHR ''p'')) = Inr (NdArray \<lparr>shape = [784], data = replicate 784 (112::nat)\<rparr>) \<and>
      reshape \<lparr>shape = [784], data = replicate 784 (112::nat)\<rparr> [1, 784] = Inr \<lparr>shape = [1, 784], data = replicate 784 (112::nat)\<rparr> \<and>
      run failing_backend_lib ''fc2/add:graph'' \<lparr>shape = [1, 784], data = replicate 784 (112::nat)\<rparr> = Inl BackendError"
    by (simp add: failing_backend_lib_simps converted_state_simps reshape_def size_nd_def)
  note t5 = library_failure_ends_the_cell [where L = failing_backend_lib and s = converted_state and mb = "''fc2/add:graph''" and model = "''fc2/add:graph''" and r = "''fc2/add:graph''" and ib = "(replicate 784 (CHR ''p''))" and a = "\<lparr>shape = [784], data = replicate 784 (112::nat)\<rparr>" and t = "\<lparr>shape = [1, 784], data = replicate 784 (112::nat)\<rparr>" and e = BackendError]
  note r5 = mp [OF t5 [THEN conjunct2, THEN conjunct2, THEN conjunct2, THEN conjunct2, THEN conjunct2, THEN conjunct2, THEN conjunct2, THEN conjunct2, THEN conjunct2, THEN conjunct2, THEN conjunct2, THEN conjunct2, THEN conjunct2, THEN conjunct2, THEN conjunct1] h5]
  from h1 r1 h2 r2 h3 r3 h4 r4 h5 r5 show ?thesis
    by blast
qed

text \<open>
  C5. The conversion step hands to \<^verbatim>\<open>tensorflow_graph_to_onnx_model\<close> the graph parsed from
  the bytes of \<^verbatim>\<open>frozen_graph.pb\<close>, the output node name \<^verbatim>\<open>"fc2/add"\<close> and the version
  number \<^verbatim>\<open>opset=6\<close>, and nothing else: on every run each conversion call has this name and
  this number, and when the file is there and parses, the cell makes exactly one
  conversion call, on the parsed graph.
\<close>

theorem conversion_call_arguments:
  "(\<forall>c \<in> set (conversion_args (trace_of (conversion_cell L) s)). snd c = (''fc2/add'', 6))
   \<and> (fs s ''frozen_graph.pb'' = Some b \<and> ParseFromString L (GraphDef L) b = Inr g \<longrightarrow>
        conversion_args (trace_of (conversion_cell L) s) = [(g, ''fc2/add'', 6)])"
  using conversion_args_fixed [of _ L s] conversion_args_parsed [of s b L g] by blast

theorem conversion_call_arguments_witness:
  "fs demo_state ''frozen_graph.pb'' = Some ''graph'' \<and>
   ParseFromString demo_lib (GraphDef demo_lib) ''graph'' = Inr ''graph'' \<and>
   conversion_args (trace_of (conversion_cell demo_lib) demo_state) =
     [(''graph'', ''fc2/add'', 6)] \<and>
   (''graph'', ''fc2/add'', 6) \<in> set (conversion_args (trace_of (conversion_cell demo_lib) demo_state)) \<and>
   snd (''graph'', ''fc2/add'', 6 :: int) = (''fc2/add'', 6)"
proof -
  have h: "fs demo_state ''frozen_graph.pb'' = Some ''graph'' \<and>
      ParseFromString demo_lib (GraphDef demo_lib) ''graph'' = Inr ''graph''"
    by (simp add: demo_lib_simps demo_state_simps)
  with conversion_call_arguments [where L = demo_lib and s = demo_state and b = "''graph''"
      and g = "''graph''"]
  have "conversion_args (trace_of (conversion_cell demo_lib) demo_state) =
      [(''graph'', ''fc2/add'', 6)]"
    by blast
  with h show ?thesis by simp
qed




text \<open>
  C7. The steps are a linear sequence of calls without branching: on every run the calls
  a cell makes are an initial part of one fixed sequence, the one of the source; they are
  the whole sequence when the cell ends normally, and when it ends with an exception its
  last call is the one that raised it (or, in the inference cell, \<^verbatim>\<open>np.load\<close> has returned
  an archive, which has no \<^verbatim>\<open>reshape\<close>). Between the calls nothing is kept but the
  variables that hold the imported modules and functions and what the calls returned:
  the conversion cell writes \<^verbatim>\<open>tf\<close>, \<^verbatim>\<open>tensorflow_graph_to_onnx_model\<close>, \<^verbatim>\<open>f\<close>, \<^verbatim>\<open>graph_def\<close>,
  \<^verbatim>\<open>onnx_model\<close> and \<^verbatim>\<open>file\<close> and no other variable, the inference cell \<^verbatim>\<open>onnx\<close>, \<^verbatim>\<open>np\<close>,
  \<^verbatim>\<open>prepare\<close>, \<^verbatim>\<open>model\<close>, \<^verbatim>\<open>tf_rep\<close>, \<^verbatim>\<open>img\<close> and \<^verbatim>\<open>output\<close> and no other, the sanity-check
  cell none, and after a run without exception each of them holds the object imported or
  returned. These variables are top-level names of the notebook, so they stay bound from
  one cell to the next. Of the files, the conversion cell changes \<^verbatim>\<open>mnist.onnx\<close> only, and
  the other cells none.
\<close>

theorem cells_are_linear_and_keep_only_results:
  "prefix (map call_name (trace_of (conversion_cell L) s)) conversion_calls
   \<and> (fst (conversion_cell L s) = Inr () \<longrightarrow>
        map call_name (trace_of (conversion_cell L) s) = conversion_calls)
   \<and> (fst (conversion_cell L s) = Inl e \<longrightarrow>
        raises L (fs s) (last (trace_of (conversion_cell L) s)) = Some e)
   \<and> prefix (map call_name (trace_of (inference_cell L) s)) inference_calls
   \<and> (fst (inference_cell L s) = Inr () \<longrightarrow>
        map call_name (trace_of (inference_cell L) s) = inference_calls)
   \<and> (fst (inference_cell L s) = Inl e \<longrightarrow>
        raises L (fs s) (last (trace_of (inference_cell L) s)) = Some e \<or>
        (e = AttributeError \<and>
         last (trace_of (inference_cell L) s) = Call_np_load ''./assets/image.npz'' \<and>
         (\<exists>ib z. fs s ''./assets/image.npz'' = Some ib \<and>
            np_load_bytes L ib = Inr (NpzFile z))))
   \<and> trace_of (sanity_check_cell L) s = []
   \<and> (\<forall>x. x \<notin> {''tf'', ''tensorflow_graph_to_onnx_model'', ''f'', ''graph_def'',
              ''onnx_model'', ''file''} \<longrightarrow>
         vars (snd (conversion_cell L s)) x = vars s x)
   \<and> (\<forall>x. x \<notin> {''onnx'', ''np'', ''prepare'', ''model'', ''tf_rep'', ''img'', ''output''} \<longrightarrow>
         vars (snd (inference_cell L s)) x = vars s x)
   \<and> vars (snd (sanity_check_cell L s)) = vars s
   \<and> (fs s ''frozen_graph.pb'' = Some b \<and> ParseFromString L (GraphDef L) b = Inr g \<and>
      tensorflow_graph_to_onnx_model L g ''fc2/add'' 6 = Inr m \<and>
      open_error L ''mnist.onnx'' = None \<and> SerializeToString L m = Inr bs \<and>
      write_error L ''mnist.onnx'' bs = None \<and> close_error L ''mnist.onnx'' = None \<longrightarrow>
        vars (snd (conversion_cell L s)) =
          (vars s)(''tf'' \<mapsto> VModule ''tensorflow'',
            ''tensorflow_graph_to_onnx_model'' \<mapsto>
              VImported ''onnx_tf.frontend'' ''tensorflow_graph_to_onnx_model'',
            ''f'' \<mapsto> VFile ''frozen_graph.pb'', ''graph_def'' \<mapsto> VGraphDef g,
            ''onnx_model'' \<mapsto> VModel m, ''file'' \<mapsto> VFile ''mnist.onnx''))
   \<and> (fs s ''mnist.onnx'' = Some mb \<and> load_from_string L mb = Inr model \<and>
      prepare L model = Inr r \<and> fs s ''./assets/image.npz'' = Some ib \<and>
      np_load_bytes L ib = Inr (NdArray a) \<and> reshape a [1, 784] = Inr t \<and>
      run L r t = Inr out \<and> argmax L out = Inr n \<longrightarrow>
        vars (snd (inference_cell L s)) =
          (vars s)(''onnx'' \<mapsto> VModule ''onnx'', ''np'' \<mapsto> VModule ''numpy'',
            ''prepare'' \<mapsto> VImported ''onnx_tf.backend'' ''prepare'',
            ''model'' \<mapsto> VModel model, ''tf_rep'' \<mapsto> VRep r,
            ''img'' \<mapsto> VLoaded (NdArray a), ''output'' \<mapsto> VOutput out))
   \<and> (\<forall>p. p \<noteq> ''mnist.onnx'' \<longrightarrow> fs (snd (conversion_cell L s)) p = fs s p)
   \<and> fs (snd (inference_cell L s)) = fs s
   \<and> fs (snd (sanity_check_cell L s)) = fs s"
proof -
  have 1: "fs s ''frozen_graph.pb'' = Some b \<and> ParseFromString L (GraphDef L) b = Inr g \<and>
      tensorflow_graph_to_onnx_model L g ''fc2/add'' 6 = Inr m \<and>
      open_error L ''mnist.onnx'' = None \<and> SerializeToString L m = Inr bs \<and>
      write_error L ''mnist.onnx'' bs = None \<and> close_error L ''mnist.onnx'' = None \<longrightarrow>
        vars (snd (conversion_cell L s)) =
          (vars s)(''tf'' \<mapsto> VModule ''tensorflow'',
            ''tensorflow_graph_to_onnx_model'' \<mapsto>
              VImported ''onnx_tf.frontend'' ''tensorflow_graph_to_onnx_model'',
            ''f'' \<mapsto> VFile ''frozen_graph.pb'', ''graph_def'' \<mapsto> VGraphDef g,
            ''onnx_model'' \<mapsto> VModel m, ''file'' \<mapsto> VFile ''mnist.onnx'')"
    by (simp add: conversion_ok)
  have 2: "fs s ''mnist.onnx'' = Some mb \<and> load_from_string L mb = Inr model \<and>
      prepare L model = Inr r \<and> fs s ''./assets/image.npz'' = Some ib \<and>
      np_load_bytes L ib = Inr (NdArray a) \<and> reshape a [1, 784] = Inr t \<and>
      run L r t = Inr out \<and> argmax L out = Inr n \<longrightarrow>
        vars (snd (inference_cell L s)) =
          (vars s)(''onnx'' \<mapsto> VModule ''onnx'', ''np'' \<mapsto> VModule ''numpy'',
            ''prepare'' \<mapsto> VImported ''onnx_tf.backend'' ''prepare'',
            ''model'' \<mapsto> VModel model, ''tf_rep'' \<mapsto> VRep r,
            ''img'' \<mapsto> VLoaded (NdArray a), ''output'' \<mapsto> VOutput out)"
    by (simp add: inference_ok)
  have 3: "\<forall>x. x \<notin> {''tf'', ''tensorflow_graph_to_onnx_model'', ''f'', ''graph_def'',
              ''onnx_model'', ''file''} \<longrightarrow>
      vars (snd (conversion_cell L s)) x = vars s x"
    by (intro allI impI) (rule conversion_vars_frame)
  have 4: "\<forall>x. x \<notin> {''onnx'', ''np'', ''prepare'', ''model'', ''tf_rep'', ''img'', ''output''} \<longrightarrow>
      vars (snd (inference_cell L s)) x = vars s x"
    by (intro allI impI) (rule inference_vars_frame)
  have 5: "\<forall>p. p \<noteq> ''mnist.onnx'' \<longrightarrow> fs (snd (conversion_cell L s)) p = fs s p"
    by (intro allI impI) (rule conversion_fs_frame)
  note 6 = sanity_check_frame [of L s]
  have 7: "fst (conversion_cell L s) = Inr () \<longrightarrow>
      map call_name (trace_of (conversion_cell L) s) = conversion_calls"
    by (intro impI) (rule conversion_trace_complete)
  have 8: "fst (conversion_cell L s) = Inl e \<longrightarrow>
      raises L (fs s) (last (trace_of (conversion_cell L) s)) = Some e"
    by (intro impI) (rule conversion_fails_at_last_call)
  have 9: "fst (inference_cell L s) = Inr () \<longrightarrow>
      map call_name (trace_of (inference_cell L) s) = inference_calls"
    by (intro impI) (rule inference_trace_complete)
  have 10: "fst (inference_cell L s) = Inl e \<longrightarrow>
      raises L (fs s) (last (trace_of (inference_cell L) s)) = Some e \<or>
      (e = AttributeError \<and>
       last (trace_of (inference_cell L) s) = Call_np_load ''./assets/image.npz'' \<and>
       (\<exists>ib z. fs s ''./assets/image.npz'' = Some ib \<and>
          np_load_bytes L ib = Inr (NpzFile z)))"
    by (intro impI) (rule inference_fails_at_last_call)
  show ?thesis
    by (intro conjI) (rule conversion_trace_prefix inference_trace_prefix 1 2 3 4 5 7 8 9 10
      inference_fs_frame 6 [THEN conjunct1] 6 [THEN conjunct2, THEN conjunct1]
      6 [THEN conjunct2, THEN conjunct2])+
qed

theorem cells_are_linear_and_keep_only_results_witness:
  "fst (conversion_cell demo_lib demo_state) = Inr () \<and>
   map call_name (trace_of (conversion_cell demo_lib) demo_state) = conversion_calls \<and>
   fst (conversion_cell disk_full_lib demo_state) = Inl IOError \<and>
   raises disk_full_lib (fs demo_state)
     (last (trace_of (conversion_cell disk_full_lib) demo_state)) = Some IOError \<and>
   ''x'' \<notin> {''tf'', ''tensorflow_graph_to_onnx_model'', ''f'', ''graph_def'', ''onnx_model'',
     ''file''} \<and>
   vars (snd (conversion_cell demo_lib demo_state)) ''x'' = vars demo_state ''x'' \<and>
   ''x'' \<notin> {''onnx'', ''np'', ''prepare'', ''model'', ''tf_rep'', ''img'', ''output''} \<and>
   vars (snd (inference_cell demo_lib converted_state)) ''x'' = vars converted_state ''x'' \<and>
   vars (snd (conversion_cell demo_lib demo_state)) =
     [''tf'' \<mapsto> VModule ''tensorflow'',
      ''tensorflow_graph_to_onnx_model'' \<mapsto>
        VImported ''onnx_tf.frontend'' ''tensorflow_graph_to_onnx_model'',
      ''f'' \<mapsto> VFile ''frozen_graph.pb'', ''graph_def'' \<mapsto> VGraphDef ''graph'',
      ''onnx_model'' \<mapsto> VModel ''fc2/add:graph'', ''file'' \<mapsto> VFile ''mnist.onnx''] \<and>
   vars (snd (inference_cell demo_lib converted_state)) =
     [''onnx'' \<mapsto> VModule ''onnx'', ''np'' \<mapsto> VModule ''numpy'',
      ''prepare'' \<mapsto> VImported ''onnx_tf.backend'' ''prepare'',
      ''model'' \<mapsto> VModel ''fc2/add:graph'', ''tf_rep'' \<mapsto> VRep ''fc2/add:graph'',
      ''img'' \<mapsto> VLoaded (NdArray \<lparr>shape = [784], data = replicate 784 112\<rparr>),
      ''output'' \<mapsto> VOutput (replicate 784 112)] \<and>
   ''frozen_graph.pb'' \<noteq> ''mnist.onnx'' \<and>
   fs (snd (conversion_cell demo_lib demo_state)) ''frozen_graph.pb'' =
     fs demo_state ''frozen_graph.pb''"
proof -
  have conv: "fs demo_state ''frozen_graph.pb'' = Some ''graph'' \<and>
      ParseFromString demo_lib (GraphDef demo_lib) ''graph'' = Inr ''graph'' \<and>
      tensorflow_graph_to_onnx_model demo_lib ''graph'' ''fc2/add'' 6 = Inr ''fc2/add:graph'' \<and>
      open_error demo_lib ''mnist.onnx'' = None \<and>
      SerializeToString demo_lib ''fc2/add:graph'' = Inr ''fc2/add:graph'' \<and>
      write_error demo_lib ''mnist.onnx'' ''fc2/add:graph'' = None \<and>
      close_error demo_lib ''mnist.onnx'' = None"
    by (simp add: demo_lib_simps demo_state_simps)
  have inf: "fs converted_state ''mnist.onnx'' = Some ''fc2/add:graph'' \<and>
      load_from_string demo_lib ''fc2/add:graph'' = Inr ''fc2/add:graph'' \<and>
      prepare demo_lib ''fc2/add:graph'' = Inr ''fc2/add:graph'' \<and>
      fs converted_state ''./assets/image.npz'' = Some (replicate 784 (CHR ''p'')) \<and>
      np_load_bytes demo_lib (replicate 784 (CHR ''p'')) =
        Inr (NdArray \<lparr>shape = [784], data = replicate 784 112\<rparr>) \<and>
      reshape \<lparr>shape = [784], data = replicate 784 (112::nat)\<rparr> [1, 784] =
        Inr \<lparr>shape = [1, 784], data = replicate 784 112\<rparr> \<and>
      run demo_lib ''fc2/add:graph'' \<lparr>shape = [1, 784], data = replicate 784 112\<rparr> =
        Inr (replicate 784 112) \<and>
      argmax demo_lib (replicate 784 112) = Inr 0"
    by (simp add: demo_lib_simps converted_state_simps reshape_def size_nd_def)
  have names: "''x'' \<notin> {''tf'', ''tensorflow_graph_to_onnx_model'', ''f'', ''graph_def'',
        ''onnx_model'', ''file''} \<and>
      ''x'' \<notin> {''onnx'', ''np'', ''prepare'', ''model'', ''tf_rep'', ''img'', ''output''} \<and>
      ''frozen_graph.pb'' \<noteq> ''mnist.onnx''"
    by simp
  have ok: "fst (conversion_cell demo_lib demo_state) = Inr ()"
    by (simp add: demo_conversion)
  have failed: "fst (conversion_cell disk_full_lib demo_state) = Inl IOError"
    by (rule disk_full_conversion)
  note T = cells_are_linear_and_keep_only_results
  note T1 = T [where L = demo_lib and s = demo_state and b = "''graph''" and g = "''graph''"
      and m = "''fc2/add:graph''" and bs = "''fc2/add:graph''"]
  note T2 = T [where L = demo_lib and s = converted_state and mb = "''fc2/add:graph''"
      and model = "''fc2/add:graph''" and r = "''fc2/add:graph''"
      and ib = "replicate 784 (CHR ''p'')"
      and a = "\<lparr>shape = [784], data = replicate 784 112\<rparr>"
      and t = "\<lparr>shape = [1, 784], data = replicate 784 112\<rparr>"
      and out = "replicate 784 112" and n = 0]
  note T3 = T [where L = disk_full_lib and s = demo_state and e = IOError]
  note c2 = conjunct2
  note T1a = mp [OF T1 [THEN c2, THEN conjunct1] ok]
  note T3a = mp [OF T3 [THEN c2, THEN c2, THEN conjunct1] failed]
  note T1b = T1 [THEN c2, THEN c2, THEN c2, THEN c2, THEN c2, THEN c2, THEN c2, THEN conjunct1]
  note T1c = mp [OF T1 [THEN c2, THEN c2, THEN c2, THEN c2, THEN c2, THEN c2, THEN c2, THEN c2,
    THEN c2, THEN c2, THEN conjunct1] conv]
  note T1d = T1 [THEN c2, THEN c2, THEN c2, THEN c2, THEN c2, THEN c2, THEN c2, THEN c2,
    THEN c2, THEN c2, THEN c2, THEN c2, THEN conjunct1]
  note T2b = T2 [THEN c2, THEN c2, THEN c2, THEN c2, THEN c2, THEN c2, THEN c2, THEN c2,
    THEN conjunct1]
  note T2c = mp [OF T2 [THEN c2, THEN c2, THEN c2, THEN c2, THEN c2, THEN c2, THEN c2, THEN c2,
    THEN c2, THEN c2, THEN c2, THEN conjunct1] inf]
  from names T1b T1c T1d
  have 1: "vars (snd (conversion_cell demo_lib demo_state)) ''x'' = vars demo_state ''x'' \<and>
      vars (snd (conversion_cell demo_lib demo_state)) =
        (vars demo_state)(''tf'' \<mapsto> VModule ''tensorflow'',
          ''tensorflow_graph_to_onnx_model'' \<mapsto>
            VImported ''onnx_tf.frontend'' ''tensorflow_graph_to_onnx_model'',
          ''f'' \<mapsto> VFile ''frozen_graph.pb'', ''graph_def'' \<mapsto> VGraphDef ''graph'',
          ''onnx_model'' \<mapsto> VModel ''fc2/add:graph'', ''file'' \<mapsto> VFile ''mnist.onnx'') \<and>
      fs (snd (conversion_cell demo_lib demo_state)) ''frozen_graph.pb'' =
        fs demo_state ''frozen_graph.pb''"
    by simp
  from names T2b T2c
  have 2: "vars (snd (inference_cell demo_lib converted_state)) ''x'' = vars converted_state ''x'' \<and>
      vars (snd (inference_cell demo_lib converted_state)) =
        (vars converted_state)(''onnx'' \<mapsto> VModule ''onnx'', ''np'' \<mapsto> VModule ''numpy'',
          ''prepare'' \<mapsto> VImported ''onnx_tf.backend'' ''prepare'',
          ''model'' \<mapsto> VModel ''fc2/add:graph'', ''tf_rep'' \<mapsto> VRep ''fc2/add:graph'',
          ''img'' \<mapsto> VLoaded (NdArray \<lparr>shape = [784], data = replicate 784 112\<rparr>),
          ''output'' \<mapsto> VOutput (replicate 784 112))"
    by simp
  from 1 2 names ok failed T1a T3a show ?thesis
    by (simp add: demo_state_simps converted_state_simps)
qed

text \<open>
  The variables are not local to a cell: the sanity-check cell fails with NameError on a
  fresh namespace and prints the first node once the conversion cell has bound
  \<^verbatim>\<open>onnx_model\<close>.
\<close>

theorem conversion_cell_variable_read_by_later_cell:
  "vars demo_state ''onnx_model'' = None \<and>
   fst (sanity_check_cell demo_lib demo_state) = Inl NameError \<and>
   vars (snd (conversion_cell demo_lib demo_state)) ''onnx_model'' =
     Some (VModel ''fc2/add:graph'') \<and>
   sanity_check_cell demo_lib (snd (conversion_cell demo_lib demo_state)) =
     (Inr (),
      (snd (conversion_cell demo_lib demo_state))
        \<lparr>stdout := [PNode \<lparr>node_input = [''fc2/add:graph''], node_output = [''out''],
                              op_type = ''Identity''\<rparr>, PNewline]\<rparr>)"
  by (simp add: sanity_check_cell_def py_defs demo_lib_simps demo_state_simps demo_conversion)

text \<open>
  C8. Every file handle the notebook opens is closed within the cell that opened it. This
  fails on the code: \<^verbatim>\<open>file.close()\<close> stands after \<^verbatim>\<open>file.write(...)\<close> with no \<^verbatim>\<open>with\<close> or
  \<^verbatim>\<open>finally\<close> around them, so when the write is refused (here: the disk is full) the cell
  ends with the exception and the handle of \<^verbatim>\<open>mnist.onnx\<close> is still open, with the
  unwritten bytes in its buffer, while the handle of \<^verbatim>\<open>frozen_graph.pb\<close>, opened by the
  \<^verbatim>\<open>with\<close> block, is closed.
\<close>

theorem refused_write_leaves_mnist_onnx_open:
  "open_files demo_state = [] \<and>
   fst (conversion_cell disk_full_lib demo_state) = Inl IOError \<and>
   open_files (snd (conversion_cell disk_full_lib demo_state)) =
     [(''mnist.onnx'', ''fc2/add:graph'')]"
  by (simp add: disk_full_conversion demo_state_simps)

text \<open>
  C9. The backend's \<^verbatim>\<open>run\<close> is called only with an array of shape \<^verbatim>\<open>[1, 784]\<close>. For a
  loaded array of 784 elements the reshape succeeds and \<^verbatim>\<open>run\<close> receives the same elements
  as a tensor of rank 2 and shape 1 x 784; for a loaded array of any other element count
  the reshape raises ValueError, the cell ends there and \<^verbatim>\<open>run\<close> is never called. By then
  the backend's \<^verbatim>\<open>prepare\<close> has been called, on the loaded model: it stands before the
  reshape in the source.
\<close>

theorem run_receives_one_by_784:
  "(\<forall>t \<in> set (run_args (trace_of (inference_cell L) s)). shape t = [1, 784])
   \<and> (size_nd a = 784 \<longrightarrow> reshape a [1, 784] = Inr (a\<lparr>shape := [1, 784]\<rparr>))
   \<and> (size_nd a \<noteq> 784 \<longrightarrow> reshape a [1, 784] = Inl ValueError)
   \<and> (fs s ''mnist.onnx'' = Some bs \<and> load_from_string L bs = Inr m \<and> prepare L m = Inr r \<and>
      fs s ''./assets/image.npz'' = Some ib \<and> np_load_bytes L ib = Inr (NdArray a) \<and>
      size_nd a = 784 \<longrightarrow>
        run_args (trace_of (inference_cell L) s) = [a\<lparr>shape := [1, 784]\<rparr>])
   \<and> (fs s ''./assets/image.npz'' = Some ib \<and> np_load_bytes L ib = Inr (NdArray a) \<and>
      size_nd a \<noteq> 784 \<longrightarrow>
        run_args (trace_of (inference_cell L) s) = [] \<and> fst (inference_cell L s) \<noteq> Inr ())
   \<and> (fs s ''mnist.onnx'' = Some bs \<and> load_from_string L bs = Inr m \<and> prepare L m = Inr r \<and>
      fs s ''./assets/image.npz'' = Some ib \<and> np_load_bytes L ib = Inr (NdArray a) \<and>
      size_nd a \<noteq> 784 \<longrightarrow>
        fst (inference_cell L s) = Inl ValueError \<and>
        last (trace_of (inference_cell L) s) = Call_reshape a [1, 784] \<and>
        prepare_args (trace_of (inference_cell L) s) = [m])"
  using run_args_shape [of _ L s] reshape_784 [of a] run_args_fitting_image [of s bs L m r ib a]
    run_args_small_image [of s ib L a] inference_small_image_fails [of s bs L m r ib a]
  by blast

theorem run_receives_one_by_784_witness:
  "fs converted_state ''mnist.onnx'' = Some ''fc2/add:graph'' \<and>
   load_from_string demo_lib ''fc2/add:graph'' = Inr ''fc2/add:graph'' \<and>
   prepare demo_lib ''fc2/add:graph'' = Inr ''fc2/add:graph'' \<and>
   fs converted_state ''./assets/image.npz'' = Some (replicate 784 (CHR ''p'')) \<and>
   np_load_bytes demo_lib (replicate 784 (CHR ''p'')) =
     Inr (NdArray \<lparr>shape = [784], data = replicate 784 112\<rparr>) \<and>
   size_nd \<lparr>shape = [784], data = replicate 784 (112::nat)\<rparr> = 784 \<and>
   run_args (trace_of (inference_cell demo_lib) converted_state) =
     [\<lparr>shape = [1, 784], data = replicate 784 112\<rparr>] \<and>
   fs small_image_state ''mnist.onnx'' = Some ''fc2/add:graph'' \<and>
   fs small_image_state ''./assets/image.npz'' = Some ''abc'' \<and>
   np_load_bytes demo_lib ''abc'' = Inr (NdArray \<lparr>shape = [3], data = [97, 98, 99]\<rparr>) \<and>
   size_nd \<lparr>shape = [3], data = [97, 98, 99 :: nat]\<rparr> \<noteq> 784 \<and>
   reshape \<lparr>shape = [3], data = [97, 98, 99 :: nat]\<rparr> [1, 784] = Inl ValueError \<and>
   run_args (trace_of (inference_cell demo_lib) small_image_state) = [] \<and>
   fst (inference_cell demo_lib small_image_state) = Inl ValueError \<and>
   prepare_args (trace_of (inference_cell demo_lib) small_image_state) = [''fc2/add:graph'']"
proof -
  have big: "fs converted_state ''mnist.onnx'' = Some ''fc2/add:graph'' \<and>
      load_from_string demo_lib ''fc2/add:graph'' = Inr ''fc2/add:graph'' \<and>
      prepare demo_lib ''fc2/add:graph'' = Inr ''fc2/add:graph'' \<and>
      fs converted_state ''./assets/image.npz'' = Some (replicate 784 (CHR ''p'')) \<and>
      np_load_bytes demo_lib (replicate 784 (CHR ''p'')) =
        Inr (NdArray \<lparr>shape = [784], data = replicate 784 112\<rparr>) \<and>
      size_nd \<lparr>shape = [784], data = replicate 784 (112::nat)\<rparr> = 784"
    by (simp add: demo_lib_simps converted_state_simps size_nd_def)
  have small: "fs small_image_state ''mnist.onnx'' = Some ''fc2/add:graph'' \<and>
      load_from_string demo_lib ''fc2/add:graph'' = Inr ''fc2/add:graph'' \<and>
      prepare demo_lib ''fc2/add:graph'' = Inr ''fc2/add:graph'' \<and>
      fs small_image_state ''./assets/image.npz'' = Some ''abc'' \<and>
      np_load_bytes demo_lib ''abc'' = Inr (NdArray \<lparr>shape = [3], data = [97, 98, 99]\<rparr>) \<and>
      size_nd \<lparr>shape = [3], data = [97, 98, 99 :: nat]\<rparr> \<noteq> 784"
    by (simp add: demo_lib_simps small_image_state_simps size_nd_def)
  note T = run_receives_one_by_784
  from big
    T [where L = demo_lib and s = converted_state and bs = "''fc2/add:graph''"
      and m = "''fc2/add:graph''" and r = "''fc2/add:graph''"
      and ib = "replicate 784 (CHR ''p'')"
      and a = "\<lparr>shape = [784], data = replicate 784 112\<rparr>"]
  have 1: "run_args (trace_of (inference_cell demo_lib) converted_state) =
      [\<lparr>shape = [784], data = replicate 784 112\<rparr>\<lparr>shape := [1, 784]\<rparr>]"
    by blast
  from small
    T [where L = demo_lib and s = small_image_state and bs = "''fc2/add:graph''"
      and m = "''fc2/add:graph''" and r = "''fc2/add:graph''" and ib = "''abc''"
      and a = "\<lparr>shape = [3], data = [97, 98, 99]\<rparr>"]
  have 2: "reshape \<lparr>shape = [3], data = [97, 98, 99 :: nat]\<rparr> [1, 784] = Inl ValueError \<and>
      run_args (trace_of (inference_cell demo_lib) small_image_state) = [] \<and>
      fst (inference_cell demo_lib small_image_state) = Inl ValueError \<and>
      prepare_args (trace_of (inference_cell demo_lib) small_image_state) = [''fc2/add:graph'']"
    by blast
  from big small 1 2 show ?thesis by simp
qed

text \<open>
  With an image of three elements the cell ends with the ValueError of \<^verbatim>\<open>reshape\<close>, its
  last call, and the backend has been called by then: \<^verbatim>\<open>prepare\<close> has run on the model.
\<close>

theorem prepare_called_before_reshape_fails:
  "fst (inference_cell demo_lib small_image_state) = Inl ValueError \<and>
   last (trace_of (inference_cell demo_lib) small_image_state) =
     Call_reshape \<lparr>shape = [3], data = [97, 98, 99]\<rparr> [1, 784] \<and>
   prepare_args (trace_of (inference_cell demo_lib) small_image_state) = [''fc2/add:graph''] \<and>
   run_args (trace_of (inference_cell demo_lib) small_image_state) = []"
  by (simp add: small_image_inference)

text \<open>
  C10. The node name handed to the conversion call is the output node name given to the
  freezing tool: the value of \<^verbatim>\<open>--output_node_names\<close> in the freezing command names one
  node, and every conversion call of the conversion cell has that node as its output node.
\<close>

theorem conversion_targets_frozen_output_node:
  "\<forall>c \<in> set (conversion_args (trace_of (conversion_cell L) s)).
     frozen_output_nodes = [fst (snd c)]"
proof
  fix c
  assume "c \<in> set (conversion_args (trace_of (conversion_cell L) s))"
  then have "snd c = (''fc2/add'', 6)"
    by (rule conversion_args_fixed)
  then show "frozen_output_nodes = [fst (snd c)]"
    by (simp add: frozen_output_nodes_eq)
qed

theorem conversion_targets_frozen_output_node_witness:
  "(''graph'', ''fc2/add'', 6) \<in> set (conversion_args (trace_of (conversion_cell demo_lib) demo_state)) \<and>
   frozen_output_nodes = [''fc2/add'']"
proof -
  have m: "(''graph'', ''fc2/add'', 6)
      \<in> set (conversion_args (trace_of (conversion_cell demo_lib) demo_state))"
    by (simp add: conversion_args_parsed [where b = "''graph''" and g = "''graph''"]
        demo_lib_simps demo_state_simps)
  from conversion_targets_frozen_output_node [where L = demo_lib and s = demo_state] m
  have "frozen_output_nodes = [fst (snd (''graph'', ''fc2/add'', 6 :: int))]"
    by (rule bspec)
  with m show ?thesis by simp
qed

end
